theory Spec2Isabelle
  imports Main "HOL-Library.AList" "HOL-Library.Sublist"
begin

section \<open>Data model of \<open>pkg/deployment/utils/apply_utils.go\<close>\<close>

text \<open>
  The orchestrator \<open>ApplyUtil\<close> talks to collaborators that are not part of the translated
  file: the cluster gateway \<open>a.k\<close>, the remote cache \<open>a.ru\<close>, the error and warning sink
  \<open>a.dew\<close>, the hook engine \<open>HooksUtil\<close>, the conflict resolver, the object validator, the
  progress context and the clock.  Every call to the gateway, the hook engine, the progress
  context, the logger, the clock and the random generator is appended to a \<open>trace\<close> kept in
  the state; the lookups in the remote cache and the pure helpers are not.  What a
  collaborator answers is a parameter (the record \<open>env\<close>) that may depend on everything that
  happened before the call.
\<close>

subsection \<open>References, objects, errors\<close>

record GroupVersionKind =
  Group :: string
  Version :: string
  Kind :: string

record ObjectRef =
  GVK :: GroupVersionKind
  Name :: string
  Namespace :: string

text \<open>
  \<open>uo.UnstructuredObject\<close> is a nested tree; the translated file only reads its reference,
  its \<open>metadata.resourceVersion\<close> and its annotations, compares it with
  \<open>reflect.DeepEqual\<close> and clones it.  The remaining fields are kept as an association list.
  A Go pointer \<open>*uo.UnstructuredObject\<close> is an \<open>UnstructuredObject option\<close>, \<open>None\<close> being
  \<open>nil\<close>.
\<close>

record UnstructuredObject =
  k8sRef :: ObjectRef
  k8sResourceVersion :: string
  k8sAnnotations :: "(string \<times> string) list"
  otherFields :: "(string \<times> string) list"

definition GetK8sName :: "UnstructuredObject \<Rightarrow> string" where
  "GetK8sName x = Name (k8sRef x)"

definition SetK8sName :: "UnstructuredObject \<Rightarrow> string \<Rightarrow> UnstructuredObject" where
  "SetK8sName x n = x\<lparr>k8sRef := (k8sRef x)\<lparr>Name := n\<rparr>\<rparr>"

definition SetK8sResourceVersion :: "UnstructuredObject \<Rightarrow> string \<Rightarrow> UnstructuredObject" where
  "SetK8sResourceVersion x rv = x\<lparr>k8sResourceVersion := rv\<rparr>"

definition GetK8sAnnotation :: "UnstructuredObject \<Rightarrow> string \<Rightarrow> string option" where
  "GetK8sAnnotation x n = map_of (k8sAnnotations x) n"

text \<open>A deep copy of a value is the value: the clone shares nothing with the original.\<close>

definition Clone :: "UnstructuredObject \<Rightarrow> UnstructuredObject" where
  "Clone x = x"

type_synonym ApiWarning = string

text \<open>The server's conflict status: a list of \<open>(field path, message)\<close> causes.\<close>

type_synonym Status = "(string \<times> string) list"

datatype StatusReason = NotFound | Conflict | InternalError | OtherReason

text \<open>
  The errors the file distinguishes.  \<open>StatusError\<close> is \<open>*errors.StatusError\<close>;
  \<open>APIStatusError\<close> is any other error that exposes a status reason (the \<open>errors.Is...\<close>
  predicates accept it, \<open>errors.As(err, &statusError)\<close> does not); \<open>NoMatchError\<close> is what
  \<open>meta.IsNoMatchError\<close> accepts; \<open>Errorf\<close> is a plain error carrying a message.
\<close>

datatype error =
    StatusError StatusReason Status
  | APIStatusError StatusReason
  | NoMatchError string
  | Errorf string

fun ReasonForError :: "error \<Rightarrow> StatusReason option" where
  "ReasonForError (StatusError r st) = Some r"
| "ReasonForError (APIStatusError r) = Some r"
| "ReasonForError (NoMatchError m) = None"
| "ReasonForError (Errorf m) = None"

definition IsNotFound :: "error \<Rightarrow> bool" where
  "IsNotFound e = (ReasonForError e = Some NotFound)"

definition IsConflict :: "error \<Rightarrow> bool" where
  "IsConflict e = (ReasonForError e = Some Conflict)"

definition IsInternalError :: "error \<Rightarrow> bool" where
  "IsInternalError e = (ReasonForError e = Some InternalError)"

fun IsNoMatchError :: "error \<Rightarrow> bool" where
  "IsNoMatchError (NoMatchError m) = True"
| "IsNoMatchError e = False"

text \<open>\<open>errors2.As(applyError, &statusError)\<close>: the status of a \<open>*errors.StatusError\<close>.\<close>

fun AsStatusError :: "error \<Rightarrow> Status option" where
  "AsStatusError (StatusError r st) = Some st"
| "AsStatusError e = None"

subsection \<open>Options, hooks and deployment items\<close>

record ApplyUtilOptions =
  ForceApply :: bool
  ReplaceOnError :: bool
  ForceReplaceOnError :: bool
  DryRun :: bool
  AbortOnError :: bool
  WaitObjectTimeout :: int
  NoWait :: bool

record PatchOptions =
  patch_ForceDryRun :: bool
  patch_ForceApply :: bool

record UpdateOptions =
  update_ForceDryRun :: bool

record DeleteOptions =
  delete_ForceDryRun :: bool

text \<open>
  A hook as the spec describes it (the type is declared with \<open>HooksUtil\<close>, outside the
  translated file): the object, its phases, its weight and its deletion policies.
\<close>

record hook =
  hook_object :: UnstructuredObject
  hook_phases :: "string list"
  hook_weight :: int
  hook_deletePolicies :: "string list"

record DeleteObjectItemConfig =
  del_Group :: string
  del_Version :: string
  del_Kind :: string
  del_Name :: string
  del_Namespace :: string

text \<open>
  \<open>deployment.DeploymentItem\<close>, with the fields the file reads.  The result of the method
  \<open>CheckInclusionForDeploy()\<close> is a field.
\<close>

record DeploymentItem =
  RelToProjectItemDir :: string
  Objects :: "UnstructuredObject list"
  Config_DeleteObjects :: "DeleteObjectItemConfig list"
  Config_WaitReadiness :: "bool option"
  item_WaitReadiness :: bool
  Config_Barrier :: "bool option"
  item_Barrier :: bool
  CheckInclusionForDeploy :: bool

subsection \<open>The trace of calls to collaborators\<close>

text \<open>
  Log and progress messages are kept by what they say, not as formatted text; the elapsed
  seconds printed in the readiness messages are left out.
\<close>

datatype message =
    MsgApplyingObject
  | MsgRetryDeleteAndReapply
  | MsgRetryWithReplace
  | MsgWaitingFor ObjectRef
  | MsgCancelledDisappeared ObjectRef
  | MsgFinishedWaiting ObjectRef
  | MsgCancelledErrors ObjectRef
  | MsgTimedOut ObjectRef
  | MsgWaitingToGetReady ObjectRef
  | MsgStillWaiting ObjectRef
  | MsgSkipped
  | MsgDeletingObjects nat
  | MsgDeletingObject ObjectRef nat nat
  | MsgApplyingObjects nat
  | MsgApplyingObjectOf ObjectRef nat nat
  | MsgAppliedOf nat nat
  | MsgFinalStatus nat nat nat nat nat nat
  | MsgRunningServerSideApply
  | MsgWaitingOnBarrier
  | MsgConflictWhilePatching ObjectRef

datatype event =
    PatchObject_call UnstructuredObject PatchOptions
  | UpdateObject_call UnstructuredObject UpdateOptions
  | DeleteSingleObject_call ObjectRef DeleteOptions
  | GetSingleObject_call ObjectRef
  | GetGVKs_call string string string
  | RediscoverResources_call
  | RunHooks_call "hook list"
  | RandomString_call nat
  | Now_call
  | Sleep_call int
  | Log_Debugf ObjectRef message
  | Log_Warningf ObjectRef message
  | Log_Infof message
  | pctx_SetTotal int
  | pctx_SetStatus message
  | pctx_Increment
  | pctx_Debugf message
  | pctx_Infof message
  | pctx_Warningf message
  | pctx_InfofAndStatus message
  | pctx_Finish

subsection \<open>The orchestrator's state\<close>

text \<open>
  The struct \<open>ApplyUtil\<close>.  The field \<open>o\<close> is \<open>opt\<close> here.  The two result maps are
  association lists with one entry per key (\<open>AList.update\<close>), the two sets of deleted
  references are duplicate-free lists (\<open>List.insert\<close>), so that \<open>len\<close> is \<open>length\<close>.

  Modelled from the spec: the sink \<open>DeploymentErrorsAndWarnings\<close> (\<open>a.dew\<close>) is not in the
  translated file; section 4.3 says it aggregates errors, warnings and API warnings by
  reference.  It is the three lists \<open>dew_errors\<close>, \<open>dew_warnings\<close>, \<open>dew_apiWarnings\<close>.
\<close>

record ApplyUtil =
  deployments :: "DeploymentItem list"
  opt :: ApplyUtilOptions
  AppliedObjects :: "(ObjectRef \<times> UnstructuredObject) list"
  appliedHookObjects :: "(ObjectRef \<times> UnstructuredObject) list"
  deletedObjects :: "ObjectRef list"
  deletedHookObjects :: "ObjectRef list"
  abortSignal :: bool
  deployedNewCRD :: bool
  dew_errors :: "(ObjectRef \<times> error) list"
  dew_warnings :: "(ObjectRef \<times> error) list"
  dew_apiWarnings :: "(ObjectRef \<times> ApiWarning) list"
  trace :: "event list"

text \<open>
  What a call returns: \<open>Ok\<close> with its value, \<open>Panic\<close> when the Go code dereferences a nil
  pointer, \<open>OutOfFuel\<close> when one of the two unbounded loops has not returned within the
  number of iterations granted.
\<close>

datatype 'a result = Ok 'a | Panic | OutOfFuel

fun bind_result :: "'a result \<Rightarrow> ('a \<Rightarrow> 'b result) \<Rightarrow> 'b result" where
  "bind_result (Ok v) f = f v"
| "bind_result Panic f = Panic"
| "bind_result OutOfFuel f = OutOfFuel"

record ValidateResult =
  Ready :: bool
  Errors :: "string list"

record LostOwnership =
  lo_Field :: string
  lo_Message :: string

text \<open>
  The collaborators.  The gateway calls return Go's raw triple \<open>(result, warnings, err)\<close>;
  the \<open>event list\<close> argument is the trace before the call.  \<open>RunHooks\<close> works on the
  orchestrator itself (\<open>HooksUtil{a: a}\<close>).  The conflict resolver returns either an error or
  the resolved object with the lost ownerships (section 4.4 of the spec).  \<open>fmt_Errorf\<close> is
  \<open>fmt.Errorf(format)\<close> called with a format and no operands, as on line 344: the error
  carries the format as the formatter of the standard library renders it, which is the
  format itself only where it holds no verb.
\<close>

record env =
  PatchObject :: "event list \<Rightarrow> UnstructuredObject \<Rightarrow> PatchOptions \<Rightarrow>
     UnstructuredObject option \<times> ApiWarning list \<times> error option"
  UpdateObject :: "event list \<Rightarrow> UnstructuredObject \<Rightarrow> UpdateOptions \<Rightarrow>
     UnstructuredObject option \<times> ApiWarning list \<times> error option"
  DeleteSingleObject :: "event list \<Rightarrow> ObjectRef \<Rightarrow> DeleteOptions \<Rightarrow>
     ApiWarning list \<times> error option"
  GetSingleObject :: "event list \<Rightarrow> ObjectRef \<Rightarrow>
     UnstructuredObject option \<times> ApiWarning list \<times> error option"
  GetGVKs :: "event list \<Rightarrow> string \<Rightarrow> string \<Rightarrow> string \<Rightarrow> GroupVersionKind list"
  RediscoverResources :: "event list \<Rightarrow> error option"
  FixObjectForPatch :: "UnstructuredObject \<Rightarrow> UnstructuredObject"
  GetRemoteObject :: "ObjectRef \<Rightarrow> UnstructuredObject option"
  ValidateObject :: "event list \<Rightarrow> UnstructuredObject option \<Rightarrow> ValidateResult"
  ResolveFieldManagerConflicts :: "UnstructuredObject \<Rightarrow> UnstructuredObject \<Rightarrow> Status \<Rightarrow>
     error + (UnstructuredObject \<times> LostOwnership list)"
  RandomString :: "event list \<Rightarrow> nat \<Rightarrow> string"
  Now :: "event list \<Rightarrow> int"
  ReplaceKeys :: "UnstructuredObject \<Rightarrow> string \<Rightarrow> string \<Rightarrow> UnstructuredObject"
  ReplaceValues :: "UnstructuredObject \<Rightarrow> string \<Rightarrow> string \<Rightarrow> UnstructuredObject"
  ParseBoolOrFalse :: "string option \<Rightarrow> bool"
  RefString :: "ObjectRef \<Rightarrow> string"
  fmt_Errorf :: "string \<Rightarrow> error"
  GetHook :: "UnstructuredObject \<Rightarrow> hook option"
  DetermineHooks :: "DeploymentItem \<Rightarrow> string list \<Rightarrow> hook list"
  RunHooks :: "hook list \<Rightarrow> ApplyUtil \<Rightarrow> ApplyUtil result"

definition emit :: "event \<Rightarrow> ApplyUtil \<Rightarrow> ApplyUtil" where
  "emit ev a = a\<lparr>trace := trace a @ [ev]\<rparr>"

section \<open>The operations\<close>

definition NewApplyUtil :: "DeploymentItem list \<Rightarrow> ApplyUtilOptions \<Rightarrow> ApplyUtil" where
  "NewApplyUtil ds options =
     \<lparr>deployments = ds, opt = options,
      AppliedObjects = [], appliedHookObjects = [],
      deletedObjects = [], deletedHookObjects = [],
      abortSignal = False, deployedNewCRD = True,
      dew_errors = [], dew_warnings = [], dew_apiWarnings = [],
      trace = []\<rparr>"

text \<open>\<open>handleResult\<close> calls \<open>appliedObject.GetK8sRef()\<close> unguarded: a nil object panics.\<close>

definition handleResult :: "UnstructuredObject option \<Rightarrow> bool \<Rightarrow> ApplyUtil \<Rightarrow> ApplyUtil result" where
  "handleResult appliedObject hook a =
     (case appliedObject of
        None \<Rightarrow> Panic
      | Some obj \<Rightarrow>
          let ref = k8sRef obj;
              a1 = (if hook
                    then a\<lparr>appliedHookObjects := AList.update ref obj (appliedHookObjects a)\<rparr>
                    else a)
          in Ok (a1\<lparr>AppliedObjects := AList.update ref obj (AppliedObjects a1)\<rparr>))"

text \<open>
  Modelled from the spec: the methods of the sink \<open>a.dew\<close> (section 4.3): \<open>AddError\<close>,
  \<open>AddWarning\<close> and \<open>AddApiWarnings\<close> record by reference, \<open>HadError\<close> answers whether an
  error was recorded for a reference, the counts are those of the recorded entries.
\<close>

definition AddError :: "ObjectRef \<Rightarrow> error \<Rightarrow> ApplyUtil \<Rightarrow> ApplyUtil" where
  "AddError ref err a = a\<lparr>dew_errors := dew_errors a @ [(ref, err)]\<rparr>"

definition AddWarning :: "ObjectRef \<Rightarrow> error \<Rightarrow> ApplyUtil \<Rightarrow> ApplyUtil" where
  "AddWarning ref warning a = a\<lparr>dew_warnings := dew_warnings a @ [(ref, warning)]\<rparr>"

definition AddApiWarnings :: "ObjectRef \<Rightarrow> ApiWarning list \<Rightarrow> ApplyUtil \<Rightarrow> ApplyUtil" where
  "AddApiWarnings ref warnings a =
     a\<lparr>dew_apiWarnings := dew_apiWarnings a @ map (Pair ref) warnings\<rparr>"

definition dew_HadError :: "ObjectRef \<Rightarrow> ApplyUtil \<Rightarrow> bool" where
  "dew_HadError ref a = (ref \<in> fst ` set (dew_errors a))"

definition ErrorCount :: "ApplyUtil \<Rightarrow> nat" where
  "ErrorCount a = length (dew_errors a)"

definition WarningCount :: "ApplyUtil \<Rightarrow> nat" where
  "WarningCount a = length (dew_warnings a)"

definition handleApiWarnings :: "ObjectRef \<Rightarrow> ApiWarning list \<Rightarrow> ApplyUtil \<Rightarrow> ApplyUtil" where
  "handleApiWarnings ref warnings a = AddApiWarnings ref warnings a"

definition HandleWarning :: "ObjectRef \<Rightarrow> error \<Rightarrow> ApplyUtil \<Rightarrow> ApplyUtil" where
  "HandleWarning ref warning a = AddWarning ref warning a"

definition HandleError :: "ObjectRef \<Rightarrow> error \<Rightarrow> ApplyUtil \<Rightarrow> ApplyUtil" where
  "HandleError ref err a =
     (let a1 = (if AbortOnError (opt a) then a\<lparr>abortSignal := True\<rparr> else a)
      in AddError ref err a1)"

definition HadError :: "ObjectRef \<Rightarrow> ApplyUtil \<Rightarrow> bool" where
  "HadError ref a = dew_HadError ref a"

definition DeleteObject :: "env \<Rightarrow> ObjectRef \<Rightarrow> bool \<Rightarrow> ApplyUtil \<Rightarrow> bool \<times> ApplyUtil" where
  "DeleteObject k ref hook a =
     (let options = \<lparr>delete_ForceDryRun = DryRun (opt a)\<rparr>;
          (apiWarnings, err) = DeleteSingleObject k (trace a) ref options;
          a1 = emit (DeleteSingleObject_call ref options) a;
          a2 = handleApiWarnings ref apiWarnings a1
      in case err of
           Some e \<Rightarrow> (False, if \<not> IsNotFound e then HandleError ref e a2 else a2)
         | None \<Rightarrow>
             (True, if hook
                    then a2\<lparr>deletedHookObjects := List.insert ref (deletedHookObjects a2)\<rparr>
                    else a2\<lparr>deletedObjects := List.insert ref (deletedObjects a2)\<rparr>))"

subsection \<open>The retry ladder\<close>

definition retryApplyForceReplace ::
  "env \<Rightarrow> UnstructuredObject \<Rightarrow> bool \<Rightarrow> error \<Rightarrow> ApplyUtil \<Rightarrow> ApplyUtil result" where
  "retryApplyForceReplace k x hook applyError a =
     (let ref = k8sRef x in
      if \<not> ForceReplaceOnError (opt a) then Ok (HandleError ref applyError a)
      else
        let a1 = emit (Log_Warningf ref MsgRetryDeleteAndReapply) a;
            (deleted, a2) = DeleteObject k ref hook a1
        in if \<not> deleted then Ok a2
           else if \<not> DryRun (opt a2) then
             (let options = \<lparr>patch_ForceDryRun = DryRun (opt a2), patch_ForceApply = False\<rparr>;
                  (r, apiWarnings, err) = PatchObject k (trace a2) x options;
                  a3 = handleApiWarnings ref apiWarnings (emit (PatchObject_call x options) a2)
              in case err of
                   Some e \<Rightarrow> Ok (HandleError ref e a3)
                 | None \<Rightarrow> handleResult r hook a3)
           else handleResult (Some x) hook a2)"

text \<open>
  \<open>retryApplyWithReplace\<close>: the clone \<open>x2\<close> is stamped with the remote resource version,
  and the call on line 175 is \<open>a.k.UpdateObject(x, o)\<close>.
\<close>

fun retryApplyWithReplace ::
  "env \<Rightarrow> UnstructuredObject \<Rightarrow> bool \<Rightarrow> UnstructuredObject option \<Rightarrow> error \<Rightarrow> ApplyUtil
     \<Rightarrow> ApplyUtil result" where
  "retryApplyWithReplace k x hook remoteObject applyError a =
     (let ref = k8sRef x in
      if \<not> ReplaceOnError (opt a) \<or> remoteObject = None then Ok (HandleError ref applyError a)
      else
        let a1 = emit (Log_Warningf ref MsgRetryWithReplace) a;
            rv = k8sResourceVersion (the remoteObject);
            x2 = SetK8sResourceVersion (Clone x) rv;
            options = \<lparr>update_ForceDryRun = DryRun (opt a1)\<rparr>;
            (r, apiWarnings, err) = UpdateObject k (trace a1) x options;
            a2 = handleApiWarnings ref apiWarnings (emit (UpdateObject_call x options) a1)
        in case err of
             Some e \<Rightarrow> retryApplyForceReplace k x hook e a2
           | None \<Rightarrow> handleResult r hook a2)"

declare retryApplyWithReplace.simps [simp del]

text \<open>
  The warning of line 206:
  \<open>"%s. Not updating field '%s' as we lost field ownership"\<close>.
\<close>

definition lostOwnershipWarning :: "LostOwnership \<Rightarrow> error" where
  "lostOwnershipWarning lo =
     Errorf (lo_Message lo @ ''. Not updating field '' @ [CHR 0x27] @ lo_Field lo @ [CHR 0x27]
             @ '' as we lost field ownership'')"

text \<open>Lines 213 to 224 of \<open>retryApplyWithConflicts\<close>: the forced patch of \<open>x2\<close>.\<close>

definition retryApplyWithConflicts_patch ::
  "env \<Rightarrow> ObjectRef \<Rightarrow> UnstructuredObject \<Rightarrow> bool \<Rightarrow> ApplyUtil \<Rightarrow> ApplyUtil result" where
  "retryApplyWithConflicts_patch k ref x2 hook a =
     (let options = \<lparr>patch_ForceDryRun = DryRun (opt a), patch_ForceApply = True\<rparr>;
          (r, apiWarnings, err) = PatchObject k (trace a) x2 options;
          a1 = handleApiWarnings ref apiWarnings (emit (PatchObject_call x2 options) a)
      in case err of
           Some e \<Rightarrow> Ok (HandleError ref e a1)
         | None \<Rightarrow> handleResult r hook a1)"

definition retryApplyWithConflicts ::
  "env \<Rightarrow> UnstructuredObject \<Rightarrow> bool \<Rightarrow> UnstructuredObject option \<Rightarrow> error \<Rightarrow> ApplyUtil
     \<Rightarrow> ApplyUtil result" where
  "retryApplyWithConflicts k x hook remoteObject applyError a =
     (let ref = k8sRef x in
      case remoteObject of
        None \<Rightarrow> Ok (HandleError ref applyError a)
      | Some remote \<Rightarrow>
          if \<not> ForceApply (opt a) then
            (case AsStatusError applyError of
               None \<Rightarrow> Ok (HandleError ref applyError a)
             | Some errStatus \<Rightarrow>
                 (case ResolveFieldManagerConflicts k x remote errStatus of
                    Inl err \<Rightarrow> Ok (HandleError ref err a)
                  | Inr (x3, lostOwnership) \<Rightarrow>
                      retryApplyWithConflicts_patch k ref x3 hook
                        (fold (\<lambda>lo. AddWarning ref (lostOwnershipWarning lo)) lostOwnership a)))
          else retryApplyWithConflicts_patch k ref x hook a)"

text \<open>
  \<open>handleNewCRDs\<close> returns \<open>(retry, err)\<close>; on success of the patch it reads the reference
  of the result \<open>x\<close>, which panics when the gateway returned neither a result nor an error.
\<close>

definition handleNewCRDs ::
  "env \<Rightarrow> UnstructuredObject option \<Rightarrow> error option \<Rightarrow> ApplyUtil
     \<Rightarrow> (bool \<times> error option \<times> ApplyUtil) result" where
  "handleNewCRDs k x err a =
     (case err of
        Some e \<Rightarrow>
          if IsNoMatchError e then
            (if deployedNewCRD a then
               (let a1 = a\<lparr>deployedNewCRD := False\<rparr>;
                    err' = RediscoverResources k (trace a1);
                    a2 = emit RediscoverResources_call a1
                in case err' of
                     Some e' \<Rightarrow> Ok (False, Some e', a2)
                   | None \<Rightarrow> Ok (True, None, a2))
             else Ok (False, err, a))
          else Ok (False, err, a)
      | None \<Rightarrow>
          (case x of
             None \<Rightarrow> Panic
           | Some obj \<Rightarrow>
               let ref = k8sRef obj in
               if Group (GVK ref) = ''apiextensions.k8s.io''
                  \<and> Kind (GVK ref) = ''CustomResourceDefinition''
               then Ok (True, None, a\<lparr>deployedNewCRD := True\<rparr>)
               else Ok (False, None, a)))"

text \<open>Lines 254 to 271 of \<open>ApplyObject\<close>: what is done with the outcome of the patch.\<close>

definition ApplyObject_classify ::
  "env \<Rightarrow> ObjectRef \<Rightarrow> UnstructuredObject \<Rightarrow> bool \<Rightarrow> UnstructuredObject option \<Rightarrow> bool
     \<Rightarrow> UnstructuredObject option \<Rightarrow> ApiWarning list \<Rightarrow> error option \<Rightarrow> ApplyUtil
     \<Rightarrow> ApplyUtil result" where
  "ApplyObject_classify k ref x hook remoteObject usesDummyName r apiWarnings err a =
     (let r1 = (if r \<noteq> None \<and> usesDummyName then
                  (let tmpName = GetK8sName (the r);
                       realName = GetK8sName (the remoteObject)
                   in Some (ReplaceValues k (ReplaceKeys k (the r) tmpName realName)
                              tmpName realName))
                else r);
          a1 = handleApiWarnings ref apiWarnings a
      in case err of
           None \<Rightarrow> handleResult r1 hook a1
         | Some e \<Rightarrow>
             if IsNoMatchError e then Ok (HandleError ref e a1)
             else if IsConflict e then retryApplyWithConflicts k x hook remoteObject e a1
             else if IsInternalError e then Ok (HandleError ref e a1)
             else retryApplyWithReplace k x hook remoteObject e a1)"

text \<open>
  Lines 228 to 244 of \<open>ApplyObject\<close>: the object is normalised and, for the dry run of a
  replaced object, renamed.  The result is the object to patch, \<open>usesDummyName\<close> and the
  state.
\<close>

definition ApplyObject_prepare ::
  "env \<Rightarrow> UnstructuredObject \<Rightarrow> bool \<Rightarrow> ApplyUtil \<Rightarrow> UnstructuredObject \<times> bool \<times> ApplyUtil" where
  "ApplyObject_prepare k x0 replaced a0 =
     (let ref = k8sRef x0;
          a1 = emit (Log_Debugf ref MsgApplyingObject) a0;
          x1 = FixObjectForPatch k x0;
          remoteObject = GetRemoteObject k ref;
          usesDummyName = (DryRun (opt a1) \<and> replaced \<and> remoteObject \<noteq> None)
      in if usesDummyName
         then (SetK8sName (Clone x1) (GetK8sName (Clone x1) @ ''-'' @ RandomString k (trace a1) 8),
               True, emit (RandomString_call 8) a1)
         else (x1, False, a1))"

text \<open>
  Lines 246 to 271 of \<open>ApplyObject\<close>: the first patch, the handling of new CRDs with its
  one retry, and the classification of the outcome.
\<close>

definition ApplyObject_patch ::
  "env \<Rightarrow> ObjectRef \<Rightarrow> UnstructuredObject \<Rightarrow> bool \<Rightarrow> UnstructuredObject option \<Rightarrow> bool
     \<Rightarrow> ApplyUtil \<Rightarrow> ApplyUtil result" where
  "ApplyObject_patch k ref x hook remoteObject usesDummyName a =
     (let options = \<lparr>patch_ForceDryRun = DryRun (opt a), patch_ForceApply = False\<rparr>;
          (r, apiWarnings, err) = PatchObject k (trace a) x options;
          a1 = emit (PatchObject_call x options) a
      in bind_result (handleNewCRDs k r err a1)
           (\<lambda>(retry, err1, a2).
              if retry then
                (let (r2, apiWarnings2, err2) = PatchObject k (trace a2) x options;
                     a3 = emit (PatchObject_call x options) a2
                 in ApplyObject_classify k ref x hook remoteObject usesDummyName
                      r2 apiWarnings2 err2 a3)
              else ApplyObject_classify k ref x hook remoteObject usesDummyName
                     r apiWarnings err1 a2))"

definition ApplyObject ::
  "env \<Rightarrow> UnstructuredObject \<Rightarrow> bool \<Rightarrow> bool \<Rightarrow> ApplyUtil \<Rightarrow> ApplyUtil result" where
  "ApplyObject k x0 replaced hook a0 =
     (let (x, usesDummyName, a1) = ApplyObject_prepare k x0 replaced a0
      in ApplyObject_patch k (k8sRef x0) x hook (GetRemoteObject k (k8sRef x0)) usesDummyName a1)"

subsection \<open>Waiting for readiness\<close>

text \<open>
  Durations are nanoseconds, as \<open>time.Duration\<close>.  \<open>time.Now()\<close> is a call to the clock:
  it is recorded in the trace, so that two readings may differ.
\<close>

definition Second :: int where
  "Second = 1000000000"

definition Millisecond :: int where
  "Millisecond = 1000000"

definition readClock :: "env \<Rightarrow> ApplyUtil \<Rightarrow> int \<times> ApplyUtil" where
  "readClock k a = (Now k (trace a), emit Now_call a)"

text \<open>
  One iteration of the loop of \<open>WaitReadiness\<close> (lines 317 to 367) either returns or goes
  on with a new \<open>lastLogTime\<close> and \<open>didLog\<close>.
\<close>

datatype wait_step = Return bool ApplyUtil | Continue int bool ApplyUtil

definition WaitReadiness_iter ::
  "env \<Rightarrow> ObjectRef \<Rightarrow> int \<Rightarrow> int \<Rightarrow> int \<Rightarrow> bool \<Rightarrow> ApplyUtil \<Rightarrow> wait_step" where
  "WaitReadiness_iter k ref timeout startTime lastLogTime didLog a =
     (let (elapsedNow, a1) = readClock k a;
          (obj, apiWarnings, err) = GetSingleObject k (trace a1) ref;
          a2 = handleApiWarnings ref apiWarnings (emit (GetSingleObject_call ref) a1)
      in case err of
           Some e \<Rightarrow>
             if IsNotFound e then
               Return False
                 (HandleError ref
                    (Errorf (RefString k ref @ '' disappeared while waiting for it to become ready''))
                    (if didLog then emit (pctx_Warningf (MsgCancelledDisappeared ref)) a2 else a2))
             else Return False (HandleError ref e a2)
         | None \<Rightarrow>
             let v = ValidateObject k (trace a2) obj in
             if Ready v then
               Return True (if didLog then emit (pctx_Infof (MsgFinishedWaiting ref)) a2 else a2)
             else if length (Errors v) \<noteq> 0 then
               Return False
                 (fold (\<lambda>e. HandleError ref (fmt_Errorf k e)) (Errors v)
                    (if didLog then emit (pctx_Warningf (MsgCancelledErrors ref)) a2 else a2))
             else
               let (timeoutNow, a3) = (if timeout > 0 then readClock k a2 else (startTime, a2)) in
               if timeout > 0 \<and> timeoutNow - startTime \<ge> timeout then
                 Return False
                   (HandleError ref (Errorf (''timed out while waiting for '' @ RefString k ref))
                      (emit (pctx_Warningf (MsgTimedOut ref)) a3))
               else
                 let a4 = emit (pctx_SetStatus (MsgWaitingToGetReady ref)) a3 in
                 if \<not> didLog then
                   (let a5 = emit (pctx_Infof (MsgWaitingToGetReady ref)) a4;
                        (t, a6) = readClock k a5
                    in Continue t True (emit (Sleep_call (500 * Millisecond)) a6))
                 else
                   (let (logNow, a5) = readClock k a4 in
                    if logNow - lastLogTime \<ge> 10 * Second then
                      (let a6 = emit (pctx_Infof (MsgStillWaiting ref)) a5;
                           (t, a7) = readClock k a6
                       in Continue t didLog (emit (Sleep_call (500 * Millisecond)) a7))
                    else Continue lastLogTime didLog (emit (Sleep_call (500 * Millisecond)) a5)))"

fun WaitReadiness_loop ::
  "nat \<Rightarrow> env \<Rightarrow> ObjectRef \<Rightarrow> int \<Rightarrow> int \<Rightarrow> int \<Rightarrow> bool \<Rightarrow> ApplyUtil
     \<Rightarrow> (bool \<times> ApplyUtil) result" where
  "WaitReadiness_loop 0 k ref timeout startTime lastLogTime didLog a = OutOfFuel"
| "WaitReadiness_loop (Suc fuel) k ref timeout startTime lastLogTime didLog a =
     (case WaitReadiness_iter k ref timeout startTime lastLogTime didLog a of
        Return ready a' \<Rightarrow> Ok (ready, a')
      | Continue lastLogTime' didLog' a' \<Rightarrow>
          WaitReadiness_loop fuel k ref timeout startTime lastLogTime' didLog' a')"

definition WaitReadiness ::
  "nat \<Rightarrow> env \<Rightarrow> ObjectRef \<Rightarrow> int \<Rightarrow> ApplyUtil \<Rightarrow> (bool \<times> ApplyUtil) result" where
  "WaitReadiness fuel k ref timeout a =
     (if DryRun (opt a) then Ok (True, a)
      else
        let timeout1 = (if timeout = 0 then WaitObjectTimeout (opt a) else timeout);
            a1 = emit (pctx_Debugf (MsgWaitingFor ref)) a;
            (lastLogTime, a2) = readClock k a1;
            (startTime, a3) = readClock k a2
        in WaitReadiness_loop fuel k ref timeout1 startTime lastLogTime False a3)"

subsection \<open>Applying one deployment item\<close>

text \<open>Lines 373 to 383: the references to delete, by enumerating the GVKs.\<close>

fun expandDeleteObjects ::
  "env \<Rightarrow> DeleteObjectItemConfig list \<Rightarrow> ObjectRef list \<Rightarrow> ApplyUtil \<Rightarrow> ObjectRef list \<times> ApplyUtil" where
  "expandDeleteObjects k [] toDelete a = (toDelete, a)"
| "expandDeleteObjects k (x # xs) toDelete a =
     (let gvks = GetGVKs k (trace a) (del_Group x) (del_Version x) (del_Kind x);
          a1 = emit (GetGVKs_call (del_Group x) (del_Version x) (del_Kind x)) a
      in expandDeleteObjects k xs
           (toDelete @ map (\<lambda>gvk. \<lparr>GVK = gvk, Name = del_Name x, Namespace = del_Namespace x\<rparr>) gvks)
           a1)"

text \<open>Lines 387 to 392: no desired object of the item is in the remote cache.\<close>

definition initialDeploy :: "env \<Rightarrow> DeploymentItem \<Rightarrow> bool" where
  "initialDeploy k d = list_all (\<lambda>obj. GetRemoteObject k (k8sRef obj) = None) (Objects d)"

text \<open>Lines 394 to 400.\<close>

definition applyObjects :: "env \<Rightarrow> DeploymentItem \<Rightarrow> UnstructuredObject list" where
  "applyObjects k d = filter (\<lambda>obj. GetHook k obj = None) (Objects d)"

text \<open>
  Lines 402 to 410.  \<open>preHooks\<close> and \<open>postHooks\<close> start as nil slices; the upgrade branch
  assigns \<open>postHooks\<close> on both of its lines.
\<close>

definition selectHooks :: "env \<Rightarrow> DeploymentItem \<Rightarrow> hook list \<times> hook list" where
  "selectHooks k d =
     (let preHooks0 = ([] :: hook list); postHooks0 = ([] :: hook list) in
      if initialDeploy k d then
        (let preHooks1 = DetermineHooks k d [''pre-deploy-initial'', ''pre-deploy''];
             postHooks1 = DetermineHooks k d [''post-deploy-initial'', ''post-deploy'']
         in (preHooks1, postHooks1))
      else
        (let postHooks1 = DetermineHooks k d [''pre-deploy-upgrade'', ''pre-deploy''];
             postHooks2 = DetermineHooks k d [''post-deploy-upgrade'', ''post-deploy'']
         in (preHooks0, postHooks2)))"

text \<open>Lines 422 to 426: the loop over \<open>toDelete\<close>; \<open>i\<close> is the index, \<open>n\<close> is \<open>len(toDelete)\<close>.\<close>

fun deleteObjects_loop :: "env \<Rightarrow> nat \<Rightarrow> nat \<Rightarrow> ObjectRef list \<Rightarrow> ApplyUtil \<Rightarrow> ApplyUtil" where
  "deleteObjects_loop k i n [] a = a"
| "deleteObjects_loop k i n (ref # refs) a =
     (let a1 = emit (pctx_SetStatus (MsgDeletingObject ref (i + 1) n)) a;
          (deleted, a2) = DeleteObject k ref False a1;
          a3 = emit pctx_Increment a2
      in deleteObjects_loop k (i + 1) n refs a3)"

text \<open>\<open>h.RunHooks(hooks, pctx)\<close>: the call is recorded, the hook engine does the rest.\<close>

definition runHooks :: "env \<Rightarrow> hook list \<Rightarrow> ApplyUtil \<Rightarrow> ApplyUtil result" where
  "runHooks k hooks a = RunHooks k hooks (emit (RunHooks_call hooks) a)"

text \<open>
  Lines 445 to 449: the progress line that is logged every ten seconds, and after the last
  object once one was logged.  The result is the new \<open>startTime\<close>, \<open>didLog\<close> and state.
\<close>

definition logApplied ::
  "env \<Rightarrow> nat \<Rightarrow> nat \<Rightarrow> int \<Rightarrow> bool \<Rightarrow> ApplyUtil \<Rightarrow> int \<times> bool \<times> ApplyUtil" where
  "logApplied k i n startTime didLog a =
     (let (now, a1) = readClock k a in
      if now - startTime \<ge> 10 * Second \<or> (didLog \<and> int i = int n - 1) then
        (let a2 = emit (pctx_Infof (MsgAppliedOf (i + 1) n)) a1;
             (startTime', a3) = readClock k a2
         in (startTime', True, a3))
      else (startTime, didLog, a1))"

text \<open>Line 451.\<close>

definition waitReadiness :: "env \<Rightarrow> DeploymentItem \<Rightarrow> UnstructuredObject \<Rightarrow> bool" where
  "waitReadiness k d obj =
     ((Config_WaitReadiness d \<noteq> None \<and> the (Config_WaitReadiness d))
      \<or> item_WaitReadiness d
      \<or> ParseBoolOrFalse k (GetK8sAnnotation obj ''kluctl.io/wait-readiness''))"

text \<open>
  Lines 436 to 455: the loop over \<open>applyObjects\<close>; \<open>i\<close> is the index, \<open>n\<close> is
  \<open>len(applyObjects)\<close>.  \<open>break\<close> leaves the loop with the state as it is.
\<close>

fun applyObjects_loop ::
  "nat \<Rightarrow> env \<Rightarrow> DeploymentItem \<Rightarrow> nat \<Rightarrow> nat \<Rightarrow> UnstructuredObject list \<Rightarrow> int \<Rightarrow> bool
     \<Rightarrow> ApplyUtil \<Rightarrow> ApplyUtil result" where
  "applyObjects_loop fuel k d i n [] startTime didLog a = Ok a"
| "applyObjects_loop fuel k d i n (obj # objs) startTime didLog a =
     (if abortSignal a then Ok a
      else
        (case ApplyObject k obj False False
                (emit (pctx_SetStatus (MsgApplyingObjectOf (k8sRef obj) (i + 1) n)) a) of
           Panic \<Rightarrow> Panic
         | OutOfFuel \<Rightarrow> OutOfFuel
         | Ok a1 \<Rightarrow>
             (case logApplied k i n startTime didLog (emit pctx_Increment a1) of
                (startTime', didLog', a2) \<Rightarrow>
                  if \<not> NoWait (opt a2) \<and> waitReadiness k d obj then
                    (case WaitReadiness fuel k (k8sRef obj) 0 a2 of
                       Panic \<Rightarrow> Panic
                     | OutOfFuel \<Rightarrow> OutOfFuel
                     | Ok (ready, a3) \<Rightarrow>
                         applyObjects_loop fuel k d (i + 1) n objs startTime' didLog' a3)
                  else applyObjects_loop fuel k d (i + 1) n objs startTime' didLog' a2)))"

text \<open>Lines 459 to 480.\<close>

definition finalStatus :: "ApplyUtil \<Rightarrow> ApplyUtil" where
  "finalStatus a =
     emit pctx_Finish
       (emit (pctx_SetStatus
                (MsgFinalStatus (length (AppliedObjects a)) (length (appliedHookObjects a))
                   (length (deletedObjects a)) (length (deletedHookObjects a))
                   (ErrorCount a) (WarningCount a))) a)"

definition applyDeploymentItem ::
  "nat \<Rightarrow> env \<Rightarrow> DeploymentItem \<Rightarrow> ApplyUtil \<Rightarrow> ApplyUtil result" where
  "applyDeploymentItem fuel k d a =
     (let (toDelete, a1) = expandDeleteObjects k (Config_DeleteObjects d) [] a;
          applyObjs = applyObjects k d;
          (preHooks, postHooks) = selectHooks k d;
          total = length applyObjs + length preHooks + length postHooks;
          a2 = emit (pctx_SetTotal (int total)) a1
      in if \<not> CheckInclusionForDeploy d then
           Ok (emit pctx_Finish (emit (pctx_InfofAndStatus MsgSkipped) a2))
         else
           let a3 = (if length toDelete \<noteq> 0
                     then deleteObjects_loop k 0 (length toDelete) toDelete
                            (emit (pctx_Infof (MsgDeletingObjects (length toDelete))) a2)
                     else a2)
           in bind_result (runHooks k preHooks a3)
                (\<lambda>a4.
                   let a5 = (if length applyObjs \<noteq> 0
                             then emit (pctx_Infof (MsgApplyingObjects (length applyObjs))) a4
                             else a4);
                       (startTime, a6) = readClock k a5
                   in bind_result
                        (applyObjects_loop fuel k d 0 (length applyObjs) applyObjs startTime False a6)
                        (\<lambda>a7. bind_result (runHooks k postHooks a7) (\<lambda>a8. Ok (finalStatus a8)))))"

subsection \<open>The replace loop\<close>

text \<open>
  \<open>ReplaceObject\<close>: the loop of lines 522 to 565, with \<open>firstCall\<close> as an argument.  The
  callback returns Go's pair \<open>(modified, err)\<close>; \<open>modified.Object\<close> on line 547 panics
  when it returned neither.
\<close>

fun ReplaceObject_loop ::
  "nat \<Rightarrow> env \<Rightarrow> ObjectRef \<Rightarrow> UnstructuredObject option
     \<Rightarrow> (UnstructuredObject \<Rightarrow> UnstructuredObject option \<times> error option) \<Rightarrow> bool \<Rightarrow> ApplyUtil
     \<Rightarrow> ApplyUtil result" where
  "ReplaceObject_loop 0 k ref firstVersion callback firstCall a = OutOfFuel"
| "ReplaceObject_loop (Suc fuel) k ref firstVersion callback firstCall a =
     (case (if firstCall \<and> firstVersion \<noteq> None then Inr (firstVersion, a)
            else
              let (o2, apiWarnings, err) = GetSingleObject k (trace a) ref;
                  a1 = AddApiWarnings ref apiWarnings (emit (GetSingleObject_call ref) a)
              in if err \<noteq> None \<and> \<not> IsNotFound (the err) then Inl (HandleError ref (the err) a1)
                 else Inr (o2, a1)) of
        Inl a' \<Rightarrow> Ok a'
      | Inr (remote, a1) \<Rightarrow>
          (case remote of
             None \<Rightarrow> handleResult remote False a1
           | Some rem \<Rightarrow>
               (let remoteCopy = Clone rem;
                    (modified, err) = callback remoteCopy
                in (case err of
                      Some e \<Rightarrow> Ok (HandleError ref e a1)
                    | None \<Rightarrow>
                        (case modified of
                           None \<Rightarrow> Panic
                         | Some m \<Rightarrow>
                             if rem = m then handleResult remote False a1
                             else
                               (let options = \<lparr>update_ForceDryRun = False\<rparr>;
                                    (result, apiWarnings, err2) =
                                       UpdateObject k (trace a1) m options;
                                    a2 = AddApiWarnings ref apiWarnings
                                           (emit (UpdateObject_call m options) a1)
                                in (case err2 of
                                      Some e \<Rightarrow>
                                        if IsConflict e then
                                          ReplaceObject_loop fuel k ref firstVersion callback False
                                            (emit (Log_Warningf ref (MsgConflictWhilePatching ref))
                                               a2)
                                        else Ok (HandleError ref e a2)
                                    | None \<Rightarrow> handleResult result False a2)))))))"

definition ReplaceObject ::
  "nat \<Rightarrow> env \<Rightarrow> ObjectRef \<Rightarrow> UnstructuredObject option
     \<Rightarrow> (UnstructuredObject \<Rightarrow> UnstructuredObject option \<times> error option) \<Rightarrow> ApplyUtil
     \<Rightarrow> ApplyUtil result" where
  "ReplaceObject fuel k ref firstVersion callback a =
     ReplaceObject_loop fuel k ref firstVersion callback True a"

subsection \<open>The scheduler\<close>

text \<open>
  \<open>ApplyDeployments\<close> starts one goroutine per item and waits on a \<open>sync.WaitGroup\<close>; the
  goroutines share the orchestrator and are bounded by a semaphore of weight 8.  It is a
  transition system: the scheduler thread is at the head of its loop, inside the
  \<open>wg.Wait()\<close> of a barrier, inside the final \<open>wg.Wait()\<close>, or has returned; the goroutine
  of item \<open>i\<close> is \<open>workers ! i\<close>, which waits for a permit, runs \<open>applyDeploymentItem\<close>, or
  has finished (\<open>wg.Done()\<close>).  A goroutine's work on the shared orchestrator is one step.
\<close>

datatype worker = Waiting | Running | Finished

datatype sched_pc = LoopHead | BarrierWait | FinalWait | Returned

record sched =
  au :: ApplyUtil
  pc :: sched_pc
  next_item :: nat
  workers :: "worker list"

text \<open>Line 510.\<close>

definition barrier :: "DeploymentItem \<Rightarrow> bool" where
  "barrier d = ((Config_Barrier d \<noteq> None \<and> the (Config_Barrier d)) \<or> item_Barrier d)"

definition allFinished :: "sched \<Rightarrow> bool" where
  "allFinished s = list_all (\<lambda>w. w = Finished) (workers s)"

definition running :: "sched \<Rightarrow> nat" where
  "running s = length (filter (\<lambda>w. w = Running) (workers s))"

definition sched_init :: "ApplyUtil \<Rightarrow> sched" where
  "sched_init a =
     \<lparr>au = emit (Log_Infof MsgRunningServerSideApply) a, pc = LoopHead, next_item = 0,
      workers = []\<rparr>"

text \<open>Lines 499 to 514: the goroutine of the next item is started.\<close>

definition dispatch :: "DeploymentItem list \<Rightarrow> sched \<Rightarrow> sched" where
  "dispatch ds s =
     (let d = ds ! next_item s in
      s\<lparr>workers := workers s @ [Waiting],
        next_item := Suc (next_item s),
        pc := (if barrier d then BarrierWait else LoopHead),
        au := (if barrier d then emit (Log_Infof MsgWaitingOnBarrier) (au s) else au s)\<rparr>)"

inductive step :: "env \<Rightarrow> DeploymentItem list \<Rightarrow> sched \<Rightarrow> sched \<Rightarrow> bool"
  for k :: env and ds :: "DeploymentItem list" where
  step_break:
    "pc s = LoopHead \<Longrightarrow> next_item s < length ds \<Longrightarrow> abortSignal (au s)
     \<Longrightarrow> step k ds s (s\<lparr>pc := FinalWait\<rparr>)"
| step_dispatch:
    "pc s = LoopHead \<Longrightarrow> next_item s < length ds \<Longrightarrow> \<not> abortSignal (au s)
     \<Longrightarrow> step k ds s (dispatch ds s)"
| step_loop_end:
    "pc s = LoopHead \<Longrightarrow> next_item s = length ds
     \<Longrightarrow> step k ds s (s\<lparr>pc := FinalWait\<rparr>)"
| step_barrier_drained:
    "pc s = BarrierWait \<Longrightarrow> allFinished s
     \<Longrightarrow> step k ds s (s\<lparr>pc := LoopHead\<rparr>)"
| step_return:
    "pc s = FinalWait \<Longrightarrow> allFinished s
     \<Longrightarrow> step k ds s (s\<lparr>pc := Returned\<rparr>)"
| step_acquire:
    "j < length (workers s) \<Longrightarrow> workers s ! j = Waiting \<Longrightarrow> running s < 8
     \<Longrightarrow> step k ds s (s\<lparr>workers := (workers s)[j := Running]\<rparr>)"
| step_work:
    "j < length (workers s) \<Longrightarrow> workers s ! j = Running
     \<Longrightarrow> applyDeploymentItem fuel k (ds ! j) (au s) = Ok a'
     \<Longrightarrow> step k ds s (s\<lparr>au := a', workers := (workers s)[j := Finished]\<rparr>)"

definition reachable :: "env \<Rightarrow> ApplyUtil \<Rightarrow> sched \<Rightarrow> bool" where
  "reachable k a s = (step k (deployments a))\<^sup>*\<^sup>* (sched_init a) s"

text \<open>\<open>ApplyDeployments\<close> returns with the orchestrator \<open>a'\<close>.\<close>

definition ApplyDeployments :: "env \<Rightarrow> ApplyUtil \<Rightarrow> ApplyUtil \<Rightarrow> bool" where
  "ApplyDeployments k a a' = (\<exists>s. reachable k a s \<and> pc s = Returned \<and> au s = a')"

section \<open>Notions used in the properties\<close>

text \<open>
  What every operation leaves alone: the options and the item list are kept, the trace only
  grows, no recorded error is dropped, and the abort signal is never reset and is raised
  only with the \<open>AbortOnError\<close> option and a newly recorded error.
\<close>

definition frame :: "ApplyUtil \<Rightarrow> ApplyUtil \<Rightarrow> bool" where
  "frame a a' =
     (opt a' = opt a \<and> deployments a' = deployments a
      \<and> prefix (trace a) (trace a')
      \<and> length (dew_errors a) \<le> length (dew_errors a')
      \<and> (abortSignal a \<longrightarrow> abortSignal a')
      \<and> (abortSignal a' \<longrightarrow>
            abortSignal a \<or> (AbortOnError (opt a) \<and> length (dew_errors a) < length (dew_errors a'))))"

text \<open>
  The hook engine is outside the file; where a property runs through \<open>RunHooks\<close> it is
  assumed to respect the frame.
\<close>

definition hooks_frame :: "env \<Rightarrow> bool" where
  "hooks_frame k = (\<forall>hs a a'. RunHooks k hs a = Ok a' \<longrightarrow> frame a a')"

text \<open>
  A call \<open>WaitReadiness(ref, timeout)\<close> on the orchestrator \<open>a\<close>, outside a dry run: the
  timeout in effect, the time read as \<open>startTime\<close> on line 315, and what the first poll
  starts from (\<open>lastLogTime\<close>, \<open>didLog\<close> and the orchestrator after the debug line and the
  two readings of the clock).
\<close>

definition effectiveTimeout :: "ApplyUtil \<Rightarrow> int \<Rightarrow> int" where
  "effectiveTimeout a timeout = (if timeout = 0 then WaitObjectTimeout (opt a) else timeout)"

definition wait_startTime :: "env \<Rightarrow> ObjectRef \<Rightarrow> ApplyUtil \<Rightarrow> int" where
  "wait_startTime k ref a = Now k (trace a @ [pctx_Debugf (MsgWaitingFor ref), Now_call])"

definition first_poll :: "env \<Rightarrow> ObjectRef \<Rightarrow> ApplyUtil \<Rightarrow> int \<times> bool \<times> ApplyUtil" where
  "first_poll k ref a =
     (Now k (trace a @ [pctx_Debugf (MsgWaitingFor ref)]), False,
      a\<lparr>trace := trace a @ [pctx_Debugf (MsgWaitingFor ref), Now_call, Now_call]\<rparr>)"

text \<open>
  What the poll number \<open>n\<close> (from 0) of a loop starts from, when the polls before it have all
  gone on; \<open>None\<close> when one of them has returned.
\<close>

fun polls ::
  "nat \<Rightarrow> env \<Rightarrow> ObjectRef \<Rightarrow> int \<Rightarrow> int \<Rightarrow> int \<times> bool \<times> ApplyUtil
     \<Rightarrow> (int \<times> bool \<times> ApplyUtil) option" where
  "polls 0 k ref timeout startTime st = Some st"
| "polls (Suc n) k ref timeout startTime (lastLogTime, didLog, a) =
     (case WaitReadiness_iter k ref timeout startTime lastLogTime didLog a of
        Return ready a' \<Rightarrow> None
      | Continue lastLogTime' didLog' a' \<Rightarrow>
          polls n k ref timeout startTime (lastLogTime', didLog', a'))"

definition poll_state ::
  "nat \<Rightarrow> env \<Rightarrow> ObjectRef \<Rightarrow> int \<Rightarrow> ApplyUtil \<Rightarrow> (int \<times> bool \<times> ApplyUtil) option" where
  "poll_state n k ref timeout a =
     polls n k ref (effectiveTimeout a timeout) (wait_startTime k ref a) (first_poll k ref a)"

text \<open>
  The number of rediscoveries so far, and what the rediscovery latch shows: its value and
  that number.
\<close>

definition rediscoveries :: "ApplyUtil \<Rightarrow> nat" where
  "rediscoveries a = count_list (trace a) RediscoverResources_call"

definition latch_view :: "ApplyUtil \<Rightarrow> bool \<times> nat" where
  "latch_view a = (deployedNewCRD a, rediscoveries a)"

text \<open>Line 290: the object is a custom resource definition.\<close>

definition isCRD :: "UnstructuredObject \<Rightarrow> bool" where
  "isCRD obj = (Group (GVK (k8sRef obj)) = ''apiextensions.k8s.io''
                \<and> Kind (GVK (k8sRef obj)) = ''CustomResourceDefinition'')"

text \<open>
  The calls that the deletion of the references \<open>refs\<close> makes, in order: the gateway call
  that enumerates the GVKs of a directive, and for each reference the status line, the
  delete and the progress increment.
\<close>

definition gvk_call :: "DeleteObjectItemConfig \<Rightarrow> event" where
  "gvk_call x = GetGVKs_call (del_Group x) (del_Version x) (del_Kind x)"

fun deletion_calls :: "bool \<Rightarrow> nat \<Rightarrow> nat \<Rightarrow> ObjectRef list \<Rightarrow> event list" where
  "deletion_calls dry i n [] = []"
| "deletion_calls dry i n (ref # refs) =
     [pctx_SetStatus (MsgDeletingObject ref (i + 1) n),
      DeleteSingleObject_call ref \<lparr>delete_ForceDryRun = dry\<rparr>,
      pctx_Increment] @ deletion_calls dry (i + 1) n refs"

definition deletion_events :: "bool \<Rightarrow> ObjectRef list \<Rightarrow> event list" where
  "deletion_events dry refs =
     (if refs = [] then []
      else pctx_Infof (MsgDeletingObjects (length refs)) # deletion_calls dry 0 (length refs) refs)"

text \<open>
  The abort signal between two states: it is not reset, and where it is raised the
  \<open>AbortOnError\<close> option is set and an error has been recorded.
\<close>

definition abort_monotone :: "ApplyUtil \<Rightarrow> ApplyUtil \<Rightarrow> bool" where
  "abort_monotone a a' =
     ((abortSignal a \<longrightarrow> abortSignal a')
      \<and> (abortSignal a' \<and> \<not> abortSignal a \<longrightarrow>
            AbortOnError (opt a) \<and> length (dew_errors a) < length (dew_errors a')))"

text \<open>
  The invariant of the scheduler: one goroutine per dispatched item, and for every
  dispatched barrier item either the scheduler is still inside that barrier's \<open>wg.Wait()\<close>
  (the barrier is the last item dispatched) or all goroutines up to the barrier have
  finished.
\<close>

definition sched_inv :: "DeploymentItem list \<Rightarrow> sched \<Rightarrow> bool" where
  "sched_inv ds s =
     (length (workers s) = next_item s \<and> next_item s \<le> length ds
      \<and> (\<forall>b < length (workers s). barrier (ds ! b) \<longrightarrow>
            (pc s = BarrierWait \<and> Suc b = length (workers s))
            \<or> (\<forall>i \<le> b. workers s ! i = Finished)))"

text \<open>What a state of the scheduler shows of itself.\<close>

definition sched_shape :: "sched \<Rightarrow> sched_pc \<times> nat \<times> worker list \<times> bool" where
  "sched_shape s = (pc s, next_item s, workers s, abortSignal (au s))"

section \<open>Concrete inputs\<close>

text \<open>The inputs at which the properties below are evaluated.\<close>

fun map_result :: "('a \<Rightarrow> 'b) \<Rightarrow> 'a result \<Rightarrow> 'b result" where
  "map_result f (Ok v) = Ok (f v)"
| "map_result f Panic = Panic"
| "map_result f OutOfFuel = OutOfFuel"

definition ref_web :: ObjectRef where
  "ref_web = \<lparr>GVK = \<lparr>Group = ''apps'', Version = ''v1'', Kind = ''Deployment''\<rparr>,
              Name = ''web'', Namespace = ''default''\<rparr>"

definition obj_web :: UnstructuredObject where
  "obj_web = \<lparr>k8sRef = ref_web, k8sResourceVersion = '''', k8sAnnotations = [],
              otherFields = [(''spec.replicas'', ''3'')]\<rparr>"

definition remote_web :: UnstructuredObject where
  "remote_web = \<lparr>k8sRef = ref_web, k8sResourceVersion = ''42'', k8sAnnotations = [],
                 otherFields = [(''spec.replicas'', ''1'')]\<rparr>"

definition options0 :: ApplyUtilOptions where
  "options0 = \<lparr>ForceApply = False, ReplaceOnError = False, ForceReplaceOnError = False,
               DryRun = False, AbortOnError = False, WaitObjectTimeout = 0, NoWait = False\<rparr>"

text \<open>
  A cluster where every call succeeds, nothing is in the remote cache, no object is a hook
  and \<open>GetSingleObject\<close> finds nothing.  Its formatter does what Go's does on a format
  without a percent sign, which it leaves as it is, and on the format \<open>cpu at 100%\<close>, whose
  percent sign has no verb after it.
\<close>

definition env0 :: env where
  "env0 = \<lparr>PatchObject = (\<lambda>tr x options. (Some x, [], None)),
            UpdateObject = (\<lambda>tr x options. (Some x, [], None)),
            DeleteSingleObject = (\<lambda>tr r options. ([], None)),
            GetSingleObject = (\<lambda>tr r. (None, [], Some (StatusError NotFound []))),
            GetGVKs = (\<lambda>tr g v kind. [\<lparr>Group = g, Version = v, Kind = kind\<rparr>]),
            RediscoverResources = (\<lambda>tr. None),
            FixObjectForPatch = (\<lambda>x. x),
            GetRemoteObject = (\<lambda>r. None),
            ValidateObject = (\<lambda>tr x. \<lparr>Ready = True, Errors = []\<rparr>),
            ResolveFieldManagerConflicts = (\<lambda>x r st. Inr (x, [])),
            RandomString = (\<lambda>tr n. replicate n (CHR ''x'')),
            Now = (\<lambda>tr. int (length tr)),
            ReplaceKeys = (\<lambda>x old new. x),
            ReplaceValues = (\<lambda>x old new. x),
            ParseBoolOrFalse = (\<lambda>s. s = Some ''true''),
            RefString = (\<lambda>r. Namespace r @ ''/'' @ Name r),
            fmt_Errorf = (\<lambda>format. Errorf (if format = ''cpu at 100%''
                                            then ''cpu at 100%!(NOVERB)'' else format)),
            GetHook = (\<lambda>x. None),
            DetermineHooks = (\<lambda>d phases. []),
            RunHooks = (\<lambda>hs a. Ok a)\<rparr>"

text \<open>A callback for \<open>ReplaceObject\<close> that scales the object down.\<close>

definition scale_callback :: "UnstructuredObject \<Rightarrow> UnstructuredObject option \<times> error option" where
  "scale_callback x = (Some (x\<lparr>otherFields := [(''spec.replicas'', ''0'')]\<rparr>), None)"

text \<open>
  An item with a deployment that is already on the cluster and two hook jobs, one for
  \<open>pre-deploy-upgrade\<close> and one for \<open>post-deploy-upgrade\<close>.
\<close>

definition ref_migrate :: ObjectRef where
  "ref_migrate = \<lparr>GVK = \<lparr>Group = ''batch'', Version = ''v1'', Kind = ''Job''\<rparr>,
                  Name = ''migrate'', Namespace = ''default''\<rparr>"

definition obj_migrate :: UnstructuredObject where
  "obj_migrate = \<lparr>k8sRef = ref_migrate, k8sResourceVersion = '''',
                  k8sAnnotations = [(''kluctl.io/hook'', ''pre-deploy-upgrade'')],
                  otherFields = []\<rparr>"

definition hook_migrate :: hook where
  "hook_migrate = \<lparr>hook_object = obj_migrate, hook_phases = [''pre-deploy-upgrade''],
                   hook_weight = 0, hook_deletePolicies = []\<rparr>"

definition ref_notify :: ObjectRef where
  "ref_notify = \<lparr>GVK = \<lparr>Group = ''batch'', Version = ''v1'', Kind = ''Job''\<rparr>,
                 Name = ''notify'', Namespace = ''default''\<rparr>"

definition obj_notify :: UnstructuredObject where
  "obj_notify = \<lparr>k8sRef = ref_notify, k8sResourceVersion = '''',
                 k8sAnnotations = [(''kluctl.io/hook'', ''post-deploy-upgrade'')],
                 otherFields = []\<rparr>"

definition hook_notify :: hook where
  "hook_notify = \<lparr>hook_object = obj_notify, hook_phases = [''post-deploy-upgrade''],
                  hook_weight = 0, hook_deletePolicies = []\<rparr>"

definition item0 :: DeploymentItem where
  "item0 = \<lparr>RelToProjectItemDir = ''web'', Objects = [],
            Config_DeleteObjects = [], Config_WaitReadiness = None, item_WaitReadiness = False,
            Config_Barrier = None, item_Barrier = False, CheckInclusionForDeploy = True\<rparr>"

definition item_upgrade :: DeploymentItem where
  "item_upgrade = item0\<lparr>Objects := [obj_migrate, obj_web, obj_notify]\<rparr>"

definition hook_of :: "UnstructuredObject \<Rightarrow> hook option" where
  "hook_of x = (if x = obj_migrate then Some hook_migrate
               else if x = obj_notify then Some hook_notify else None)"

definition env_upgrade :: env where
  "env_upgrade = env0\<lparr>
      GetRemoteObject := (\<lambda>r. if r = ref_web then Some remote_web else None),
      GetHook := hook_of,
      DetermineHooks := (\<lambda>d phases.
         filter (\<lambda>h. list_ex (\<lambda>p. p \<in> set (hook_phases h)) phases)
           (List.map_filter hook_of (Objects d)))\<rparr>"

text \<open>An excluded item that declares one deletion.\<close>

definition del_old :: DeleteObjectItemConfig where
  "del_old = \<lparr>del_Group = ''apps'', del_Version = ''v1'', del_Kind = ''Deployment'',
              del_Name = ''old'', del_Namespace = ''default''\<rparr>"

definition ref_old :: ObjectRef where
  "ref_old = \<lparr>GVK = \<lparr>Group = ''apps'', Version = ''v1'', Kind = ''Deployment''\<rparr>,
              Name = ''old'', Namespace = ''default''\<rparr>"

definition item_skipped :: DeploymentItem where
  "item_skipped = item0\<lparr>Config_DeleteObjects := [del_old], CheckInclusionForDeploy := False\<rparr>"

lemmas fixture_defs = env0_def options0_def NewApplyUtil_def obj_web_def remote_web_def
  ref_web_def item0_def

lemmas upgrade_defs = ref_migrate_def obj_migrate_def hook_migrate_def ref_notify_def
  obj_notify_def hook_notify_def item_upgrade_def env_upgrade_def hook_of_def

lemmas skipped_defs = del_old_def ref_old_def item_skipped_def

lemmas op_defs = emit_def handleApiWarnings_def AddApiWarnings_def handleResult_def
  AddError_def HandleError_def AddWarning_def HandleWarning_def readClock_def runHooks_def
  finalStatus_def ErrorCount_def WarningCount_def Let_def

text \<open>Clusters for the polls of \<open>WaitReadiness\<close>.\<close>

definition env_get_fails :: env where
  "env_get_fails = env0\<lparr>GetSingleObject := (\<lambda>tr r. (None, [], Some (Errorf ''connection refused'')))\<rparr>"

definition env_ready :: env where
  "env_ready = env0\<lparr>GetSingleObject := (\<lambda>tr r. (Some remote_web, [], None))\<rparr>"

definition env_invalid :: env where
  "env_invalid = env0\<lparr>GetSingleObject := (\<lambda>tr r. (Some remote_web, [], None)),
      ValidateObject := (\<lambda>tr x. \<lparr>Ready = False,
                                 Errors = [''CrashLoopBackOff'', ''cpu at 100%'']\<rparr>)\<rparr>"

definition env_pending :: env where
  "env_pending = env0\<lparr>GetSingleObject := (\<lambda>tr r. (Some remote_web, [], None)),
      ValidateObject := (\<lambda>tr x. \<lparr>Ready = False, Errors = []\<rparr>),
      Now := (\<lambda>tr. 10 * Second * int (length tr))\<rparr>"

text \<open>
  A cluster whose deployment is ready from the second poll on, options with a run-wide
  timeout of five seconds, and the orchestrator at the first poll of a wait for the
  deployment and at the second poll on that cluster.
\<close>

definition env_starting :: env where
  "env_starting = env0\<lparr>GetSingleObject := (\<lambda>tr r. (Some remote_web, [], None)),
      ValidateObject := (\<lambda>tr x. \<lparr>Ready = (Sleep_call (500 * Millisecond) \<in> set tr), Errors = []\<rparr>)\<rparr>"

definition options_wait :: ApplyUtilOptions where
  "options_wait = options0\<lparr>WaitObjectTimeout := 5 * Second\<rparr>"

definition a_first_poll :: "ApplyUtilOptions \<Rightarrow> ApplyUtil" where
  "a_first_poll options =
     (NewApplyUtil [] options)\<lparr>trace := [pctx_Debugf (MsgWaitingFor ref_web), Now_call, Now_call]\<rparr>"

definition a_second_poll :: ApplyUtil where
  "a_second_poll =
     (NewApplyUtil [] options0)\<lparr>trace :=
        [pctx_Debugf (MsgWaitingFor ref_web), Now_call, Now_call,
         Now_call, GetSingleObject_call ref_web,
         pctx_SetStatus (MsgWaitingToGetReady ref_web), pctx_Infof (MsgWaitingToGetReady ref_web),
         Now_call, Sleep_call (500 * Millisecond)]\<rparr>"

lemmas wait_defs = env_get_fails_def env_ready_def env_invalid_def env_pending_def
  env_starting_def options_wait_def a_first_poll_def a_second_poll_def

text \<open>Inputs for the conflict path.\<close>

definition conflict_error :: error where
  "conflict_error = StatusError Conflict [(''spec.replicas'', ''conflict with kubectl'')]"

definition obj_web_resolved :: UnstructuredObject where
  "obj_web_resolved = obj_web\<lparr>otherFields := []\<rparr>"

definition lost_replicas :: LostOwnership where
  "lost_replicas = \<lparr>lo_Field = ''spec.replicas'', lo_Message = ''conflict with kubectl''\<rparr>"

text \<open>
  A cluster that has the deployment and rejects every patch that is not forced with a
  field-manager conflict; the resolver drops the contested field.
\<close>

definition env_conflict :: env where
  "env_conflict = env0\<lparr>
      GetRemoteObject := (\<lambda>r. if r = ref_web then Some remote_web else None),
      PatchObject := (\<lambda>tr x options.
         if patch_ForceApply options then (Some x, [], None)
         else (None, [], Some conflict_error)),
      ResolveFieldManagerConflicts := (\<lambda>x r st. Inr (obj_web_resolved, [lost_replicas]))\<rparr>"

text \<open>The same cluster, with a resolver that cannot read the conflict status.\<close>

definition env_conflict_unresolved :: env where
  "env_conflict_unresolved = env_conflict\<lparr>
      ResolveFieldManagerConflicts := (\<lambda>x r st. Inl (Errorf ''cannot parse the conflict status''))\<rparr>"

text \<open>A cluster that rejects every patch with a conflict, forced or not.\<close>

definition env_conflict_always :: env where
  "env_conflict_always = env_conflict\<lparr>
      PatchObject := (\<lambda>tr x options. (None, [], Some conflict_error))\<rparr>"

text \<open>A cluster whose patch fails with an internal error.\<close>

definition env_internal :: env where
  "env_internal = env_conflict\<lparr>
      PatchObject := (\<lambda>tr x options. (None, [], Some (StatusError InternalError [])))\<rparr>"

text \<open>A cluster whose conflict error carries no status.\<close>

definition env_conflict_plain :: env where
  "env_conflict_plain = env_conflict\<lparr>
      PatchObject := (\<lambda>tr x options. (None, [], Some (APIStatusError Conflict)))\<rparr>"

definition options_replace :: ApplyUtilOptions where
  "options_replace = options0\<lparr>ReplaceOnError := True, ForceReplaceOnError := True\<rparr>"

lemmas conflict_defs = conflict_error_def obj_web_resolved_def lost_replicas_def env_conflict_def
  env_conflict_unresolved_def env_conflict_always_def env_internal_def options_replace_def
  env_conflict_plain_def

text \<open>Inputs for the rediscovery latch.\<close>

definition ref_foo :: ObjectRef where
  "ref_foo = \<lparr>GVK = \<lparr>Group = ''example.com'', Version = ''v1'', Kind = ''Foo''\<rparr>,
              Name = ''foo1'', Namespace = ''default''\<rparr>"

definition obj_foo :: UnstructuredObject where
  "obj_foo = \<lparr>k8sRef = ref_foo, k8sResourceVersion = '''', k8sAnnotations = [],
              otherFields = []\<rparr>"

definition ref_crd :: ObjectRef where
  "ref_crd = \<lparr>GVK = \<lparr>Group = ''apiextensions.k8s.io'', Version = ''v1'',
                      Kind = ''CustomResourceDefinition''\<rparr>,
              Name = ''foos.example.com'', Namespace = ''''\<rparr>"

definition obj_crd :: UnstructuredObject where
  "obj_crd = \<lparr>k8sRef = ref_crd, k8sResourceVersion = '''', k8sAnnotations = [],
              otherFields = []\<rparr>"

definition nomatch_error :: error where
  "nomatch_error = NoMatchError ''no matches for kind Foo in version example.com/v1''"

text \<open>A cluster that knows the kind \<open>Foo\<close> only after a rediscovery.\<close>

definition env_crd_pending :: env where
  "env_crd_pending = env0\<lparr>
      PatchObject := (\<lambda>tr x options.
         if RediscoverResources_call \<in> set tr then (Some x, [], None)
         else (None, [], Some nomatch_error))\<rparr>"

definition env_rediscovery_fails :: env where
  "env_rediscovery_fails = env_crd_pending\<lparr>
      RediscoverResources := (\<lambda>tr. Some (Errorf ''discovery failed''))\<rparr>"

text \<open>An orchestrator whose latch is disarmed.\<close>

definition a_disarmed :: ApplyUtil where
  "a_disarmed = (NewApplyUtil [] options0)\<lparr>deployedNewCRD := False\<rparr>"

lemmas crd_defs = ref_foo_def obj_foo_def ref_crd_def obj_crd_def nomatch_error_def
  env_crd_pending_def env_rediscovery_fails_def a_disarmed_def

text \<open>
  A cluster that has the custom resource in its cache, does not know its kind and cannot
  refresh its view of the API; the option to retry with a replace.
\<close>

definition remote_foo :: UnstructuredObject where
  "remote_foo = \<lparr>k8sRef = ref_foo, k8sResourceVersion = ''7'', k8sAnnotations = [],
                 otherFields = []\<rparr>"

definition env_discovery_down :: env where
  "env_discovery_down = env0\<lparr>
      GetRemoteObject := (\<lambda>r. if r = ref_foo then Some remote_foo else None),
      PatchObject := (\<lambda>tr x options. (None, [], Some nomatch_error)),
      RediscoverResources := (\<lambda>tr. Some (Errorf ''discovery failed''))\<rparr>"

definition options_replace_on_error :: ApplyUtilOptions where
  "options_replace_on_error = options0\<lparr>ReplaceOnError := True\<rparr>"

lemmas discovery_defs = ref_foo_def obj_foo_def nomatch_error_def remote_foo_def
  env_discovery_down_def options_replace_on_error_def

text \<open>An included item that declares one deletion.\<close>

definition item_deleting :: DeploymentItem where
  "item_deleting = item0\<lparr>Config_DeleteObjects := [del_old]\<rparr>"

text \<open>Three items, the second one a barrier.\<close>

definition item_barrier :: DeploymentItem where
  "item_barrier = item0\<lparr>RelToProjectItemDir := ''crds'', item_Barrier := True\<rparr>"

definition a_three :: ApplyUtil where
  "a_three = NewApplyUtil [item0, item_barrier, item0] options0"

text \<open>
  An item with two objects applied with \<open>AbortOnError\<close>, the orchestrator before and
  after an error, and two states of the scheduler after the error.
\<close>

definition item_two :: DeploymentItem where
  "item_two = item0\<lparr>Objects := [obj_web, obj_foo]\<rparr>"

definition options_abort :: ApplyUtilOptions where
  "options_abort = options0\<lparr>AbortOnError := True\<rparr>"

definition a_abort :: ApplyUtil where
  "a_abort = NewApplyUtil [item_two] options_abort"

definition a_aborted :: ApplyUtil where
  "a_aborted = HandleError ref_web (StatusError InternalError []) a_abort"

definition s_aborted :: sched where
  "s_aborted = \<lparr>au = a_aborted, pc = LoopHead, next_item = 0, workers = []\<rparr>"

definition s_aborted_running :: sched where
  "s_aborted_running = \<lparr>au = a_aborted, pc = FinalWait, next_item = 1, workers = [Running]\<rparr>"

lemmas abort_defs = item_two_def options_abort_def a_abort_def a_aborted_def s_aborted_def
  s_aborted_running_def

section \<open>Verified properties\<close>

subsection \<open>What the operations leave alone\<close>

lemma frame_refl: "frame a a"
  by (simp add: frame_def)

lemma frame_trans: "frame a b \<Longrightarrow> frame b c \<Longrightarrow> frame a c"
  unfolding frame_def by (auto dest: prefix_order.trans)

lemma frame_emit: "frame a0 a \<Longrightarrow> frame a0 (emit ev a)"
  unfolding frame_def emit_def by (auto intro: prefix_order.trans)

lemma frame_handleApiWarnings: "frame a0 a \<Longrightarrow> frame a0 (handleApiWarnings ref ws a)"
  unfolding frame_def handleApiWarnings_def AddApiWarnings_def by auto

lemma frame_AddApiWarnings: "frame a0 a \<Longrightarrow> frame a0 (AddApiWarnings ref ws a)"
  unfolding frame_def AddApiWarnings_def by auto

lemma frame_AddWarning: "frame a0 a \<Longrightarrow> frame a0 (AddWarning ref w a)"
  unfolding frame_def AddWarning_def by auto

lemma frame_HandleError: "frame a0 a \<Longrightarrow> frame a0 (HandleError ref e a)"
  unfolding frame_def HandleError_def AddError_def by (auto simp: Let_def)

lemma frame_handleResult: "handleResult r hook a = Ok a' \<Longrightarrow> frame a0 a \<Longrightarrow> frame a0 a'"
  unfolding frame_def handleResult_def by (auto simp: Let_def split: option.splits if_splits)

lemma frame_fold_AddWarning:
  "frame a0 a \<Longrightarrow> frame a0 (fold (\<lambda>lo. AddWarning ref (f lo)) los a)"
  by (induction los arbitrary: a) (auto intro: frame_AddWarning)

lemma frame_fold_HandleError:
  "frame a0 a \<Longrightarrow> frame a0 (fold (\<lambda>e. HandleError ref (f e)) es a)"
  by (induction es arbitrary: a) (auto intro: frame_HandleError)

lemmas frame_prims = frame_emit frame_handleApiWarnings frame_AddApiWarnings frame_AddWarning
  frame_HandleError frame_fold_AddWarning frame_fold_HandleError

lemma frame_DeleteObject:
  "DeleteObject k ref hook a = (b, a') \<Longrightarrow> frame a0 a \<Longrightarrow> frame a0 a'"
proof -
  assume h: "DeleteObject k ref hook a = (b, a')" and f: "frame a0 a"
  let ?o = "\<lparr>delete_ForceDryRun = DryRun (opt a)\<rparr>"
  obtain ws err where d: "DeleteSingleObject k (trace a) ref ?o = (ws, err)"
    by (cases "DeleteSingleObject k (trace a) ref ?o")
  let ?a2 = "handleApiWarnings ref ws (emit (DeleteSingleObject_call ref ?o) a)"
  have f2: "frame a0 ?a2" using f by (intro frame_prims)
  show ?thesis
  proof (cases err)
    case None
    then have "a' = (if hook then ?a2\<lparr>deletedHookObjects := List.insert ref (deletedHookObjects ?a2)\<rparr>
                     else ?a2\<lparr>deletedObjects := List.insert ref (deletedObjects ?a2)\<rparr>)"
      using h d unfolding DeleteObject_def by (simp add: Let_def)
    then show ?thesis using f2 unfolding frame_def by auto
  next
    case (Some e)
    then have "a' = (if \<not> IsNotFound e then HandleError ref e ?a2 else ?a2)"
      using h d unfolding DeleteObject_def by (simp add: Let_def)
    then show ?thesis using f2 by (auto intro: frame_prims)
  qed
qed

lemma frame_retryApplyForceReplace:
  "retryApplyForceReplace k x hook e a = Ok a' \<Longrightarrow> frame a0 a \<Longrightarrow> frame a0 a'"
  unfolding retryApplyForceReplace_def
  by (auto simp: Let_def split: if_splits prod.splits option.splits;
      (erule frame_DeleteObject frame_handleResult | rule frame_prims | assumption)+)

lemma frame_retryApplyWithReplace:
  "retryApplyWithReplace k x hook remoteObject e a = Ok a' \<Longrightarrow> frame a0 a \<Longrightarrow> frame a0 a'"
  by (auto simp: retryApplyWithReplace.simps Let_def split: if_splits prod.splits option.splits;
      (erule frame_retryApplyForceReplace frame_handleResult | rule frame_prims | assumption)+)

lemma frame_retryApplyWithConflicts_patch:
  "retryApplyWithConflicts_patch k ref x2 hook a = Ok a' \<Longrightarrow> frame a0 a \<Longrightarrow> frame a0 a'"
  unfolding retryApplyWithConflicts_patch_def
  by (auto simp: Let_def split: if_splits prod.splits option.splits;
      (erule frame_handleResult | rule frame_prims | assumption)+)

lemma frame_retryApplyWithConflicts:
  "retryApplyWithConflicts k x hook remoteObject e a = Ok a' \<Longrightarrow> frame a0 a \<Longrightarrow> frame a0 a'"
  unfolding retryApplyWithConflicts_def
  by (auto simp: Let_def split: if_splits prod.splits option.splits sum.splits;
      (erule frame_retryApplyWithConflicts_patch | rule frame_prims | assumption)+)

lemma frame_handleNewCRDs:
  "handleNewCRDs k r err a = Ok (retry, err', a') \<Longrightarrow> frame a0 a \<Longrightarrow> frame a0 a'"
  unfolding handleNewCRDs_def
  by (auto simp: Let_def frame_def emit_def split: if_splits prod.splits option.splits
      intro: prefix_order.trans)

lemma frame_ApplyObject_classify:
  "ApplyObject_classify k ref x hook remoteObject u r ws err a = Ok a'
   \<Longrightarrow> frame a0 a \<Longrightarrow> frame a0 a'"
  unfolding ApplyObject_classify_def
  by (auto simp: Let_def split: if_splits prod.splits option.splits;
      (erule frame_handleResult frame_retryApplyWithConflicts frame_retryApplyWithReplace
        | rule frame_prims | assumption)+)

lemma bind_result_Ok:
  "bind_result m f = Ok v \<longleftrightarrow> (\<exists>u. m = Ok u \<and> f u = Ok v)"
  by (cases m) auto

lemma frame_ApplyObject_patch:
  "ApplyObject_patch k ref x hook remoteObject u a = Ok a' \<Longrightarrow> frame a0 a \<Longrightarrow> frame a0 a'"
  unfolding ApplyObject_patch_def
  by (auto simp: Let_def bind_result_Ok split: if_splits prod.splits option.splits;
      (erule frame_handleNewCRDs frame_ApplyObject_classify | rule frame_prims | assumption)+)

lemma frame_ApplyObject_prepare:
  "ApplyObject_prepare k x0 replaced a = (x, u, a') \<Longrightarrow> frame a0 a \<Longrightarrow> frame a0 a'"
  unfolding ApplyObject_prepare_def
  by (auto simp: Let_def split: if_splits intro: frame_prims)

lemma frame_ApplyObject:
  "ApplyObject k x0 replaced hook a = Ok a' \<Longrightarrow> frame a0 a \<Longrightarrow> frame a0 a'"
  unfolding ApplyObject_def
  by (auto simp: Let_def split: prod.splits;
      (erule frame_ApplyObject_prepare frame_ApplyObject_patch | assumption)+)

lemma frame_readClock: "readClock k a = (t, a') \<Longrightarrow> frame a0 a \<Longrightarrow> frame a0 a'"
  unfolding readClock_def by (auto intro: frame_prims)

lemma frame_WaitReadiness_iter:
  "WaitReadiness_iter k ref timeout startTime lastLogTime didLog a = st \<Longrightarrow> frame a0 a
   \<Longrightarrow> (case st of Return b a' \<Rightarrow> frame a0 a' | Continue l d a' \<Rightarrow> frame a0 a')"
  unfolding WaitReadiness_iter_def readClock_def
  by (auto simp: Let_def split: if_splits prod.splits option.splits intro!: frame_prims)

lemma frame_WaitReadiness_loop:
  "WaitReadiness_loop fuel k ref timeout startTime lastLogTime didLog a = Ok (b, a')
   \<Longrightarrow> frame a0 a \<Longrightarrow> frame a0 a'"
proof (induction fuel arbitrary: lastLogTime didLog a)
  case 0
  then show ?case by simp
next
  case (Suc fuel)
  show ?case
  proof (cases "WaitReadiness_iter k ref timeout startTime lastLogTime didLog a")
    case (Return b' a1)
    with Suc.prems frame_WaitReadiness_iter[OF Return Suc.prems(2)] show ?thesis by simp
  next
    case (Continue l d a1)
    with Suc.prems frame_WaitReadiness_iter[OF Continue Suc.prems(2)] Suc.IH[of l d a1]
    show ?thesis by simp
  qed
qed

lemma frame_WaitReadiness:
  "WaitReadiness fuel k ref timeout a = Ok (b, a') \<Longrightarrow> frame a0 a \<Longrightarrow> frame a0 a'"
  unfolding WaitReadiness_def readClock_def
  by (auto simp: Let_def split: if_splits prod.splits;
      (erule frame_WaitReadiness_loop | rule frame_prims | assumption)+)

lemma frame_expandDeleteObjects:
  "expandDeleteObjects k xs acc a = (refs, a') \<Longrightarrow> frame a0 a \<Longrightarrow> frame a0 a'"
  by (induction xs arbitrary: acc a) (auto simp: Let_def intro: frame_prims)

lemma frame_deleteObjects_loop:
  "frame a0 a \<Longrightarrow> frame a0 (deleteObjects_loop k i n refs a)"
proof (induction refs arbitrary: i a)
  case Nil
  then show ?case by simp
next
  case (Cons ref refs)
  let ?a1 = "emit (pctx_SetStatus (MsgDeletingObject ref (i + 1) n)) a"
  obtain b a2 where d: "DeleteObject k ref False ?a1 = (b, a2)"
    by (cases "DeleteObject k ref False ?a1")
  have "frame a0 ?a1" using Cons.prems by (rule frame_emit)
  then have "frame a0 a2" by (rule frame_DeleteObject[OF d])
  then have "frame a0 (emit pctx_Increment a2)" by (rule frame_emit)
  from Cons.IH[OF this] d show ?case by (simp add: Let_def)
qed

lemma frame_runHooks:
  "hooks_frame k \<Longrightarrow> runHooks k hs a = Ok a' \<Longrightarrow> frame a0 a \<Longrightarrow> frame a0 a'"
  unfolding runHooks_def hooks_frame_def
  by (blast intro: frame_trans frame_prims)

lemma frame_logApplied:
  "logApplied k i n startTime didLog a = (s', d', a') \<Longrightarrow> frame a0 a \<Longrightarrow> frame a0 a'"
  unfolding logApplied_def readClock_def
  by (auto simp: Let_def split: if_splits intro!: frame_prims)

lemma frame_applyObjects_loop:
  "applyObjects_loop fuel k d i n objs startTime didLog a = Ok a' \<Longrightarrow> frame a0 a
   \<Longrightarrow> frame a0 a'"
proof (induction objs arbitrary: i startTime didLog a)
  case Nil
  then show ?case by simp
next
  case (Cons obj objs)
  show ?case
  proof (cases "abortSignal a")
    case True
    with Cons.prems show ?thesis by simp
  next
    case False
    let ?a0 = "emit (pctx_SetStatus (MsgApplyingObjectOf (k8sRef obj) (i + 1) n)) a"
    from Cons.prems(1) False obtain a1 where a1: "ApplyObject k obj False False ?a0 = Ok a1"
      by (auto split: result.splits)
    have f1: "frame a0 (emit pctx_Increment a1)"
      using frame_ApplyObject[OF a1] Cons.prems(2) by (blast intro: frame_prims)
    obtain s' d' a2 where la: "logApplied k i n startTime didLog (emit pctx_Increment a1) = (s', d', a2)"
      by (cases "logApplied k i n startTime didLog (emit pctx_Increment a1)")
    have f2: "frame a0 a2" by (rule frame_logApplied[OF la f1])
    show ?thesis
    proof (cases "\<not> NoWait (opt a2) \<and> waitReadiness k d obj")
      case True
      with Cons.prems(1) False a1 la obtain ready a3
        where w: "WaitReadiness fuel k (k8sRef obj) 0 a2 = Ok (ready, a3)"
          and r: "applyObjects_loop fuel k d (i + 1) n objs s' d' a3 = Ok a'"
        by (auto split: result.splits)
      from Cons.IH[OF r frame_WaitReadiness[OF w f2]] show ?thesis .
    next
      case F: False
      with Cons.prems(1) False a1 la
      have r: "applyObjects_loop fuel k d (i + 1) n objs s' d' a2 = Ok a'"
        by auto
      from Cons.IH[OF r f2] show ?thesis .
    qed
  qed
qed

lemma frame_finalStatus: "frame a0 a \<Longrightarrow> frame a0 (finalStatus a)"
  unfolding finalStatus_def by (intro frame_prims)

lemma frame_applyDeploymentItem:
  assumes hk: "hooks_frame k"
      and run: "applyDeploymentItem fuel k d a = Ok a'"
      and f: "frame a0 a"
  shows "frame a0 a'"
proof -
  obtain toDelete a1 where e: "expandDeleteObjects k (Config_DeleteObjects d) [] a = (toDelete, a1)"
    by (cases "expandDeleteObjects k (Config_DeleteObjects d) [] a")
  obtain preHooks postHooks where sh: "selectHooks k d = (preHooks, postHooks)"
    by (cases "selectHooks k d")
  let ?total = "length (applyObjects k d) + length preHooks + length postHooks"
  let ?a2 = "emit (pctx_SetTotal (int ?total)) a1"
  have f2: "frame a0 ?a2"
    using frame_expandDeleteObjects[OF e f] by (rule frame_emit)
  show ?thesis
  proof (cases "CheckInclusionForDeploy d")
    case False
    with run e sh have "a' = emit pctx_Finish (emit (pctx_InfofAndStatus MsgSkipped) ?a2)"
      by (simp add: applyDeploymentItem_def Let_def)
    with f2 show ?thesis by (auto intro: frame_prims)
  next
    case True
    let ?a3 = "(if length toDelete \<noteq> 0
                then deleteObjects_loop k 0 (length toDelete) toDelete
                       (emit (pctx_Infof (MsgDeletingObjects (length toDelete))) ?a2)
                else ?a2)"
    have f3: "frame a0 ?a3"
      using f2 by (auto intro: frame_deleteObjects_loop frame_prims)
    from run e sh True obtain a4 a7 a8 where
      r1: "runHooks k preHooks ?a3 = Ok a4" and
      r2: "applyObjects_loop fuel k d 0 (length (applyObjects k d)) (applyObjects k d)
             (Now k (trace (if length (applyObjects k d) \<noteq> 0
                      then emit (pctx_Infof (MsgApplyingObjects (length (applyObjects k d)))) a4 else a4)))
             False
             (emit Now_call (if length (applyObjects k d) \<noteq> 0
                      then emit (pctx_Infof (MsgApplyingObjects (length (applyObjects k d)))) a4 else a4)) = Ok a7" and
      r3: "runHooks k postHooks a7 = Ok a8" and
      r4: "a' = finalStatus a8"
      by (auto simp: applyDeploymentItem_def Let_def bind_result_Ok readClock_def)
    have f4: "frame a0 a4" by (rule frame_runHooks[OF hk r1 f3])
    have f7: "frame a0 a7"
      by (rule frame_applyObjects_loop[OF r2]) (use f4 in \<open>auto intro: frame_prims\<close>)
    have f8: "frame a0 a8" by (rule frame_runHooks[OF hk r3 f7])
    show ?thesis unfolding r4 by (rule frame_finalStatus[OF f8])
  qed
qed

lemma frame_ReplaceObject_loop:
  "ReplaceObject_loop fuel k ref firstVersion callback firstCall a = Ok a' \<Longrightarrow> frame a0 a
   \<Longrightarrow> frame a0 a'"
proof (induction fuel arbitrary: firstCall a firstVersion)
  case 0
  then show ?case by simp
next
  case (Suc fuel)
  from Suc.prems show ?case
    apply (auto simp: Let_def split: if_splits prod.splits option.splits sum.splits)
    apply ((erule frame_handleResult Suc.IH | rule frame_prims | assumption)+)
    done
qed

subsection \<open>Projections of the primitive updates\<close>

lemma opt_prims [simp]:
  "opt (emit ev a) = opt a"
  "opt (handleApiWarnings ref ws a) = opt a"
  "opt (AddApiWarnings ref ws a) = opt a"
  "opt (AddWarning ref w a) = opt a"
  "opt (HandleError ref e a) = opt a"
  by (simp_all add: emit_def handleApiWarnings_def AddApiWarnings_def AddWarning_def
        HandleError_def AddError_def Let_def)

lemma latch_prims [simp]:
  "deployedNewCRD (emit ev a) = deployedNewCRD a"
  "deployedNewCRD (handleApiWarnings ref ws a) = deployedNewCRD a"
  "deployedNewCRD (AddApiWarnings ref ws a) = deployedNewCRD a"
  "deployedNewCRD (AddWarning ref w a) = deployedNewCRD a"
  "deployedNewCRD (HandleError ref e a) = deployedNewCRD a"
  by (simp_all add: emit_def handleApiWarnings_def AddApiWarnings_def AddWarning_def
        HandleError_def AddError_def Let_def)

lemma trace_prims [simp]:
  "trace (AddApiWarnings ref ws a) = trace a"
  "trace (AddWarning ref w a) = trace a"
  "trace (HandleError ref e a) = trace a"
  by (simp_all add: AddApiWarnings_def AddWarning_def HandleError_def AddError_def Let_def)

lemma dew_warnings_prims [simp]:
  "dew_warnings (emit ev a) = dew_warnings a"
  "dew_warnings (handleApiWarnings ref ws a) = dew_warnings a"
  "dew_warnings (AddApiWarnings ref ws a) = dew_warnings a"
  "dew_warnings (HandleError ref e a) = dew_warnings a"
  "dew_warnings (AddWarning ref w a) = dew_warnings a @ [(ref, w)]"
  by (simp_all add: emit_def handleApiWarnings_def AddApiWarnings_def AddWarning_def
        HandleError_def AddError_def Let_def)

lemma dew_warnings_fold_AddWarning:
  "dew_warnings (fold (\<lambda>lo. AddWarning ref (f lo)) los a) = dew_warnings a @ map (\<lambda>lo. (ref, f lo)) los"
  by (induction los arbitrary: a) (auto simp: AddWarning_def)

lemma trace_fold_AddWarning [simp]:
  "trace (fold (\<lambda>lo. AddWarning ref (f lo)) los a) = trace a"
  by (induction los arbitrary: a) (auto simp: AddWarning_def)

lemma opt_fold_AddWarning [simp]:
  "opt (fold (\<lambda>lo. AddWarning ref (f lo)) los a) = opt a"
  by (induction los arbitrary: a) (auto simp: AddWarning_def)

subsection \<open>The claims\<close>

text \<open>
  C2.  In the replace path (\<open>ReplaceOnError\<close> set, remote baseline present) the claim is that
  the gateway's \<open>Update\<close> receives a clone of \<open>x\<close> stamped with the remote resource version.
  The code builds that clone and then calls \<open>UpdateObject(x, o)\<close>: for the desired object
  \<open>obj_web\<close> (no resource version) and the remote \<open>remote_web\<close> (resource version 42) the
  only \<open>Update\<close> call carries \<open>obj_web\<close> itself, which differs from the stamped clone.
\<close>

theorem C2_update_receives_unstamped_object:
  "map_result trace
     (retryApplyWithReplace env0 obj_web False (Some remote_web) (Errorf ''patch failed'')
        (NewApplyUtil [] (options0\<lparr>ReplaceOnError := True\<rparr>)))
   = Ok [Log_Warningf ref_web MsgRetryWithReplace,
         UpdateObject_call obj_web \<lparr>update_ForceDryRun = False\<rparr>]
   \<and> k8sResourceVersion obj_web \<noteq> k8sResourceVersion remote_web
   \<and> SetK8sResourceVersion (Clone obj_web) (k8sResourceVersion remote_web) \<noteq> obj_web"
  by (simp add: retryApplyWithReplace.simps fixture_defs op_defs SetK8sResourceVersion_def
        Clone_def)

text \<open>
  C1.  For an item that is not an initial deploy the claim is that the pre-hook list is the
  hooks of the phases \<open>pre-deploy-upgrade\<close> and \<open>pre-deploy\<close> and that \<open>RunHooks\<close> runs it
  before the apply objects.  The upgrade branch assigns \<open>postHooks\<close> twice and leaves
  \<open>preHooks\<close> nil: for \<open>item_upgrade\<close>, whose deployment is in the remote cache, the hook
  engine determines the pre-hook \<open>hook_migrate\<close> for these phases, yet the first
  \<open>RunHooks\<close> call, the one before the patch, receives the empty list.
\<close>

theorem C1_upgrade_runs_no_pre_hooks:
  "\<not> initialDeploy env_upgrade item_upgrade
   \<and> DetermineHooks env_upgrade item_upgrade [''pre-deploy-upgrade'', ''pre-deploy'']
       = [hook_migrate]
   \<and> selectHooks env_upgrade item_upgrade = ([], [hook_notify])
   \<and> map_result trace
       (applyDeploymentItem 1 env_upgrade item_upgrade (NewApplyUtil [item_upgrade] options0))
     = Ok [pctx_SetTotal 2,
           RunHooks_call [],
           pctx_Infof (MsgApplyingObjects 1),
           Now_call,
           pctx_SetStatus (MsgApplyingObjectOf ref_web 1 1),
           Log_Debugf ref_web MsgApplyingObject,
           PatchObject_call obj_web \<lparr>patch_ForceDryRun = False, patch_ForceApply = False\<rparr>,
           pctx_Increment,
           Now_call,
           RunHooks_call [hook_notify],
           pctx_SetStatus (MsgFinalStatus 1 0 0 0 0 0),
           pctx_Finish]"
  by (simp add: applyDeploymentItem_def selectHooks_def initialDeploy_def applyObjects_def
        fixture_defs upgrade_defs op_defs List.map_filter_simps ApplyObject_def
        ApplyObject_prepare_def
        ApplyObject_patch_def handleNewCRDs_def ApplyObject_classify_def Second_def
        GetK8sAnnotation_def logApplied_def waitReadiness_def)

text \<open>
  C3.  With \<open>DryRun\<close> set the claim is that every mutating gateway call carries
  \<open>ForceDryRun = true\<close>, those of \<open>ReplaceObject\<close> included.  \<open>ReplaceObject\<close> calls
  \<open>UpdateObject(modified, k8s.UpdateOptions{})\<close>: in a dry run, with the baseline
  \<open>remote_web\<close> and a callback that changes it, the gateway receives the update with
  \<open>ForceDryRun = false\<close>.  The sibling \<open>retryApplyWithReplace\<close> passes
  \<open>ForceDryRun: a.o.DryRun\<close> in the same run.
\<close>

theorem C3_replace_object_updates_in_dry_run:
  "map_result trace
     (ReplaceObject 1 env0 ref_web (Some remote_web) scale_callback
        (NewApplyUtil [] (options0\<lparr>DryRun := True\<rparr>)))
   = Ok [UpdateObject_call (remote_web\<lparr>otherFields := [(''spec.replicas'', ''0'')]\<rparr>)
           \<lparr>update_ForceDryRun = False\<rparr>]
   \<and> map_result trace
       (retryApplyWithReplace env0 obj_web False (Some remote_web) (Errorf ''patch failed'')
          (NewApplyUtil [] (options0\<lparr>DryRun := True, ReplaceOnError := True\<rparr>)))
     = Ok [Log_Warningf ref_web MsgRetryWithReplace,
           UpdateObject_call obj_web \<lparr>update_ForceDryRun = True\<rparr>]"
  by (simp add: ReplaceObject_def retryApplyWithReplace.simps fixture_defs scale_callback_def
        op_defs Clone_def SetK8sResourceVersion_def)

text \<open>
  C10.  The claim is that \<open>handleResult\<close> never receives a nil object, in particular not
  from \<open>ReplaceObject\<close> when \<open>firstVersion\<close> is nil and \<open>GetSingleObject\<close> reports
  \<open>NotFound\<close>.  In that case \<open>remote\<close> is nil and line 536 calls
  \<open>a.handleResult(remote, false)\<close>, whose \<open>GetK8sRef\<close> dereferences it: whatever the
  callback and the state, the call panics.
\<close>

theorem C10_replace_object_not_found_panics:
  "GetSingleObject env0 (trace a) ref_web = (None, [], Some (StatusError NotFound []))
   \<and> ReplaceObject (Suc fuel) env0 ref_web None callback a = Panic
   \<and> handleResult None False a = Panic"
  by (simp add: ReplaceObject_def env0_def IsNotFound_def handleResult_def)

subsection \<open>Readiness\<close>

lemma dew_errors_emit [simp]: "dew_errors (emit ev a) = dew_errors a"
  by (simp add: emit_def)

lemma dew_errors_handleApiWarnings [simp]: "dew_errors (handleApiWarnings ref ws a) = dew_errors a"
  by (simp add: handleApiWarnings_def AddApiWarnings_def)

lemma dew_errors_HandleError [simp]:
  "dew_errors (HandleError ref e a) = dew_errors a @ [(ref, e)]"
  by (simp add: HandleError_def AddError_def Let_def)

lemma dew_errors_fold_HandleError:
  "dew_errors (fold (\<lambda>e. HandleError ref (f e)) es a) = dew_errors a @ map (\<lambda>e. (ref, f e)) es"
  by (induction es arbitrary: a) auto

lemma trace_emit [simp]: "trace (emit ev a) = trace a @ [ev]"
  by (simp add: emit_def)

lemma trace_handleApiWarnings [simp]: "trace (handleApiWarnings ref ws a) = trace a"
  by (simp add: handleApiWarnings_def AddApiWarnings_def)

lemma WaitReadiness_dry_run:
  "DryRun (opt a) \<Longrightarrow> WaitReadiness fuel k ref timeout a = Ok (True, a)"
  by (simp add: WaitReadiness_def)

lemma poll_not_found:
  assumes "GetSingleObject k (trace a @ [Now_call]) ref = (obj, ws, Some e)" "IsNotFound e"
  shows "\<exists>a'. WaitReadiness_loop (Suc fuel) k ref timeout startTime lastLogTime didLog a = Ok (False, a')
     \<and> dew_errors a' = dew_errors a @
          [(ref, Errorf (RefString k ref @ '' disappeared while waiting for it to become ready''))]"
  using assms by (simp add: WaitReadiness_iter_def readClock_def Let_def)

lemma poll_other_error:
  assumes "GetSingleObject k (trace a @ [Now_call]) ref = (obj, ws, Some e)" "\<not> IsNotFound e"
  shows "\<exists>a'. WaitReadiness_loop (Suc fuel) k ref timeout startTime lastLogTime didLog a = Ok (False, a')
     \<and> dew_errors a' = dew_errors a @ [(ref, e)]"
  using assms by (simp add: WaitReadiness_iter_def readClock_def Let_def)

lemma poll_ready:
  assumes "GetSingleObject k (trace a @ [Now_call]) ref = (obj, ws, None)"
    "Ready (ValidateObject k (trace a @ [Now_call, GetSingleObject_call ref]) obj)"
  shows "\<exists>a'. WaitReadiness_loop (Suc fuel) k ref timeout startTime lastLogTime didLog a = Ok (True, a')
     \<and> dew_errors a' = dew_errors a"
  using assms by (simp add: WaitReadiness_iter_def readClock_def Let_def)

lemma poll_validation_errors:
  assumes "GetSingleObject k (trace a @ [Now_call]) ref = (obj, ws, None)"
    "v = ValidateObject k (trace a @ [Now_call, GetSingleObject_call ref]) obj"
    "\<not> Ready v" "Errors v \<noteq> []"
  shows "\<exists>a'. WaitReadiness_loop (Suc fuel) k ref timeout startTime lastLogTime didLog a = Ok (False, a')
     \<and> dew_errors a' = dew_errors a @ map (\<lambda>e. (ref, fmt_Errorf k e)) (Errors v)"
  using assms by (simp add: WaitReadiness_iter_def readClock_def Let_def dew_errors_fold_HandleError)

lemma poll_timeout:
  assumes "GetSingleObject k (trace a @ [Now_call]) ref = (obj, ws, None)"
    "v = ValidateObject k (trace a @ [Now_call, GetSingleObject_call ref]) obj"
    "\<not> Ready v" "Errors v = []"
    "timeout > 0" "Now k (trace a @ [Now_call, GetSingleObject_call ref]) - startTime \<ge> timeout"
  shows "\<exists>a'. WaitReadiness_loop (Suc fuel) k ref timeout startTime lastLogTime didLog a = Ok (False, a')
     \<and> dew_errors a' = dew_errors a @
          [(ref, Errorf (''timed out while waiting for '' @ RefString k ref))]"
  using assms by (simp add: WaitReadiness_iter_def readClock_def Let_def)

lemma WaitReadiness_runs_loop:
  "\<not> DryRun (opt a) \<Longrightarrow>
   WaitReadiness fuel k ref timeout a
   = WaitReadiness_loop fuel k ref (effectiveTimeout a timeout) (wait_startTime k ref a)
       (fst (first_poll k ref a)) (fst (snd (first_poll k ref a))) (snd (snd (first_poll k ref a)))"
  by (simp add: WaitReadiness_def effectiveTimeout_def wait_startTime_def first_poll_def
        readClock_def emit_def Let_def)

lemma loop_from_poll:
  "polls n k ref timeout startTime (l0, d0, a0) = Some (l, d, b) \<Longrightarrow>
   WaitReadiness_loop (n + m) k ref timeout startTime l0 d0 a0
   = WaitReadiness_loop m k ref timeout startTime l d b"
proof (induction n arbitrary: l0 d0 a0)
  case 0
  then show ?case by simp
next
  case (Suc n)
  then show ?case
    by (cases "WaitReadiness_iter k ref timeout startTime l0 d0 a0") auto
qed

lemma iter_Continue_dew_errors:
  "WaitReadiness_iter k ref timeout startTime l0 d0 a0 = Continue l d b
   \<Longrightarrow> dew_errors b = dew_errors a0"
  unfolding WaitReadiness_iter_def readClock_def
  by (auto simp: Let_def split: if_splits prod.splits option.splits)

lemma polls_dew_errors:
  "polls n k ref timeout startTime (l0, d0, a0) = Some (l, d, b) \<Longrightarrow> dew_errors b = dew_errors a0"
proof (induction n arbitrary: l0 d0 a0)
  case 0
  then show ?case by simp
next
  case (Suc n)
  then show ?case
    by (cases "WaitReadiness_iter k ref timeout startTime l0 d0 a0")
       (auto dest: iter_Continue_dew_errors)
qed

lemma WaitReadiness_at_poll:
  assumes "\<not> DryRun (opt a)" "poll_state n k ref timeout a = Some (l, d, b)"
  shows "WaitReadiness (n + m) k ref timeout a
         = WaitReadiness_loop m k ref (effectiveTimeout a timeout) (wait_startTime k ref a) l d b
         \<and> dew_errors b = dew_errors a"
proof -
  obtain l0 d0 a0 where f: "first_poll k ref a = (l0, d0, a0)"
    by (cases "first_poll k ref a")
  from f have e: "dew_errors a0 = dew_errors a"
    by (auto simp: first_poll_def)
  from assms(2) f have p: "polls n k ref (effectiveTimeout a timeout) (wait_startTime k ref a)
       (l0, d0, a0) = Some (l, d, b)"
    by (simp add: poll_state_def)
  show ?thesis
    using WaitReadiness_runs_loop[OF assms(1), of "n + m" k ref timeout] f
      loop_from_poll[OF p, of m] polls_dew_errors[OF p] e
    by simp
qed


lemma verdict_at_poll:
  assumes "\<not> DryRun (opt a)" "poll_state n k ref timeout a = Some (l, d, b)"
    "\<exists>a'. WaitReadiness_loop (Suc fuel) k ref (effectiveTimeout a timeout)
             (wait_startTime k ref a) l d b = Ok (r, a')
          \<and> dew_errors a' = dew_errors b @ es"
  shows "\<exists>a'. WaitReadiness (Suc (n + fuel)) k ref timeout a = Ok (r, a')
          \<and> dew_errors a' = dew_errors a @ es"
  using WaitReadiness_at_poll[OF assms(1,2), of "Suc fuel"] assms(3) by simp

lemma WaitReadiness_first_poll:
  "\<not> DryRun (opt a) \<Longrightarrow>
   WaitReadiness fuel k ref timeout a
   = WaitReadiness_loop fuel k ref (if timeout = 0 then WaitObjectTimeout (opt a) else timeout)
       (Now k (trace a @ [pctx_Debugf (MsgWaitingFor ref), Now_call]))
       (Now k (trace a @ [pctx_Debugf (MsgWaitingFor ref)])) False
       (a\<lparr>trace := trace a @ [pctx_Debugf (MsgWaitingFor ref), Now_call, Now_call]\<rparr>)"
  by (simp add: WaitReadiness_def readClock_def emit_def Let_def)

text \<open>
  C7.  Every call \<open>WaitReadiness(ref, timeout)\<close>.  In a dry run it returns true at once
  and leaves the orchestrator as it is.  Otherwise it runs the polling loop from the state
  after the debug line and the two readings of the clock, with \<open>WaitObjectTimeout\<close> in the
  place of a zero timeout.  At every poll that the call reaches (poll \<open>n\<close>, the polls before
  it having gone on), with fuel for that poll: a \<open>NotFound\<close> from \<open>GetSingleObject\<close> makes
  the call return false with the error ``disappeared while waiting'' recorded; any other
  error of the get makes it return false with that error recorded; a validator result with
  \<open>Ready\<close> makes it return true with nothing recorded; a result that is not ready and has
  errors makes it return false with one error recorded for each of them, in order, the
  error that \<open>fmt.Errorf\<close> makes of the text; and a result that is neither, when the
  timeout in effect is positive and the time since \<open>startTime\<close> has reached it, makes it
  return false with a timeout error recorded.  In each case the call records the errors
  named and no others.
\<close>

theorem C7_WaitReadiness:
  "(DryRun (opt a) \<longrightarrow> WaitReadiness fuel k ref timeout a = Ok (True, a))
   \<and> (\<not> DryRun (opt a) \<longrightarrow>
        WaitReadiness fuel k ref timeout a
        = WaitReadiness_loop fuel k ref
            (if timeout = 0 then WaitObjectTimeout (opt a) else timeout)
            (Now k (trace a @ [pctx_Debugf (MsgWaitingFor ref), Now_call]))
            (Now k (trace a @ [pctx_Debugf (MsgWaitingFor ref)])) False
            (a\<lparr>trace := trace a @ [pctx_Debugf (MsgWaitingFor ref), Now_call, Now_call]\<rparr>))
   \<and> (\<not> DryRun (opt a) \<and> poll_state n k ref timeout a = Some (lastLogTime, didLog, b)
        \<and> GetSingleObject k (trace b @ [Now_call]) ref = (obj, ws, Some e) \<and> IsNotFound e \<longrightarrow>
        (\<exists>a'. WaitReadiness (Suc (n + fuel)) k ref timeout a = Ok (False, a')
            \<and> dew_errors a' = dew_errors a @
                 [(ref, Errorf (RefString k ref
                                @ '' disappeared while waiting for it to become ready''))]))
   \<and> (\<not> DryRun (opt a) \<and> poll_state n k ref timeout a = Some (lastLogTime, didLog, b)
        \<and> GetSingleObject k (trace b @ [Now_call]) ref = (obj, ws, Some e) \<and> \<not> IsNotFound e \<longrightarrow>
        (\<exists>a'. WaitReadiness (Suc (n + fuel)) k ref timeout a = Ok (False, a')
            \<and> dew_errors a' = dew_errors a @ [(ref, e)]))
   \<and> (\<not> DryRun (opt a) \<and> poll_state n k ref timeout a = Some (lastLogTime, didLog, b)
        \<and> GetSingleObject k (trace b @ [Now_call]) ref = (obj, ws, None)
        \<and> v = ValidateObject k (trace b @ [Now_call, GetSingleObject_call ref]) obj
        \<and> Ready v \<longrightarrow>
        (\<exists>a'. WaitReadiness (Suc (n + fuel)) k ref timeout a = Ok (True, a')
            \<and> dew_errors a' = dew_errors a))
   \<and> (\<not> DryRun (opt a) \<and> poll_state n k ref timeout a = Some (lastLogTime, didLog, b)
        \<and> GetSingleObject k (trace b @ [Now_call]) ref = (obj, ws, None)
        \<and> v = ValidateObject k (trace b @ [Now_call, GetSingleObject_call ref]) obj
        \<and> \<not> Ready v \<and> Errors v \<noteq> [] \<longrightarrow>
        (\<exists>a'. WaitReadiness (Suc (n + fuel)) k ref timeout a = Ok (False, a')
            \<and> dew_errors a' = dew_errors a @ map (\<lambda>e. (ref, fmt_Errorf k e)) (Errors v)))
   \<and> (\<not> DryRun (opt a) \<and> poll_state n k ref timeout a = Some (lastLogTime, didLog, b)
        \<and> GetSingleObject k (trace b @ [Now_call]) ref = (obj, ws, None)
        \<and> v = ValidateObject k (trace b @ [Now_call, GetSingleObject_call ref]) obj
        \<and> \<not> Ready v \<and> Errors v = []
        \<and> effectiveTimeout a timeout > 0
        \<and> Now k (trace b @ [Now_call, GetSingleObject_call ref]) - wait_startTime k ref a
             \<ge> effectiveTimeout a timeout \<longrightarrow>
        (\<exists>a'. WaitReadiness (Suc (n + fuel)) k ref timeout a = Ok (False, a')
            \<and> dew_errors a' = dew_errors a @
                 [(ref, Errorf (''timed out while waiting for '' @ RefString k ref))]))"
proof (intro conjI impI; (elim conjE)?)
  assume "DryRun (opt a)"
  then show "WaitReadiness fuel k ref timeout a = Ok (True, a)"
    by (rule WaitReadiness_dry_run)
next
  assume "\<not> DryRun (opt a)"
  then show "WaitReadiness fuel k ref timeout a
        = WaitReadiness_loop fuel k ref
            (if timeout = 0 then WaitObjectTimeout (opt a) else timeout)
            (Now k (trace a @ [pctx_Debugf (MsgWaitingFor ref), Now_call]))
            (Now k (trace a @ [pctx_Debugf (MsgWaitingFor ref)])) False
            (a\<lparr>trace := trace a @ [pctx_Debugf (MsgWaitingFor ref), Now_call, Now_call]\<rparr>)"
    by (rule WaitReadiness_first_poll)
next
  assume h: "\<not> DryRun (opt a)" "poll_state n k ref timeout a = Some (lastLogTime, didLog, b)"
    "GetSingleObject k (trace b @ [Now_call]) ref = (obj, ws, Some e)" "IsNotFound e"
  show "\<exists>a'. WaitReadiness (Suc (n + fuel)) k ref timeout a = Ok (False, a')
            \<and> dew_errors a' = dew_errors a @
                 [(ref, Errorf (RefString k ref
                                @ '' disappeared while waiting for it to become ready''))]"
    by (rule verdict_at_poll[OF h(1,2)], rule poll_not_found[OF h(3,4)])
next
  assume h: "\<not> DryRun (opt a)" "poll_state n k ref timeout a = Some (lastLogTime, didLog, b)"
    "GetSingleObject k (trace b @ [Now_call]) ref = (obj, ws, Some e)" "\<not> IsNotFound e"
  show "\<exists>a'. WaitReadiness (Suc (n + fuel)) k ref timeout a = Ok (False, a')
            \<and> dew_errors a' = dew_errors a @ [(ref, e)]"
    by (rule verdict_at_poll[OF h(1,2)], rule poll_other_error[OF h(3,4)])
next
  assume h: "\<not> DryRun (opt a)" "poll_state n k ref timeout a = Some (lastLogTime, didLog, b)"
    "GetSingleObject k (trace b @ [Now_call]) ref = (obj, ws, None)"
    "v = ValidateObject k (trace b @ [Now_call, GetSingleObject_call ref]) obj" "Ready v"
  from h(4,5) have r: "Ready (ValidateObject k (trace b @ [Now_call, GetSingleObject_call ref]) obj)"
    by simp
  show "\<exists>a'. WaitReadiness (Suc (n + fuel)) k ref timeout a = Ok (True, a')
            \<and> dew_errors a' = dew_errors a"
    using verdict_at_poll[OF h(1,2), where es="[]" and r=True and fuel=fuel]
      poll_ready[OF h(3) r] by simp
next
  assume h: "\<not> DryRun (opt a)" "poll_state n k ref timeout a = Some (lastLogTime, didLog, b)"
    "GetSingleObject k (trace b @ [Now_call]) ref = (obj, ws, None)"
    "v = ValidateObject k (trace b @ [Now_call, GetSingleObject_call ref]) obj"
    "\<not> Ready v" "Errors v \<noteq> []"
  show "\<exists>a'. WaitReadiness (Suc (n + fuel)) k ref timeout a = Ok (False, a')
            \<and> dew_errors a' = dew_errors a @ map (\<lambda>e. (ref, fmt_Errorf k e)) (Errors v)"
    by (rule verdict_at_poll[OF h(1,2)], rule poll_validation_errors[OF h(3,4,5,6)])
next
  assume h: "\<not> DryRun (opt a)" "poll_state n k ref timeout a = Some (lastLogTime, didLog, b)"
    "GetSingleObject k (trace b @ [Now_call]) ref = (obj, ws, None)"
    "v = ValidateObject k (trace b @ [Now_call, GetSingleObject_call ref]) obj"
    "\<not> Ready v" "Errors v = []" "effectiveTimeout a timeout > 0"
    "Now k (trace b @ [Now_call, GetSingleObject_call ref]) - wait_startTime k ref a
       \<ge> effectiveTimeout a timeout"
  show "\<exists>a'. WaitReadiness (Suc (n + fuel)) k ref timeout a = Ok (False, a')
            \<and> dew_errors a' = dew_errors a @
                 [(ref, Errorf (''timed out while waiting for '' @ RefString k ref))]"
    by (rule verdict_at_poll[OF h(1,2)], rule poll_timeout[OF h(3,4,5,6,7,8)])
qed

theorem C7_WaitReadiness_witness:
  "WaitReadiness 0 env0 ref_web 0 (NewApplyUtil [] (options0\<lparr>DryRun := True\<rparr>))
     = Ok (True, NewApplyUtil [] (options0\<lparr>DryRun := True\<rparr>))
   \<and> (\<exists>a'. WaitReadiness 1 env0 ref_web 0 (NewApplyUtil [] options0) = Ok (False, a')
         \<and> dew_errors a' = [(ref_web,
              Errorf ''default/web disappeared while waiting for it to become ready'')])
   \<and> (\<exists>a'. WaitReadiness 1 env_get_fails ref_web 0 (NewApplyUtil [] options0) = Ok (False, a')
         \<and> dew_errors a' = [(ref_web, Errorf ''connection refused'')])
   \<and> (\<exists>a'. WaitReadiness 1 env_ready ref_web 0 (NewApplyUtil [] options0) = Ok (True, a')
         \<and> dew_errors a' = [])
   \<and> (\<exists>a'. WaitReadiness 1 env_invalid ref_web 0 (NewApplyUtil [] options0) = Ok (False, a')
         \<and> dew_errors a' = [(ref_web, Errorf ''CrashLoopBackOff''),
                             (ref_web, Errorf ''cpu at 100%!(NOVERB)'')])
   \<and> (\<exists>a'. WaitReadiness 1 env_pending ref_web 0 (NewApplyUtil [] options_wait) = Ok (False, a')
         \<and> dew_errors a' = [(ref_web, Errorf ''timed out while waiting for default/web'')])
   \<and> (\<exists>a'. WaitReadiness 2 env_starting ref_web 0 (NewApplyUtil [] options0) = Ok (True, a')
         \<and> dew_errors a' = [])"
proof -
  let ?a = "NewApplyUtil [] options0"
  let ?w = "NewApplyUtil [] options_wait"
  let ?b = "a_first_poll options0"
  note defs = env0_def wait_defs options0_def NewApplyUtil_def ref_web_def remote_web_def
    Second_def Millisecond_def
  have nd: "\<not> DryRun (opt ?a)" "\<not> DryRun (opt ?w)"
    by (simp_all add: defs)
  have c1: "WaitReadiness 0 env0 ref_web 0 (NewApplyUtil [] (options0\<lparr>DryRun := True\<rparr>))
     = Ok (True, NewApplyUtil [] (options0\<lparr>DryRun := True\<rparr>))"
    using C7_WaitReadiness[where k=env0 and a="NewApplyUtil [] (options0\<lparr>DryRun := True\<rparr>)"
          and fuel=0 and ref=ref_web and timeout=0, THEN conjunct1]
    by (simp add: NewApplyUtil_def)
  have p2: "poll_state 0 env0 ref_web 0 ?a = Some (1, False, ?b)"
    by (simp add: poll_state_def first_poll_def defs)
  have g2: "GetSingleObject env0 (trace ?b @ [Now_call]) ref_web
            = (None, [], Some (StatusError NotFound []))"
    by (simp add: defs)
  have n2: "IsNotFound (StatusError NotFound [])"
    by (simp add: IsNotFound_def)
  have "\<exists>a'. WaitReadiness (Suc (0 + 0)) env0 ref_web 0 ?a = Ok (False, a')
         \<and> dew_errors a' = dew_errors ?a @ [(ref_web, Errorf (RefString env0 ref_web
              @ '' disappeared while waiting for it to become ready''))]"
    using C7_WaitReadiness[where k=env0 and a="?a" and fuel=0 and ref=ref_web and timeout=0
          and n=0 and lastLogTime=1 and didLog=False and b="?b" and obj=None and ws="[]"
          and e="StatusError NotFound []", THEN conjunct2, THEN conjunct2, THEN conjunct1]
      nd(1) p2 g2 n2
    by blast
  then have c2: "\<exists>a'. WaitReadiness 1 env0 ref_web 0 ?a = Ok (False, a')
         \<and> dew_errors a' = [(ref_web,
              Errorf ''default/web disappeared while waiting for it to become ready'')]"
    by (simp add: defs)
  have p3: "poll_state 0 env_get_fails ref_web 0 ?a = Some (1, False, ?b)"
    by (simp add: poll_state_def first_poll_def defs)
  have g3: "GetSingleObject env_get_fails (trace ?b @ [Now_call]) ref_web
            = (None, [], Some (Errorf ''connection refused''))"
    by (simp add: defs)
  have n3: "\<not> IsNotFound (Errorf ''connection refused'')"
    by (simp add: IsNotFound_def)
  have "\<exists>a'. WaitReadiness (Suc (0 + 0)) env_get_fails ref_web 0 ?a = Ok (False, a')
         \<and> dew_errors a' = dew_errors ?a @ [(ref_web, Errorf ''connection refused'')]"
    using C7_WaitReadiness[where k=env_get_fails and a="?a" and fuel=0 and ref=ref_web
          and timeout=0 and n=0 and lastLogTime=1 and didLog=False and b="?b" and obj=None
          and ws="[]" and e="Errorf ''connection refused''",
          THEN conjunct2, THEN conjunct2, THEN conjunct2, THEN conjunct1]
      nd(1) p3 g3 n3
    by blast
  then have c3: "\<exists>a'. WaitReadiness 1 env_get_fails ref_web 0 ?a = Ok (False, a')
         \<and> dew_errors a' = [(ref_web, Errorf ''connection refused'')]"
    by (simp add: defs)
  have p4: "poll_state 0 env_ready ref_web 0 ?a = Some (1, False, ?b)"
    by (simp add: poll_state_def first_poll_def defs)
  have g4: "GetSingleObject env_ready (trace ?b @ [Now_call]) ref_web = (Some remote_web, [], None)"
    by (simp add: defs)
  have v4: "\<lparr>Ready = True, Errors = []\<rparr>
            = ValidateObject env_ready (trace ?b @ [Now_call, GetSingleObject_call ref_web])
                (Some remote_web)"
    by (simp add: defs)
  have r4: "Ready \<lparr>Ready = True, Errors = []\<rparr>"
    by simp
  have "\<exists>a'. WaitReadiness (Suc (0 + 0)) env_ready ref_web 0 ?a = Ok (True, a')
         \<and> dew_errors a' = dew_errors ?a"
    using C7_WaitReadiness[where k=env_ready and a="?a" and fuel=0 and ref=ref_web
          and timeout=0 and n=0 and lastLogTime=1 and didLog=False and b="?b"
          and obj="Some remote_web" and ws="[]" and v="\<lparr>Ready = True, Errors = []\<rparr>",
          THEN conjunct2, THEN conjunct2, THEN conjunct2, THEN conjunct2, THEN conjunct1]
      nd(1) p4 g4 v4 r4
    by blast
  then have c4: "\<exists>a'. WaitReadiness 1 env_ready ref_web 0 ?a = Ok (True, a')
         \<and> dew_errors a' = []"
    by (simp add: defs)
  have p5: "poll_state 0 env_invalid ref_web 0 ?a = Some (1, False, ?b)"
    by (simp add: poll_state_def first_poll_def defs)
  have g5: "GetSingleObject env_invalid (trace ?b @ [Now_call]) ref_web
            = (Some remote_web, [], None)"
    by (simp add: defs)
  have v5: "\<lparr>Ready = False, Errors = [''CrashLoopBackOff'', ''cpu at 100%'']\<rparr>
            = ValidateObject env_invalid (trace ?b @ [Now_call, GetSingleObject_call ref_web])
                (Some remote_web)"
    by (simp add: defs)
  have r5: "\<not> Ready \<lparr>Ready = False, Errors = [''CrashLoopBackOff'', ''cpu at 100%'']\<rparr>"
    "Errors \<lparr>Ready = False, Errors = [''CrashLoopBackOff'', ''cpu at 100%'']\<rparr> \<noteq> []"
    by simp_all
  have "\<exists>a'. WaitReadiness (Suc (0 + 0)) env_invalid ref_web 0 ?a = Ok (False, a')
         \<and> dew_errors a' = dew_errors ?a @ map (\<lambda>e. (ref_web, fmt_Errorf env_invalid e))
              (Errors \<lparr>Ready = False, Errors = [''CrashLoopBackOff'', ''cpu at 100%'']\<rparr>)"
    using C7_WaitReadiness[where k=env_invalid and a="?a" and fuel=0 and ref=ref_web
          and timeout=0 and n=0 and lastLogTime=1 and didLog=False and b="?b"
          and obj="Some remote_web" and ws="[]"
          and v="\<lparr>Ready = False, Errors = [''CrashLoopBackOff'', ''cpu at 100%'']\<rparr>",
          THEN conjunct2, THEN conjunct2, THEN conjunct2, THEN conjunct2, THEN conjunct2,
          THEN conjunct1]
      nd(1) p5 g5 v5 r5
    by blast
  then have c5: "\<exists>a'. WaitReadiness 1 env_invalid ref_web 0 ?a = Ok (False, a')
         \<and> dew_errors a' = [(ref_web, Errorf ''CrashLoopBackOff''),
                             (ref_web, Errorf ''cpu at 100%!(NOVERB)'')]"
    by (simp add: defs)
  have p6: "poll_state 0 env_pending ref_web 0 ?w = Some (10 * Second, False, a_first_poll options_wait)"
    by (simp add: poll_state_def first_poll_def defs)
  have g6: "GetSingleObject env_pending (trace (a_first_poll options_wait) @ [Now_call]) ref_web
            = (Some remote_web, [], None)"
    by (simp add: defs)
  have v6: "\<lparr>Ready = False, Errors = []\<rparr>
            = ValidateObject env_pending
                (trace (a_first_poll options_wait) @ [Now_call, GetSingleObject_call ref_web])
                (Some remote_web)"
    by (simp add: defs)
  have t6: "effectiveTimeout ?w 0 = 5 * Second" "effectiveTimeout ?w 0 > 0"
    "Now env_pending (trace (a_first_poll options_wait) @ [Now_call, GetSingleObject_call ref_web])
       - wait_startTime env_pending ref_web ?w \<ge> effectiveTimeout ?w 0"
    by (simp_all add: effectiveTimeout_def wait_startTime_def defs)
  have r6: "\<not> Ready \<lparr>Ready = False, Errors = []\<rparr>"
    "Errors \<lparr>Ready = False, Errors = []\<rparr> = []"
    by simp_all
  have "\<exists>a'. WaitReadiness (Suc (0 + 0)) env_pending ref_web 0 ?w = Ok (False, a')
         \<and> dew_errors a' = dew_errors ?w @
              [(ref_web, Errorf (''timed out while waiting for '' @ RefString env_pending ref_web))]"
    using C7_WaitReadiness[where k=env_pending and a="?w" and fuel=0 and ref=ref_web
          and timeout=0 and n=0 and lastLogTime="10 * Second" and didLog=False
          and b="a_first_poll options_wait"
          and obj="Some remote_web" and ws="[]" and v="\<lparr>Ready = False, Errors = []\<rparr>",
          THEN conjunct2, THEN conjunct2, THEN conjunct2, THEN conjunct2, THEN conjunct2,
          THEN conjunct2]
      nd(2) p6 g6 v6 r6 t6(2,3)
    by blast
  then have c6: "\<exists>a'. WaitReadiness 1 env_pending ref_web 0 ?w = Ok (False, a')
         \<and> dew_errors a' = [(ref_web, Errorf ''timed out while waiting for default/web'')]"
    by (simp add: defs)
  have p7: "poll_state 1 env_starting ref_web 0 ?a = Some (7, True, a_second_poll)"
    by (simp add: poll_state_def first_poll_def effectiveTimeout_def wait_startTime_def
          WaitReadiness_iter_def readClock_def emit_def handleApiWarnings_def AddApiWarnings_def
          Let_def defs)
  have g7: "GetSingleObject env_starting (trace a_second_poll @ [Now_call]) ref_web
            = (Some remote_web, [], None)"
    by (simp add: defs)
  have v7: "\<lparr>Ready = True, Errors = []\<rparr>
            = ValidateObject env_starting
                (trace a_second_poll @ [Now_call, GetSingleObject_call ref_web]) (Some remote_web)"
    by (simp add: defs)
  have "\<exists>a'. WaitReadiness (Suc (1 + 0)) env_starting ref_web 0 ?a = Ok (True, a')
         \<and> dew_errors a' = dew_errors ?a"
    using C7_WaitReadiness[where k=env_starting and a="?a" and fuel=0 and ref=ref_web
          and timeout=0 and n=1 and lastLogTime=7 and didLog=True and b="a_second_poll"
          and obj="Some remote_web" and ws="[]" and v="\<lparr>Ready = True, Errors = []\<rparr>",
          THEN conjunct2, THEN conjunct2, THEN conjunct2, THEN conjunct2, THEN conjunct1]
      nd(1) p7 g7 v7 r4
    by blast
  then have c7: "\<exists>a'. WaitReadiness 2 env_starting ref_web 0 ?a = Ok (True, a')
         \<and> dew_errors a' = []"
    by (simp add: defs numeral_2_eq_2)
  from c1 c2 c3 c4 c5 c6 c7 show ?thesis by (intro conjI)
qed

subsection \<open>The conflict path\<close>

text \<open>The forced patch: an error is recorded, a result is stored; the gateway sees one patch.\<close>

lemma conflicts_patch_error:
  assumes "PatchObject k (trace a) x2 \<lparr>patch_ForceDryRun = DryRun (opt a), patch_ForceApply = True\<rparr>
             = (r, ws, Some e)"
  shows "retryApplyWithConflicts_patch k ref x2 hook a
         = Ok (HandleError ref e (handleApiWarnings ref ws
                 (emit (PatchObject_call x2
                    \<lparr>patch_ForceDryRun = DryRun (opt a), patch_ForceApply = True\<rparr>) a)))"
  using assms by (simp add: retryApplyWithConflicts_patch_def Let_def)

lemma conflicts_patch_ok:
  assumes "PatchObject k (trace a) x2 \<lparr>patch_ForceDryRun = DryRun (opt a), patch_ForceApply = True\<rparr>
             = (r, ws, None)"
  shows "retryApplyWithConflicts_patch k ref x2 hook a
         = handleResult r hook (handleApiWarnings ref ws
                 (emit (PatchObject_call x2
                    \<lparr>patch_ForceDryRun = DryRun (opt a), patch_ForceApply = True\<rparr>) a))"
  using assms by (simp add: retryApplyWithConflicts_patch_def Let_def)

lemma classify_conflict:
  "IsConflict e \<Longrightarrow>
   ApplyObject_classify k ref x hook remoteObject u r ws (Some e) a
   = retryApplyWithConflicts k x hook remoteObject e (handleApiWarnings ref ws a)"
  by (cases e) (auto simp: ApplyObject_classify_def Let_def IsConflict_def)

lemma classify_internal:
  "IsInternalError e \<Longrightarrow>
   ApplyObject_classify k ref x hook remoteObject u r ws (Some e) a
   = Ok (HandleError ref e (handleApiWarnings ref ws a))"
  by (cases e) (auto simp: ApplyObject_classify_def Let_def IsConflict_def IsInternalError_def)

lemma handleNewCRDs_other_error:
  "\<not> IsNoMatchError e \<Longrightarrow> handleNewCRDs k r (Some e) a = Ok (False, Some e, a)"
  by (simp add: handleNewCRDs_def)

lemma IsConflict_not_NoMatch: "IsConflict e \<Longrightarrow> \<not> IsNoMatchError e"
  by (cases e) (auto simp: IsConflict_def)

lemma IsInternalError_not_NoMatch: "IsInternalError e \<Longrightarrow> \<not> IsNoMatchError e"
  by (cases e) (auto simp: IsInternalError_def)

lemma patch_conflict:
  assumes "PatchObject k (trace a) x \<lparr>patch_ForceDryRun = DryRun (opt a), patch_ForceApply = False\<rparr>
             = (r, ws, Some e)"
      and "IsConflict e"
  shows "ApplyObject_patch k ref x hook remoteObject u a
         = retryApplyWithConflicts k x hook remoteObject e
             (handleApiWarnings ref ws
                (emit (PatchObject_call x
                   \<lparr>patch_ForceDryRun = DryRun (opt a), patch_ForceApply = False\<rparr>) a))"
  using assms
  by (simp add: ApplyObject_patch_def Let_def handleNewCRDs_other_error IsConflict_not_NoMatch
        classify_conflict)

lemma patch_internal:
  assumes "PatchObject k (trace a) x \<lparr>patch_ForceDryRun = DryRun (opt a), patch_ForceApply = False\<rparr>
             = (r, ws, Some e)"
      and "IsInternalError e"
  shows "ApplyObject_patch k ref x hook remoteObject u a
         = Ok (HandleError ref e
             (handleApiWarnings ref ws
                (emit (PatchObject_call x
                   \<lparr>patch_ForceDryRun = DryRun (opt a), patch_ForceApply = False\<rparr>) a)))"
  using assms
  by (simp add: ApplyObject_patch_def Let_def handleNewCRDs_other_error
        IsInternalError_not_NoMatch classify_internal)

lemma conflicts_no_remote:
  "retryApplyWithConflicts k x hook None e a = Ok (HandleError (k8sRef x) e a)"
  by (simp add: retryApplyWithConflicts_def)

lemma conflicts_forced:
  "ForceApply (opt a) \<Longrightarrow>
   retryApplyWithConflicts k x hook (Some rem) e a = retryApplyWithConflicts_patch k (k8sRef x) x hook a"
  by (simp add: retryApplyWithConflicts_def)

lemma conflicts_no_status:
  "\<not> ForceApply (opt a) \<Longrightarrow> AsStatusError e = None \<Longrightarrow>
   retryApplyWithConflicts k x hook (Some rem) e a = Ok (HandleError (k8sRef x) e a)"
  by (simp add: retryApplyWithConflicts_def)

lemma conflicts_resolver_fails:
  "\<not> ForceApply (opt a) \<Longrightarrow> AsStatusError e = Some st \<Longrightarrow>
   ResolveFieldManagerConflicts k x rem st = Inl err \<Longrightarrow>
   retryApplyWithConflicts k x hook (Some rem) e a = Ok (HandleError (k8sRef x) err a)"
  by (simp add: retryApplyWithConflicts_def)

lemma conflicts_resolved:
  "\<not> ForceApply (opt a) \<Longrightarrow> AsStatusError e = Some st \<Longrightarrow>
   ResolveFieldManagerConflicts k x rem st = Inr (x3, los) \<Longrightarrow>
   retryApplyWithConflicts k x hook (Some rem) e a
   = retryApplyWithConflicts_patch k (k8sRef x) x3 hook
       (fold (\<lambda>lo. AddWarning (k8sRef x) (lostOwnershipWarning lo)) los a)"
  by (simp add: retryApplyWithConflicts_def Let_def)

text \<open>
  C5 (as amended).  Let the first patch of \<open>x\<close> fail with the error \<open>e\<close>, and let \<open>a1\<close> be
  the state after that patch.  If \<open>e\<close> is a conflict: without a remote baseline \<open>e\<close> is
  recorded and the ladder ends; with a baseline and the \<open>ForceApply\<close> option, \<open>x\<close> itself is
  re-patched; with a baseline and without the option, the error is recorded and the ladder
  ends without a re-patch when \<open>e\<close> carries no status or the resolver fails, and otherwise
  one warning per lost-ownership record is added and the resolved object \<open>x3\<close> is
  re-patched.  The re-patch carries \<open>ForceApply = true\<close>; its error is recorded and its
  result is handed to \<open>handleResult\<close>, and in both cases the patch is the last call to the
  gateway.  If \<open>e\<close> is an internal error it is recorded and the ladder ends.
\<close>

theorem C5_conflict_path:
  assumes first: "PatchObject k (trace a) x
                    \<lparr>patch_ForceDryRun = DryRun (opt a), patch_ForceApply = False\<rparr> = (r, ws, Some e)"
      and a1: "a1 = handleApiWarnings ref ws
                 (emit (PatchObject_call x
                    \<lparr>patch_ForceDryRun = DryRun (opt a), patch_ForceApply = False\<rparr>) a)"
  shows
    "(IsConflict e \<and> remoteObject = None \<longrightarrow>
        ApplyObject_patch k ref x hook remoteObject u a = Ok (HandleError (k8sRef x) e a1))
     \<and> (IsConflict e \<and> remoteObject = Some rem \<and> ForceApply (opt a) \<longrightarrow>
        ApplyObject_patch k ref x hook remoteObject u a
        = retryApplyWithConflicts_patch k (k8sRef x) x hook a1)
     \<and> (IsConflict e \<and> remoteObject = Some rem \<and> \<not> ForceApply (opt a)
          \<and> AsStatusError e = None \<longrightarrow>
        ApplyObject_patch k ref x hook remoteObject u a = Ok (HandleError (k8sRef x) e a1))
     \<and> (IsConflict e \<and> remoteObject = Some rem \<and> \<not> ForceApply (opt a)
          \<and> AsStatusError e = Some st \<and> ResolveFieldManagerConflicts k x rem st = Inl err \<longrightarrow>
        ApplyObject_patch k ref x hook remoteObject u a = Ok (HandleError (k8sRef x) err a1))
     \<and> (IsConflict e \<and> remoteObject = Some rem \<and> \<not> ForceApply (opt a)
          \<and> AsStatusError e = Some st
          \<and> ResolveFieldManagerConflicts k x rem st = Inr (x3, los) \<longrightarrow>
        (\<exists>a2. ApplyObject_patch k ref x hook remoteObject u a
                = retryApplyWithConflicts_patch k (k8sRef x) x3 hook a2
              \<and> dew_warnings a2
                = dew_warnings a1 @ map (\<lambda>lo. (k8sRef x, lostOwnershipWarning lo)) los
              \<and> trace a2 = trace a1 \<and> dew_errors a2 = dew_errors a1))
     \<and> (PatchObject k (trace b) x2
           \<lparr>patch_ForceDryRun = DryRun (opt b), patch_ForceApply = True\<rparr> = (r2, ws2, Some e2) \<longrightarrow>
        retryApplyWithConflicts_patch k ref2 x2 hook b
        = Ok (HandleError ref2 e2 (handleApiWarnings ref2 ws2
                (emit (PatchObject_call x2
                   \<lparr>patch_ForceDryRun = DryRun (opt b), patch_ForceApply = True\<rparr>) b))))
     \<and> (PatchObject k (trace b) x2
           \<lparr>patch_ForceDryRun = DryRun (opt b), patch_ForceApply = True\<rparr> = (r2, ws2, None) \<longrightarrow>
        retryApplyWithConflicts_patch k ref2 x2 hook b
        = handleResult r2 hook (handleApiWarnings ref2 ws2
            (emit (PatchObject_call x2
               \<lparr>patch_ForceDryRun = DryRun (opt b), patch_ForceApply = True\<rparr>) b)))
     \<and> (IsInternalError e \<longrightarrow>
        ApplyObject_patch k ref x hook remoteObject u a = Ok (HandleError ref e a1))"
proof (intro conjI impI; (elim conjE)?)
  assume "IsConflict e" "remoteObject = None"
  then show "ApplyObject_patch k ref x hook remoteObject u a = Ok (HandleError (k8sRef x) e a1)"
    using patch_conflict[OF first] a1 by (simp add: conflicts_no_remote)
next
  assume "IsConflict e" "remoteObject = Some rem" "ForceApply (opt a)"
  then show "ApplyObject_patch k ref x hook remoteObject u a
             = retryApplyWithConflicts_patch k (k8sRef x) x hook a1"
    using patch_conflict[OF first] a1 by (simp add: conflicts_forced)
next
  assume "IsConflict e" "remoteObject = Some rem" "\<not> ForceApply (opt a)" "AsStatusError e = None"
  then show "ApplyObject_patch k ref x hook remoteObject u a = Ok (HandleError (k8sRef x) e a1)"
    using patch_conflict[OF first] a1 by (simp add: conflicts_no_status)
next
  assume "IsConflict e" "remoteObject = Some rem" "\<not> ForceApply (opt a)"
    "AsStatusError e = Some st" "ResolveFieldManagerConflicts k x rem st = Inl err"
  then show "ApplyObject_patch k ref x hook remoteObject u a = Ok (HandleError (k8sRef x) err a1)"
    using patch_conflict[OF first] a1 by (simp add: conflicts_resolver_fails)
next
  assume h: "IsConflict e" "remoteObject = Some rem" "\<not> ForceApply (opt a)"
    "AsStatusError e = Some st" "ResolveFieldManagerConflicts k x rem st = Inr (x3, los)"
  let ?a2 = "fold (\<lambda>lo. AddWarning (k8sRef x) (lostOwnershipWarning lo)) los a1"
  have "ApplyObject_patch k ref x hook remoteObject u a
        = retryApplyWithConflicts_patch k (k8sRef x) x3 hook ?a2"
    using h patch_conflict[OF first] a1 by (simp add: conflicts_resolved)
  moreover have "dew_warnings ?a2
        = dew_warnings a1 @ map (\<lambda>lo. (k8sRef x, lostOwnershipWarning lo)) los"
    by (rule dew_warnings_fold_AddWarning)
  moreover have "trace ?a2 = trace a1" by simp
  moreover have "dew_errors ?a2 = dew_errors a1"
    by (induction los arbitrary: a1) (auto simp: AddWarning_def)
  ultimately show "\<exists>a2. ApplyObject_patch k ref x hook remoteObject u a
                = retryApplyWithConflicts_patch k (k8sRef x) x3 hook a2
              \<and> dew_warnings a2
                = dew_warnings a1 @ map (\<lambda>lo. (k8sRef x, lostOwnershipWarning lo)) los
              \<and> trace a2 = trace a1 \<and> dew_errors a2 = dew_errors a1"
    by blast
next
  assume "PatchObject k (trace b) x2
           \<lparr>patch_ForceDryRun = DryRun (opt b), patch_ForceApply = True\<rparr> = (r2, ws2, Some e2)"
  then show "retryApplyWithConflicts_patch k ref2 x2 hook b
        = Ok (HandleError ref2 e2 (handleApiWarnings ref2 ws2
                (emit (PatchObject_call x2
                   \<lparr>patch_ForceDryRun = DryRun (opt b), patch_ForceApply = True\<rparr>) b)))"
    by (rule conflicts_patch_error)
next
  assume "PatchObject k (trace b) x2
           \<lparr>patch_ForceDryRun = DryRun (opt b), patch_ForceApply = True\<rparr> = (r2, ws2, None)"
  then show "retryApplyWithConflicts_patch k ref2 x2 hook b
        = handleResult r2 hook (handleApiWarnings ref2 ws2
            (emit (PatchObject_call x2
               \<lparr>patch_ForceDryRun = DryRun (opt b), patch_ForceApply = True\<rparr>) b))"
    by (rule conflicts_patch_ok)
next
  assume "IsInternalError e"
  then show "ApplyObject_patch k ref x hook remoteObject u a = Ok (HandleError ref e a1)"
    using patch_internal[OF first] a1 by simp
qed

theorem C5_conflict_path_witness:
  "IsConflict conflict_error \<and> IsConflict (APIStatusError Conflict)
   \<and> IsInternalError (StatusError InternalError [])
   \<and> map_result dew_errors
        (ApplyObject_patch env_conflict ref_web obj_web False None False
           (NewApplyUtil [] options_replace))
       = Ok [(ref_web, conflict_error)]
   \<and> ApplyObject_patch env_conflict ref_web obj_web False (Some remote_web) False
        (NewApplyUtil [] (options_replace\<lparr>ForceApply := True\<rparr>))
       = retryApplyWithConflicts_patch env_conflict ref_web obj_web False
           (handleApiWarnings ref_web []
              (emit (PatchObject_call obj_web
                       \<lparr>patch_ForceDryRun = False, patch_ForceApply = False\<rparr>)
                 (NewApplyUtil [] (options_replace\<lparr>ForceApply := True\<rparr>))))
   \<and> map_result dew_errors
        (ApplyObject_patch env_conflict_plain ref_web obj_web False (Some remote_web) False
           (NewApplyUtil [] options_replace))
       = Ok [(ref_web, APIStatusError Conflict)]
   \<and> map_result dew_errors
        (ApplyObject_patch env_conflict_unresolved ref_web obj_web False (Some remote_web) False
           (NewApplyUtil [] options_replace))
       = Ok [(ref_web, Errorf ''cannot parse the conflict status'')]
   \<and> (\<exists>a2. ApplyObject_patch env_conflict ref_web obj_web False (Some remote_web) False
               (NewApplyUtil [] options_replace)
             = retryApplyWithConflicts_patch env_conflict ref_web obj_web_resolved False a2
           \<and> dew_warnings a2 = [(ref_web, lostOwnershipWarning lost_replicas)]
           \<and> trace a2 = [PatchObject_call obj_web
                            \<lparr>patch_ForceDryRun = False, patch_ForceApply = False\<rparr>]
           \<and> dew_errors a2 = [])
   \<and> map_result (\<lambda>a. (trace a, dew_errors a))
        (retryApplyWithConflicts_patch env_conflict_always ref_web obj_web_resolved False
           (NewApplyUtil [] options_replace))
       = Ok ([PatchObject_call obj_web_resolved
                \<lparr>patch_ForceDryRun = False, patch_ForceApply = True\<rparr>],
             [(ref_web, conflict_error)])
   \<and> map_result (\<lambda>a. (trace a, AppliedObjects a, dew_errors a))
        (retryApplyWithConflicts_patch env_conflict ref_web obj_web_resolved False
           (NewApplyUtil [] options_replace))
       = Ok ([PatchObject_call obj_web_resolved
                \<lparr>patch_ForceDryRun = False, patch_ForceApply = True\<rparr>],
             [(ref_web, obj_web_resolved)], [])
   \<and> map_result dew_errors
        (ApplyObject_patch env_internal ref_web obj_web False (Some remote_web) False
           (NewApplyUtil [] options_replace))
       = Ok [(ref_web, StatusError InternalError [])]"
proof -
  let ?a = "NewApplyUtil [] options_replace"
  let ?af = "NewApplyUtil [] (options_replace\<lparr>ForceApply := True\<rparr>)"
  let ?o = "\<lambda>a. \<lparr>patch_ForceDryRun = DryRun (opt a), patch_ForceApply = False\<rparr>"
  have p1: "PatchObject env_conflict (trace ?a) obj_web (?o ?a) = (None, [], Some conflict_error)"
    by (simp add: conflict_defs fixture_defs)
  have p2: "PatchObject env_conflict (trace ?af) obj_web (?o ?af) = (None, [], Some conflict_error)"
    by (simp add: conflict_defs fixture_defs)
  have p3: "PatchObject env_conflict_plain (trace ?a) obj_web (?o ?a)
            = (None, [], Some (APIStatusError Conflict))"
    by (simp add: conflict_defs fixture_defs)
  have p4: "PatchObject env_conflict_unresolved (trace ?a) obj_web (?o ?a)
            = (None, [], Some conflict_error)"
    by (simp add: conflict_defs fixture_defs)
  have p5: "PatchObject env_internal (trace ?a) obj_web (?o ?a)
            = (None, [], Some (StatusError InternalError []))"
    by (simp add: conflict_defs fixture_defs)
  note w1 = C5_conflict_path[OF p1 refl, where ref=ref_web and hook=False and u=False
      and remoteObject=None]
  note w2 = C5_conflict_path[OF p2 refl, where ref=ref_web and hook=False and u=False
      and remoteObject="Some remote_web" and rem=remote_web]
  note w3 = C5_conflict_path[OF p3 refl, where ref=ref_web and hook=False and u=False
      and remoteObject="Some remote_web" and rem=remote_web]
  note w4 = C5_conflict_path[OF p4 refl, where ref=ref_web and hook=False and u=False
      and remoteObject="Some remote_web" and rem=remote_web
      and st="[(''spec.replicas'', ''conflict with kubectl'')]"
      and err="Errorf ''cannot parse the conflict status''"]
  note w5 = C5_conflict_path[OF p1 refl, where ref=ref_web and hook=False and u=False
      and remoteObject="Some remote_web" and rem=remote_web
      and st="[(''spec.replicas'', ''conflict with kubectl'')]"
      and ?x3.0=obj_web_resolved and los="[lost_replicas]"]
  have p6: "PatchObject env_conflict_always (trace ?a) obj_web (?o ?a)
            = (None, [], Some conflict_error)"
    by (simp add: conflict_defs fixture_defs)
  note w6 = C5_conflict_path[OF p6 refl, where b="?a"
      and ?x2.0=obj_web_resolved and ?r2.0=None and ?ws2.0="[]" and ?e2.0=conflict_error
      and ?ref2.0=ref_web and hook=False]
  note w7 = C5_conflict_path[OF p1 refl, where b="?a"
      and ?x2.0=obj_web_resolved and ?r2.0="Some obj_web_resolved" and ?ws2.0="[]"
      and ?ref2.0=ref_web and hook=False]
  note w8 = C5_conflict_path[OF p5 refl, where ref=ref_web and hook=False and u=False
      and remoteObject="Some remote_web"]
  show ?thesis
    using w1 w2 w3 w4 w5 w6 w7 w8
    by (simp add: conflict_defs fixture_defs IsConflict_def IsInternalError_def op_defs)
qed

text \<open>
  C5 as stated says that with a remote baseline the object is always re-patched with
  \<open>ForceApply = true\<close>.  When the resolver fails there is no re-patch: the first patch is
  the only call to the gateway and the resolver's error is what is recorded.
\<close>

theorem C5_conflict_resolver_failure_counterexample:
  "GetRemoteObject env_conflict_unresolved ref_web = Some remote_web
   \<and> \<not> ForceApply options_replace
   \<and> PatchObject env_conflict_unresolved [Log_Debugf ref_web MsgApplyingObject] obj_web
        \<lparr>patch_ForceDryRun = False, patch_ForceApply = False\<rparr> = (None, [], Some conflict_error)
   \<and> IsConflict conflict_error
   \<and> map_result trace
        (ApplyObject env_conflict_unresolved obj_web False False (NewApplyUtil [] options_replace))
      = Ok [Log_Debugf ref_web MsgApplyingObject,
            PatchObject_call obj_web \<lparr>patch_ForceDryRun = False, patch_ForceApply = False\<rparr>]
   \<and> map_result dew_errors
        (ApplyObject env_conflict_unresolved obj_web False False (NewApplyUtil [] options_replace))
      = Ok [(ref_web, Errorf ''cannot parse the conflict status'')]"
  by (simp add: ApplyObject_def ApplyObject_prepare_def ApplyObject_patch_def handleNewCRDs_def
        ApplyObject_classify_def retryApplyWithConflicts_def IsConflict_def fixture_defs
        conflict_defs op_defs)

subsection \<open>The rediscovery latch\<close>

lemma latch_view_emit [simp]:
  "ev \<noteq> RediscoverResources_call \<Longrightarrow> latch_view (emit ev a) = latch_view a"
  by (simp add: latch_view_def rediscoveries_def)

lemma latch_view_prims [simp]:
  "latch_view (handleApiWarnings ref ws a) = latch_view a"
  "latch_view (AddApiWarnings ref ws a) = latch_view a"
  "latch_view (AddWarning ref w a) = latch_view a"
  "latch_view (HandleError ref e a) = latch_view a"
  by (simp_all add: latch_view_def rediscoveries_def)

lemma latch_view_fold_AddWarning [simp]:
  "latch_view (fold (\<lambda>lo. AddWarning ref (f lo)) los a) = latch_view a"
  by (induction los arbitrary: a) auto

lemma latch_view_fold_HandleError [simp]:
  "latch_view (fold (\<lambda>e. HandleError ref (f e)) es a) = latch_view a"
  by (induction es arbitrary: a) auto

lemma latch_handleResult: "handleResult r hook a = Ok a' \<Longrightarrow> latch_view a' = latch_view a"
  by (auto simp: handleResult_def latch_view_def rediscoveries_def Let_def split: option.splits if_splits)

lemma latch_DeleteObject: "DeleteObject k ref hook a = (b, a') \<Longrightarrow> latch_view a' = latch_view a"
  unfolding DeleteObject_def
  by (auto simp: Let_def split: prod.splits option.splits if_splits)
     (simp_all add: latch_view_def rediscoveries_def handleApiWarnings_def AddApiWarnings_def emit_def)

lemma latch_retryApplyForceReplace:
  "retryApplyForceReplace k x hook e a = Ok a' \<Longrightarrow> latch_view a' = latch_view a"
  unfolding retryApplyForceReplace_def
  by (auto simp: Let_def split: if_splits prod.splits option.splits
        dest!: latch_DeleteObject latch_handleResult)

lemma latch_retryApplyWithReplace:
  "retryApplyWithReplace k x hook remoteObject e a = Ok a' \<Longrightarrow> latch_view a' = latch_view a"
  by (auto simp: retryApplyWithReplace.simps Let_def split: if_splits prod.splits option.splits
        dest!: latch_retryApplyForceReplace latch_handleResult)

lemma latch_retryApplyWithConflicts_patch:
  "retryApplyWithConflicts_patch k ref x2 hook a = Ok a' \<Longrightarrow> latch_view a' = latch_view a"
  unfolding retryApplyWithConflicts_patch_def
  by (auto simp: Let_def split: if_splits prod.splits option.splits dest!: latch_handleResult)

lemma latch_retryApplyWithConflicts:
  "retryApplyWithConflicts k x hook remoteObject e a = Ok a' \<Longrightarrow> latch_view a' = latch_view a"
  unfolding retryApplyWithConflicts_def
  by (auto simp: Let_def split: if_splits prod.splits option.splits sum.splits
        dest!: latch_retryApplyWithConflicts_patch)

lemma latch_ApplyObject_classify:
  "ApplyObject_classify k ref x hook remoteObject u r ws err a = Ok a'
   \<Longrightarrow> latch_view a' = latch_view a"
  unfolding ApplyObject_classify_def
  by (auto simp: Let_def split: if_splits prod.splits option.splits
        dest!: latch_handleResult latch_retryApplyWithConflicts latch_retryApplyWithReplace)

lemma latch_WaitReadiness_iter:
  "WaitReadiness_iter k ref timeout startTime lastLogTime didLog a = st
   \<Longrightarrow> (case st of Return b a' \<Rightarrow> latch_view a' = latch_view a
                    | Continue l d a' \<Rightarrow> latch_view a' = latch_view a)"
  unfolding WaitReadiness_iter_def readClock_def
  by (auto simp: Let_def split: if_splits prod.splits option.splits)

lemma latch_WaitReadiness_loop:
  "WaitReadiness_loop fuel k ref timeout startTime lastLogTime didLog a = Ok (b, a')
   \<Longrightarrow> latch_view a' = latch_view a"
proof (induction fuel arbitrary: lastLogTime didLog a)
  case 0
  then show ?case by simp
next
  case (Suc fuel)
  show ?case
  proof (cases "WaitReadiness_iter k ref timeout startTime lastLogTime didLog a")
    case (Return b' a1)
    with Suc.prems latch_WaitReadiness_iter[OF Return] show ?thesis by simp
  next
    case (Continue l d a1)
    with Suc.prems latch_WaitReadiness_iter[OF Continue] Suc.IH[of l d a1]
    show ?thesis by simp
  qed
qed

lemma latch_WaitReadiness:
  "WaitReadiness fuel k ref timeout a = Ok (b, a') \<Longrightarrow> latch_view a' = latch_view a"
  unfolding WaitReadiness_def readClock_def
  by (auto simp: Let_def split: if_splits prod.splits dest!: latch_WaitReadiness_loop)

lemma latch_ReplaceObject_loop:
  "ReplaceObject_loop fuel k ref firstVersion callback firstCall a = Ok a'
   \<Longrightarrow> latch_view a' = latch_view a"
proof (induction fuel arbitrary: firstCall a firstVersion)
  case 0
  then show ?case by simp
next
  case (Suc fuel)
  from Suc.prems show ?case
    by (auto simp: Let_def split: if_splits prod.splits option.splits sum.splits
          dest!: latch_handleResult Suc.IH)
qed

text \<open>The four outcomes of \<open>handleNewCRDs\<close> inside \<open>ApplyObject_patch\<close>.\<close>

lemma patch_nomatch_rediscovered:
  assumes "PatchObject k (trace a) x options = (r, ws, Some e)" "IsNoMatchError e"
    "deployedNewCRD a"
    "options = \<lparr>patch_ForceDryRun = DryRun (opt a), patch_ForceApply = False\<rparr>"
    "RediscoverResources k (trace a @ [PatchObject_call x options]) = None"
    "PatchObject k (trace a @ [PatchObject_call x options, RediscoverResources_call]) x options
       = (r2, ws2, err2)"
  shows "ApplyObject_patch k ref x hook remoteObject u a
         = ApplyObject_classify k ref x hook remoteObject u r2 ws2 err2
             (a\<lparr>deployedNewCRD := False,
                trace := trace a @ [PatchObject_call x options, RediscoverResources_call,
                                    PatchObject_call x options]\<rparr>)"
  using assms by (simp add: ApplyObject_patch_def handleNewCRDs_def Let_def emit_def)

lemma patch_nomatch_rediscovery_fails:
  assumes "PatchObject k (trace a) x options = (r, ws, Some e)" "IsNoMatchError e"
    "deployedNewCRD a"
    "options = \<lparr>patch_ForceDryRun = DryRun (opt a), patch_ForceApply = False\<rparr>"
    "RediscoverResources k (trace a @ [PatchObject_call x options]) = Some e'"
  shows "ApplyObject_patch k ref x hook remoteObject u a
         = ApplyObject_classify k ref x hook remoteObject u r ws (Some e')
             (a\<lparr>deployedNewCRD := False,
                trace := trace a @ [PatchObject_call x options, RediscoverResources_call]\<rparr>)"
  using assms by (simp add: ApplyObject_patch_def handleNewCRDs_def Let_def emit_def)

lemma patch_nomatch_disarmed:
  assumes "PatchObject k (trace a) x options = (r, ws, Some e)" "IsNoMatchError e"
    "\<not> deployedNewCRD a"
    "options = \<lparr>patch_ForceDryRun = DryRun (opt a), patch_ForceApply = False\<rparr>"
  shows "ApplyObject_patch k ref x hook remoteObject u a
         = Ok (HandleError ref e (handleApiWarnings ref ws (emit (PatchObject_call x options) a)))"
  using assms
  by (simp add: ApplyObject_patch_def handleNewCRDs_def Let_def ApplyObject_classify_def)

lemma patch_crd_arms:
  assumes "PatchObject k (trace a) x options = (Some obj, ws, None)" "isCRD obj"
    "options = \<lparr>patch_ForceDryRun = DryRun (opt a), patch_ForceApply = False\<rparr>"
    "PatchObject k (trace a @ [PatchObject_call x options]) x options = (r2, ws2, err2)"
  shows "ApplyObject_patch k ref x hook remoteObject u a
         = ApplyObject_classify k ref x hook remoteObject u r2 ws2 err2
             (a\<lparr>deployedNewCRD := True,
                trace := trace a @ [PatchObject_call x options, PatchObject_call x options]\<rparr>)"
  using assms by (simp add: ApplyObject_patch_def handleNewCRDs_def Let_def emit_def isCRD_def)

lemma patch_rearms_only_by_crd:
  assumes run: "ApplyObject_patch k ref x hook remoteObject u a = Ok a'"
      and off: "\<not> deployedNewCRD a" and on: "deployedNewCRD a'"
      and o: "options = \<lparr>patch_ForceDryRun = DryRun (opt a), patch_ForceApply = False\<rparr>"
  shows "\<exists>obj ws. PatchObject k (trace a) x options = (Some obj, ws, None) \<and> isCRD obj"
proof -
  obtain r ws err where p: "PatchObject k (trace a) x options = (r, ws, err)"
    by (cases "PatchObject k (trace a) x options")
  let ?a1 = "emit (PatchObject_call x options) a"
  from run p o obtain retry err1 a2 where
    h: "handleNewCRDs k r err ?a1 = Ok (retry, err1, a2)" and
    c: "(if retry then
           (let (r2, ws2, err2) = PatchObject k (trace a2) x options;
                a3 = emit (PatchObject_call x options) a2
            in ApplyObject_classify k ref x hook remoteObject u r2 ws2 err2 a3)
         else ApplyObject_classify k ref x hook remoteObject u r ws err1 a2) = Ok a'"
    by (auto simp: ApplyObject_patch_def Let_def bind_result_Ok)
  from c have "deployedNewCRD a' = deployedNewCRD a2"
    by (auto simp: Let_def split: if_splits prod.splits dest!: latch_ApplyObject_classify
          simp: latch_view_def)
  with on have on2: "deployedNewCRD a2" by simp
  from h off on2 have "err = None \<and> (\<exists>obj. r = Some obj \<and> isCRD obj)"
    by (auto simp: handleNewCRDs_def Let_def isCRD_def emit_def
          split: option.splits if_splits)
  with p show ?thesis by auto
qed

lemma patch_crd_latch:
  assumes p: "PatchObject k (trace a) x options = (Some obj, ws, None)" and c: "isCRD obj"
    and o: "options = \<lparr>patch_ForceDryRun = DryRun (opt a), patch_ForceApply = False\<rparr>"
    and run: "ApplyObject_patch k ref x hook remoteObject u a = Ok a'"
  shows "deployedNewCRD a'"
proof -
  obtain r2 ws2 err2 where
    p2: "PatchObject k (trace a @ [PatchObject_call x options]) x options = (r2, ws2, err2)"
    by (cases "PatchObject k (trace a @ [PatchObject_call x options]) x options")
  from run patch_crd_arms[OF p c o p2] latch_ApplyObject_classify
  show ?thesis by (fastforce simp: latch_view_def)
qed

lemma patch_nomatch_rediscovered_latch:
  assumes "PatchObject k (trace a) x options = (r, ws, Some e)" "IsNoMatchError e"
    "deployedNewCRD a"
    "options = \<lparr>patch_ForceDryRun = DryRun (opt a), patch_ForceApply = False\<rparr>"
    "RediscoverResources k (trace a @ [PatchObject_call x options]) = None"
    and run: "ApplyObject_patch k ref x hook remoteObject u a = Ok a'"
  shows "\<not> deployedNewCRD a' \<and> rediscoveries a' = Suc (rediscoveries a)"
proof -
  obtain r2 ws2 err2 where
    p2: "PatchObject k (trace a @ [PatchObject_call x options, RediscoverResources_call]) x options
         = (r2, ws2, err2)"
    by (cases "PatchObject k (trace a @ [PatchObject_call x options, RediscoverResources_call]) x options")
  from run patch_nomatch_rediscovered[OF assms(1-5) p2] latch_ApplyObject_classify
  show ?thesis by (fastforce simp: latch_view_def rediscoveries_def)
qed

text \<open>
  The transitions of the latch.  It is true at construction.  Let the first patch of
  \<open>ApplyObject\<close> return \<open>(r, ws, err)\<close>.  If \<open>err\<close> is a \<open>NoMatch\<close> and the latch is true, the
  latch is set to false, \<open>RediscoverResources\<close> is called, and, when it succeeds, the patch is
  made once more and its outcome is what is classified: the three calls are the patch, the
  rediscovery and the patch, the rest of the call makes no rediscovery and leaves the latch
  false.  When the rediscovery fails its error is what is classified, without a second
  patch.  If \<open>err\<close> is a \<open>NoMatch\<close> and the latch is false, the error is recorded and there
  is no rediscovery.  The latch goes from false to true only in an \<open>ApplyObject\<close> whose
  first patch succeeded with a custom resource definition, and such a patch sets it;
  the classification of an outcome, \<open>DeleteObject\<close>, \<open>WaitReadiness\<close> and \<open>ReplaceObject\<close>
  leave the latch and the number of rediscoveries as they are.
\<close>

lemma latch_transitions:
  assumes o: "options = \<lparr>patch_ForceDryRun = DryRun (opt a), patch_ForceApply = False\<rparr>"
      and first: "PatchObject k (trace a) x options = (r, ws, err)"
  shows
    "deployedNewCRD (NewApplyUtil ds run_options)
     \<and> (err = Some e \<and> IsNoMatchError e \<and> deployedNewCRD a
          \<and> RediscoverResources k (trace a @ [PatchObject_call x options]) = None
          \<and> PatchObject k (trace a @ [PatchObject_call x options, RediscoverResources_call])
               x options = (r2, ws2, err2) \<longrightarrow>
         ApplyObject_patch k ref x hook remoteObject u a
         = ApplyObject_classify k ref x hook remoteObject u r2 ws2 err2
             (a\<lparr>deployedNewCRD := False,
                trace := trace a @ [PatchObject_call x options, RediscoverResources_call,
                                    PatchObject_call x options]\<rparr>)
         \<and> (\<forall>a'. ApplyObject_patch k ref x hook remoteObject u a = Ok a' \<longrightarrow>
                \<not> deployedNewCRD a' \<and> rediscoveries a' = Suc (rediscoveries a)))
     \<and> (err = Some e \<and> IsNoMatchError e \<and> deployedNewCRD a
          \<and> RediscoverResources k (trace a @ [PatchObject_call x options]) = Some e' \<longrightarrow>
         ApplyObject_patch k ref x hook remoteObject u a
         = ApplyObject_classify k ref x hook remoteObject u r ws (Some e')
             (a\<lparr>deployedNewCRD := False,
                trace := trace a @ [PatchObject_call x options, RediscoverResources_call]\<rparr>))
     \<and> (err = Some e \<and> IsNoMatchError e \<and> \<not> deployedNewCRD a \<longrightarrow>
         ApplyObject_patch k ref x hook remoteObject u a
         = Ok (HandleError ref e
                 (handleApiWarnings ref ws (emit (PatchObject_call x options) a))))
     \<and> (ApplyObject_patch k ref x hook remoteObject u a = Ok a'
          \<and> \<not> deployedNewCRD a \<and> deployedNewCRD a' \<longrightarrow>
         (\<exists>obj. r = Some obj \<and> err = None \<and> isCRD obj))
     \<and> (r = Some obj \<and> err = None \<and> isCRD obj
          \<and> ApplyObject_patch k ref x hook remoteObject u a = Ok a' \<longrightarrow>
         deployedNewCRD a')
     \<and> (ApplyObject_classify k ref x hook remoteObject u r3 ws3 err3 b = Ok b' \<longrightarrow>
         latch_view b' = latch_view b)
     \<and> latch_view (snd (DeleteObject k ref hook b)) = latch_view b
     \<and> (WaitReadiness fuel k ref timeout b = Ok (ready, b') \<longrightarrow> latch_view b' = latch_view b)
     \<and> (ReplaceObject fuel k ref firstVersion callback b = Ok b' \<longrightarrow>
         latch_view b' = latch_view b)"
proof (intro conjI impI allI; (elim conjE)?)
  show "deployedNewCRD (NewApplyUtil ds run_options)"
    by (simp add: NewApplyUtil_def)
next
  assume h: "err = Some e" "IsNoMatchError e" "deployedNewCRD a"
    "RediscoverResources k (trace a @ [PatchObject_call x options]) = None"
    "PatchObject k (trace a @ [PatchObject_call x options, RediscoverResources_call]) x options
       = (r2, ws2, err2)"
  from first h(1) have f: "PatchObject k (trace a) x options = (r, ws, Some e)" by simp
  show "ApplyObject_patch k ref x hook remoteObject u a
         = ApplyObject_classify k ref x hook remoteObject u r2 ws2 err2
             (a\<lparr>deployedNewCRD := False,
                trace := trace a @ [PatchObject_call x options, RediscoverResources_call,
                                    PatchObject_call x options]\<rparr>)"
    by (rule patch_nomatch_rediscovered[OF f h(2,3) o h(4,5)])
  fix a' assume "ApplyObject_patch k ref x hook remoteObject u a = Ok a'"
  then have l: "\<not> deployedNewCRD a' \<and> rediscoveries a' = Suc (rediscoveries a)"
    by (rule patch_nomatch_rediscovered_latch[OF f h(2,3) o h(4)])
  from l show "\<not> deployedNewCRD a'" by simp
  from l show "rediscoveries a' = Suc (rediscoveries a)" by simp
next
  assume h: "err = Some e" "IsNoMatchError e" "deployedNewCRD a"
    "RediscoverResources k (trace a @ [PatchObject_call x options]) = Some e'"
  from first h(1) have f: "PatchObject k (trace a) x options = (r, ws, Some e)" by simp
  show "ApplyObject_patch k ref x hook remoteObject u a
         = ApplyObject_classify k ref x hook remoteObject u r ws (Some e')
             (a\<lparr>deployedNewCRD := False,
                trace := trace a @ [PatchObject_call x options, RediscoverResources_call]\<rparr>)"
    by (rule patch_nomatch_rediscovery_fails[OF f h(2,3) o h(4)])
next
  assume h: "err = Some e" "IsNoMatchError e" "\<not> deployedNewCRD a"
  from first h(1) have f: "PatchObject k (trace a) x options = (r, ws, Some e)" by simp
  show "ApplyObject_patch k ref x hook remoteObject u a
         = Ok (HandleError ref e
                 (handleApiWarnings ref ws (emit (PatchObject_call x options) a)))"
    by (rule patch_nomatch_disarmed[OF f h(2,3) o])
next
  assume h: "ApplyObject_patch k ref x hook remoteObject u a = Ok a'"
    "\<not> deployedNewCRD a" "deployedNewCRD a'"
  from patch_rearms_only_by_crd[OF h o] first
  show "\<exists>obj. r = Some obj \<and> err = None \<and> isCRD obj" by auto
next
  assume h: "r = Some obj" "err = None" "isCRD obj"
    "ApplyObject_patch k ref x hook remoteObject u a = Ok a'"
  from first h(1,2) have f: "PatchObject k (trace a) x options = (Some obj, ws, None)" by simp
  show "deployedNewCRD a'" by (rule patch_crd_latch[OF f h(3) o h(4)])
next
  assume "ApplyObject_classify k ref x hook remoteObject u r3 ws3 err3 b = Ok b'"
  then show "latch_view b' = latch_view b" by (rule latch_ApplyObject_classify)
next
  show "latch_view (snd (DeleteObject k ref hook b)) = latch_view b"
    by (cases "DeleteObject k ref hook b") (simp add: latch_DeleteObject)
next
  assume "WaitReadiness fuel k ref timeout b = Ok (ready, b')"
  then show "latch_view b' = latch_view b" by (rule latch_WaitReadiness)
next
  assume "ReplaceObject fuel k ref firstVersion callback b = Ok b'"
  then show "latch_view b' = latch_view b"
    unfolding ReplaceObject_def by (rule latch_ReplaceObject_loop)
qed

lemma latch_transitions_example:
  "deployedNewCRD (NewApplyUtil [] options0) \<and> IsNoMatchError nomatch_error
   \<and> map_result (\<lambda>a. (trace a, deployedNewCRD a, rediscoveries a, AppliedObjects a, dew_errors a))
        (ApplyObject_patch env_crd_pending ref_foo obj_foo False None False
           (NewApplyUtil [] options0))
      = Ok ([PatchObject_call obj_foo \<lparr>patch_ForceDryRun = False, patch_ForceApply = False\<rparr>,
             RediscoverResources_call,
             PatchObject_call obj_foo \<lparr>patch_ForceDryRun = False, patch_ForceApply = False\<rparr>],
            False, 1, [(ref_foo, obj_foo)], [])
   \<and> map_result (\<lambda>a. (trace a, deployedNewCRD a, AppliedObjects a, dew_errors a))
        (ApplyObject_patch env_rediscovery_fails ref_foo obj_foo False None False
           (NewApplyUtil [] options0))
      = Ok ([PatchObject_call obj_foo \<lparr>patch_ForceDryRun = False, patch_ForceApply = False\<rparr>,
             RediscoverResources_call],
            False, [], [(ref_foo, Errorf ''discovery failed'')])
   \<and> map_result (\<lambda>a. (trace a, deployedNewCRD a, rediscoveries a, dew_errors a))
        (ApplyObject_patch env_crd_pending ref_foo obj_foo False None False a_disarmed)
      = Ok ([PatchObject_call obj_foo \<lparr>patch_ForceDryRun = False, patch_ForceApply = False\<rparr>],
            False, 0, [(ref_foo, nomatch_error)])
   \<and> isCRD obj_crd
   \<and> map_result deployedNewCRD
        (ApplyObject_patch env0 ref_crd obj_crd False None False a_disarmed) = Ok True"
proof -
  let ?a = "NewApplyUtil [] options0"
  let ?o = "\<lparr>patch_ForceDryRun = False, patch_ForceApply = False\<rparr>"
  have o1: "?o = \<lparr>patch_ForceDryRun = DryRun (opt ?a), patch_ForceApply = False\<rparr>"
    by (simp add: fixture_defs)
  have o2: "?o = \<lparr>patch_ForceDryRun = DryRun (opt a_disarmed), patch_ForceApply = False\<rparr>"
    by (simp add: fixture_defs crd_defs)
  have p1: "PatchObject env_crd_pending (trace ?a) obj_foo ?o = (None, [], Some nomatch_error)"
    by (simp add: fixture_defs crd_defs)
  have p2: "PatchObject env_rediscovery_fails (trace ?a) obj_foo ?o = (None, [], Some nomatch_error)"
    by (simp add: fixture_defs crd_defs)
  have p3: "PatchObject env_crd_pending (trace a_disarmed) obj_foo ?o
            = (None, [], Some nomatch_error)"
    by (simp add: fixture_defs crd_defs)
  have p4: "PatchObject env0 (trace a_disarmed) obj_crd ?o = (Some obj_crd, [], None)"
    by (simp add: fixture_defs crd_defs)
  note w1 = latch_transitions[OF o1 p1, where e=nomatch_error and ref=ref_foo
      and hook=False and remoteObject=None and u=False and ds="[]" and run_options=options0
      and ?r2.0="Some obj_foo" and ?ws2.0="[]" and ?err2.0=None]
  note w2 = latch_transitions[OF o1 p2, where e=nomatch_error and ref=ref_foo
      and hook=False and remoteObject=None and u=False
      and e'="Errorf ''discovery failed''"]
  note w3 = latch_transitions[OF o2 p3, where e=nomatch_error and ref=ref_foo
      and hook=False and remoteObject=None and u=False]
  note w4 = latch_transitions[OF o2 p4, where obj=obj_crd and ref=ref_crd
      and hook=False and remoteObject=None and u=False]
  have crd: "isCRD obj_crd" by (simp add: isCRD_def crd_defs)
  have nm: "IsNoMatchError nomatch_error" by (simp add: crd_defs)
  have c1: "deployedNewCRD (NewApplyUtil [] options0)"
    using w1[THEN conjunct1] .
  have r1: "RediscoverResources env_crd_pending (trace ?a @ [PatchObject_call obj_foo ?o]) = None"
    by (simp add: fixture_defs crd_defs)
  have q1: "PatchObject env_crd_pending
              (trace ?a @ [PatchObject_call obj_foo ?o, RediscoverResources_call]) obj_foo ?o
            = (Some obj_foo, [], None)"
    by (simp add: fixture_defs crd_defs)
  have e1: "ApplyObject_patch env_crd_pending ref_foo obj_foo False None False ?a
            = ApplyObject_classify env_crd_pending ref_foo obj_foo False None False
                (Some obj_foo) [] None
                (?a\<lparr>deployedNewCRD := False,
                    trace := trace ?a @ [PatchObject_call obj_foo ?o, RediscoverResources_call,
                                         PatchObject_call obj_foo ?o]\<rparr>)"
    using w1[THEN conjunct2, THEN conjunct1] nm c1 r1 q1 by blast
  have c2: "map_result (\<lambda>a. (trace a, deployedNewCRD a, rediscoveries a, AppliedObjects a, dew_errors a))
        (ApplyObject_patch env_crd_pending ref_foo obj_foo False None False ?a)
      = Ok ([PatchObject_call obj_foo ?o, RediscoverResources_call, PatchObject_call obj_foo ?o],
            False, 1, [(ref_foo, obj_foo)], [])"
    unfolding e1
    by (simp add: fixture_defs crd_defs op_defs ApplyObject_classify_def rediscoveries_def)
  have r2: "RediscoverResources env_rediscovery_fails (trace ?a @ [PatchObject_call obj_foo ?o])
            = Some (Errorf ''discovery failed'')"
    by (simp add: fixture_defs crd_defs)
  have e2: "ApplyObject_patch env_rediscovery_fails ref_foo obj_foo False None False ?a
            = ApplyObject_classify env_rediscovery_fails ref_foo obj_foo False None False
                None [] (Some (Errorf ''discovery failed''))
                (?a\<lparr>deployedNewCRD := False,
                    trace := trace ?a @ [PatchObject_call obj_foo ?o, RediscoverResources_call]\<rparr>)"
    using w2[THEN conjunct2, THEN conjunct2, THEN conjunct1] nm c1 r2 by blast
  have c3: "map_result (\<lambda>a. (trace a, deployedNewCRD a, AppliedObjects a, dew_errors a))
        (ApplyObject_patch env_rediscovery_fails ref_foo obj_foo False None False ?a)
      = Ok ([PatchObject_call obj_foo ?o, RediscoverResources_call],
            False, [], [(ref_foo, Errorf ''discovery failed'')])"
    unfolding e2
    by (simp add: fixture_defs crd_defs op_defs ApplyObject_classify_def
          retryApplyWithReplace.simps IsConflict_def IsInternalError_def)
  have off: "\<not> deployedNewCRD a_disarmed" by (simp add: crd_defs fixture_defs)
  have e3: "ApplyObject_patch env_crd_pending ref_foo obj_foo False None False a_disarmed
            = Ok (HandleError ref_foo nomatch_error
                   (handleApiWarnings ref_foo [] (emit (PatchObject_call obj_foo ?o) a_disarmed)))"
    using w3[THEN conjunct2, THEN conjunct2, THEN conjunct2, THEN conjunct1] nm off by blast
  have c4: "map_result (\<lambda>a. (trace a, deployedNewCRD a, rediscoveries a, dew_errors a))
        (ApplyObject_patch env_crd_pending ref_foo obj_foo False None False a_disarmed)
      = Ok ([PatchObject_call obj_foo ?o], False, 0, [(ref_foo, nomatch_error)])"
    unfolding e3
    by (simp add: fixture_defs crd_defs op_defs rediscoveries_def)
  obtain a' where ev: "ApplyObject_patch env0 ref_crd obj_crd False None False a_disarmed = Ok a'"
    by (simp add: ApplyObject_patch_def handleNewCRDs_def ApplyObject_classify_def
          fixture_defs crd_defs op_defs)
  have "deployedNewCRD a'"
    using w4[where a'=a', THEN conjunct2, THEN conjunct2, THEN conjunct2, THEN conjunct2,
             THEN conjunct2, THEN conjunct1] crd ev by blast
  with ev have c5: "map_result deployedNewCRD
        (ApplyObject_patch env0 ref_crd obj_crd False None False a_disarmed) = Ok True"
    by simp
  from c1 nm c2 c3 c4 crd c5 show ?thesis by (intro conjI)
qed

text \<open>
  C4.  The claim is that \<open>ApplyObject\<close> surfaces the error of a rediscovery that fails.  On a
  cluster whose cache holds the object, whose patch answers \<open>NoMatch\<close>, whose rediscovery
  fails and whose update succeeds, with the option \<open>ReplaceOnError\<close> and the latch true:
  \<open>ApplyObject\<close> disarms the latch, calls \<open>RediscoverResources\<close> once and makes no second
  patch; the error of the rediscovery takes the place of the patch error (line 250) and
  falls to the last branch of the classification (line 270), which retries with
  \<open>UpdateObject\<close>; the update succeeds, the object is stored as applied and no error is
  recorded.  Without \<open>ReplaceOnError\<close> the same call records the error of the rediscovery.
\<close>

theorem C4_rediscovery_error_not_surfaced:
  "map_result (\<lambda>a. (trace a, deployedNewCRD a, AppliedObjects a, dew_errors a))
     (ApplyObject env_discovery_down obj_foo False False
        (NewApplyUtil [] options_replace_on_error))
   = Ok ([Log_Debugf ref_foo MsgApplyingObject,
          PatchObject_call obj_foo \<lparr>patch_ForceDryRun = False, patch_ForceApply = False\<rparr>,
          RediscoverResources_call,
          Log_Warningf ref_foo MsgRetryWithReplace,
          UpdateObject_call obj_foo \<lparr>update_ForceDryRun = False\<rparr>],
         False, [(ref_foo, obj_foo)], [])
   \<and> map_result (\<lambda>a. (trace a, deployedNewCRD a, AppliedObjects a, dew_errors a))
     (ApplyObject env_discovery_down obj_foo False False (NewApplyUtil [] options0))
   = Ok ([Log_Debugf ref_foo MsgApplyingObject,
          PatchObject_call obj_foo \<lparr>patch_ForceDryRun = False, patch_ForceApply = False\<rparr>,
          RediscoverResources_call],
         False, [], [(ref_foo, Errorf ''discovery failed'')])"
  by (simp add: ApplyObject_def ApplyObject_prepare_def ApplyObject_patch_def handleNewCRDs_def
        ApplyObject_classify_def retryApplyWithReplace.simps IsConflict_def IsInternalError_def
        SetK8sResourceVersion_def Clone_def fixture_defs discovery_defs op_defs)

subsection \<open>Deletions of an item\<close>

lemma expandDeleteObjects_state:
  "snd (expandDeleteObjects k xs acc a) = a\<lparr>trace := trace a @ map gvk_call xs\<rparr>"
  by (induction xs arbitrary: acc a) (auto simp: Let_def emit_def gvk_call_def)

lemma DeleteObject_trace:
  "trace (snd (DeleteObject k ref hook a))
   = trace a @ [DeleteSingleObject_call ref \<lparr>delete_ForceDryRun = DryRun (opt a)\<rparr>]"
  by (auto simp: DeleteObject_def Let_def split: prod.splits option.splits)

lemma DeleteObject_opt: "opt (snd (DeleteObject k ref hook a)) = opt a"
  by (auto simp: DeleteObject_def Let_def split: prod.splits option.splits)

lemma deleteObjects_loop_trace:
  "trace (deleteObjects_loop k i n refs a) = trace a @ deletion_calls (DryRun (opt a)) i n refs
   \<and> opt (deleteObjects_loop k i n refs a) = opt a"
proof (induction refs arbitrary: i a)
  case Nil
  then show ?case by simp
next
  case (Cons ref refs)
  let ?a1 = "emit (pctx_SetStatus (MsgDeletingObject ref (i + 1) n)) a"
  obtain b a2 where d: "DeleteObject k ref False ?a1 = (b, a2)"
    by (cases "DeleteObject k ref False ?a1")
  have t2: "trace a2 = trace ?a1 @ [DeleteSingleObject_call ref \<lparr>delete_ForceDryRun = DryRun (opt ?a1)\<rparr>]"
    using DeleteObject_trace[of k ref False ?a1] d by simp
  have o2: "opt a2 = opt a" using DeleteObject_opt[of k ref False ?a1] d by simp
  from Cons.IH[of "i + 1" "emit pctx_Increment a2"] d t2 o2
  show ?case by (simp add: Let_def)
qed

lemma skipped_item:
  assumes "\<not> CheckInclusionForDeploy d"
      and "tot = length (applyObjects k d) + length (fst (selectHooks k d))
                   + length (snd (selectHooks k d))"
  shows "applyDeploymentItem fuel k d a
         = Ok (a\<lparr>trace := trace a @ map gvk_call (Config_DeleteObjects d)
                     @ [pctx_SetTotal (int tot), pctx_InfofAndStatus MsgSkipped, pctx_Finish]\<rparr>)"
proof -
  obtain toDelete a1 where e: "expandDeleteObjects k (Config_DeleteObjects d) [] a = (toDelete, a1)"
    by (cases "expandDeleteObjects k (Config_DeleteObjects d) [] a")
  have a1: "a1 = a\<lparr>trace := trace a @ map gvk_call (Config_DeleteObjects d)\<rparr>"
    using expandDeleteObjects_state[of k "Config_DeleteObjects d" "[]" a] e by simp
  show ?thesis
    using assms e a1
    by (simp add: applyDeploymentItem_def Let_def emit_def split: prod.splits)
qed

lemma included_item_deletes_first:
  assumes inc: "CheckInclusionForDeploy d"
      and hk: "hooks_frame k"
      and run: "applyDeploymentItem fuel k d a = Ok a'"
      and td: "toDelete = fst (expandDeleteObjects k (Config_DeleteObjects d) [] a)"
      and tot: "tot = length (applyObjects k d) + length (fst (selectHooks k d))
                   + length (snd (selectHooks k d))"
  shows "prefix (trace a @ map gvk_call (Config_DeleteObjects d) @ [pctx_SetTotal (int tot)]
                 @ deletion_events (DryRun (opt a)) toDelete
                 @ [RunHooks_call (fst (selectHooks k d))])
                (trace a')"
proof -
  obtain a1 where e: "expandDeleteObjects k (Config_DeleteObjects d) [] a = (toDelete, a1)"
    using td by (cases "expandDeleteObjects k (Config_DeleteObjects d) [] a") simp
  have a1: "a1 = a\<lparr>trace := trace a @ map gvk_call (Config_DeleteObjects d)\<rparr>"
    using expandDeleteObjects_state[of k "Config_DeleteObjects d" "[]" a] e by simp
  obtain preHooks postHooks where sh: "selectHooks k d = (preHooks, postHooks)"
    by (cases "selectHooks k d")
  let ?a2 = "emit (pctx_SetTotal (int tot)) a1"
  let ?a3 = "(if length toDelete \<noteq> 0
              then deleteObjects_loop k 0 (length toDelete) toDelete
                     (emit (pctx_Infof (MsgDeletingObjects (length toDelete))) ?a2)
              else ?a2)"
  have t3: "trace ?a3 = trace a @ map gvk_call (Config_DeleteObjects d) @ [pctx_SetTotal (int tot)]
                 @ deletion_events (DryRun (opt a)) toDelete"
    using a1 by (simp add: deletion_events_def deleteObjects_loop_trace)
  from run e sh inc tot obtain a4 a7 a8 where
    r1: "runHooks k preHooks ?a3 = Ok a4" and
    r2: "applyObjects_loop fuel k d 0 (length (applyObjects k d)) (applyObjects k d)
           (Now k (trace (if length (applyObjects k d) \<noteq> 0
                    then emit (pctx_Infof (MsgApplyingObjects (length (applyObjects k d)))) a4
                    else a4)))
           False
           (emit Now_call (if length (applyObjects k d) \<noteq> 0
                    then emit (pctx_Infof (MsgApplyingObjects (length (applyObjects k d)))) a4
                    else a4)) = Ok a7" and
    r3: "runHooks k postHooks a7 = Ok a8" and
    r4: "a' = finalStatus a8"
    by (auto simp: applyDeploymentItem_def Let_def bind_result_Ok readClock_def)
  let ?b = "emit (RunHooks_call preHooks) ?a3"
  have f4: "frame ?b a4"
    using hk r1 unfolding hooks_frame_def runHooks_def by blast
  have f7: "frame ?b a7"
    by (rule frame_applyObjects_loop[OF r2]) (use f4 in \<open>auto intro!: frame_prims\<close>)
  have f8: "frame ?b a8" by (rule frame_runHooks[OF hk r3 f7])
  have "frame ?b a'" unfolding r4 by (rule frame_finalStatus[OF f8])
  then have "prefix (trace ?b) (trace a')" by (simp add: frame_def)
  moreover have "trace ?b = trace ?a3 @ [RunHooks_call preHooks]" by simp
  ultimately show ?thesis using t3 sh by simp
qed

lemma hooks_frame_env0: "hooks_frame env0"
  by (simp add: hooks_frame_def env0_def frame_refl)

text \<open>
  C6 (as amended).  \<open>applyDeploymentItem\<close> expands the \<open>DeleteObjects\<close> directives first,
  one \<open>GetGVKs\<close> call per directive, and sets the progress total.  An item whose
  \<open>CheckInclusionForDeploy()\<close> is false is then marked ``Skipped'' and finished: nothing
  else is called, nothing is deleted.  For an included item the expanded references are
  deleted next, one at a time and in their order, and only then are the pre-hooks run.
\<close>

theorem C6_deletions_after_inclusion_check:
  assumes td: "toDelete = fst (expandDeleteObjects k (Config_DeleteObjects d) [] a)"
      and tot: "tot = length (applyObjects k d) + length (fst (selectHooks k d))
                      + length (snd (selectHooks k d))"
  shows
    "(\<not> CheckInclusionForDeploy d \<longrightarrow>
        applyDeploymentItem fuel k d a
        = Ok (a\<lparr>trace := trace a @ map gvk_call (Config_DeleteObjects d)
                     @ [pctx_SetTotal (int tot), pctx_InfofAndStatus MsgSkipped, pctx_Finish]\<rparr>))
     \<and> (CheckInclusionForDeploy d \<and> hooks_frame k
          \<and> applyDeploymentItem fuel k d a = Ok a' \<longrightarrow>
        prefix (trace a @ map gvk_call (Config_DeleteObjects d) @ [pctx_SetTotal (int tot)]
                @ deletion_events (DryRun (opt a)) toDelete
                @ [RunHooks_call (fst (selectHooks k d))])
               (trace a'))"
proof (intro conjI impI; (elim conjE)?)
  assume "\<not> CheckInclusionForDeploy d"
  then show "applyDeploymentItem fuel k d a
        = Ok (a\<lparr>trace := trace a @ map gvk_call (Config_DeleteObjects d)
                     @ [pctx_SetTotal (int tot), pctx_InfofAndStatus MsgSkipped, pctx_Finish]\<rparr>)"
    using tot by (rule skipped_item)
next
  assume "CheckInclusionForDeploy d" "hooks_frame k" "applyDeploymentItem fuel k d a = Ok a'"
  then show "prefix (trace a @ map gvk_call (Config_DeleteObjects d) @ [pctx_SetTotal (int tot)]
                @ deletion_events (DryRun (opt a)) toDelete
                @ [RunHooks_call (fst (selectHooks k d))])
               (trace a')"
    using td tot by (rule included_item_deletes_first)
qed

theorem C6_deletions_after_inclusion_check_witness:
  "\<not> CheckInclusionForDeploy item_skipped
   \<and> applyDeploymentItem 1 env0 item_skipped (NewApplyUtil [item_skipped] options0)
     = Ok ((NewApplyUtil [item_skipped] options0)
            \<lparr>trace := [GetGVKs_call ''apps'' ''v1'' ''Deployment'', pctx_SetTotal 0,
                       pctx_InfofAndStatus MsgSkipped, pctx_Finish]\<rparr>)
   \<and> CheckInclusionForDeploy item_deleting \<and> hooks_frame env0
   \<and> (\<exists>a'. applyDeploymentItem 1 env0 item_deleting (NewApplyUtil [item_deleting] options0) = Ok a'
         \<and> prefix [GetGVKs_call ''apps'' ''v1'' ''Deployment'', pctx_SetTotal 0,
                    pctx_Infof (MsgDeletingObjects 1),
                    pctx_SetStatus (MsgDeletingObject ref_old 1 1),
                    DeleteSingleObject_call ref_old \<lparr>delete_ForceDryRun = False\<rparr>,
                    pctx_Increment,
                    RunHooks_call []]
                   (trace a'))"
proof -
  let ?s = "NewApplyUtil [item_skipped] options0"
  let ?d = "NewApplyUtil [item_deleting] options0"
  have s1: "\<not> CheckInclusionForDeploy item_skipped" by (simp add: fixture_defs skipped_defs)
  have s2: "applyDeploymentItem 1 env0 item_skipped ?s
     = Ok (?s\<lparr>trace := [GetGVKs_call ''apps'' ''v1'' ''Deployment'', pctx_SetTotal 0,
                       pctx_InfofAndStatus MsgSkipped, pctx_Finish]\<rparr>)"
    using C6_deletions_after_inclusion_check[OF refl refl, where d=item_skipped and k=env0
        and a="?s" and fuel=1, THEN conjunct1] s1
    by (simp add: fixture_defs skipped_defs gvk_call_def applyObjects_def selectHooks_def initialDeploy_def)
  have d1: "CheckInclusionForDeploy item_deleting" by (simp add: fixture_defs skipped_defs item_deleting_def)
  obtain a' where d2: "applyDeploymentItem 1 env0 item_deleting ?d = Ok a'"
    by (simp add: applyDeploymentItem_def fixture_defs skipped_defs item_deleting_def op_defs
          selectHooks_def initialDeploy_def applyObjects_def DeleteObject_def)
  have d3: "prefix [GetGVKs_call ''apps'' ''v1'' ''Deployment'', pctx_SetTotal 0,
                    pctx_Infof (MsgDeletingObjects 1),
                    pctx_SetStatus (MsgDeletingObject ref_old 1 1),
                    DeleteSingleObject_call ref_old \<lparr>delete_ForceDryRun = False\<rparr>,
                    pctx_Increment,
                    RunHooks_call []]
                   (trace a')"
    using C6_deletions_after_inclusion_check[OF refl refl, where d=item_deleting and k=env0
        and a="?d" and fuel=1 and a'=a', THEN conjunct2] d1 d2 hooks_frame_env0
    by (simp add: fixture_defs skipped_defs item_deleting_def gvk_call_def applyObjects_def selectHooks_def
          initialDeploy_def deletion_events_def)
  from s1 s2 d1 hooks_frame_env0 d2 d3 show ?thesis by blast
qed

text \<open>
  C6 as stated says that an excluded item has performed its declared deletions before it is
  marked skipped.  The excluded item \<open>item_skipped\<close> declares the deletion of
  \<open>Deployment default/old\<close>; the gateway is asked for the GVKs and never for a delete, and no
  reference is recorded as deleted.  The same item, included, deletes it.
\<close>

theorem C6_skipped_item_deletes_nothing_counterexample:
  "\<not> CheckInclusionForDeploy item_skipped
   \<and> Config_DeleteObjects item_skipped = [del_old]
   \<and> map_result (\<lambda>a. (trace a, deletedObjects a))
        (applyDeploymentItem 1 env0 item_skipped (NewApplyUtil [item_skipped] options0))
     = Ok ([GetGVKs_call ''apps'' ''v1'' ''Deployment'', pctx_SetTotal 0,
            pctx_InfofAndStatus MsgSkipped, pctx_Finish], [])
   \<and> map_result deletedObjects
        (applyDeploymentItem 1 env0 item_deleting (NewApplyUtil [item_deleting] options0))
     = Ok [ref_old]"
  by (simp add: applyDeploymentItem_def fixture_defs skipped_defs item_deleting_def op_defs
        selectHooks_def initialDeploy_def applyObjects_def DeleteObject_def)

subsection \<open>The scheduler and the abort signal\<close>

lemma frame_abort_monotone: "frame a a' \<Longrightarrow> abort_monotone a a'"
  by (auto simp: frame_def abort_monotone_def)

lemma HandleError_abortSignal:
  "abortSignal (HandleError ref e a) = (abortSignal a \<or> AbortOnError (opt a))"
  by (simp add: HandleError_def AddError_def Let_def)

lemma applyObjects_loop_aborted:
  "abortSignal a \<Longrightarrow> applyObjects_loop fuel k d i n objs startTime didLog a = Ok a"
  by (cases objs) simp_all

lemma frame_step:
  assumes hk: "hooks_frame k" and st: "step k ds s s'"
  shows "frame (au s) (au s')"
  using st
proof cases
  case step_dispatch
  then show ?thesis by (auto simp: dispatch_def Let_def intro: frame_prims frame_refl)
next
  case (step_work j fuel a')
  then show ?thesis using frame_applyDeploymentItem[OF hk _ frame_refl] by auto
qed (auto simp: frame_refl)

lemma frame_steps:
  assumes hk: "hooks_frame k" and st: "(step k ds)\<^sup>*\<^sup>* s s'"
  shows "frame (au s) (au s')"
  using st
proof (induction rule: rtranclp_induct)
  case base
  then show ?case by (rule frame_refl)
next
  case (step y z)
  from step.IH frame_step[OF hk step.hyps(2)] show ?case by (rule frame_trans)
qed

lemma step_aborted:
  assumes hk: "hooks_frame k" and st: "step k ds s s'" and ab: "abortSignal (au s)"
  shows "abortSignal (au s') \<and> length (workers s') = length (workers s)
         \<and> next_item s' = next_item s"
proof -
  from frame_step[OF hk st] ab have "abortSignal (au s')" by (simp add: frame_def)
  moreover from st ab have "length (workers s') = length (workers s) \<and> next_item s' = next_item s"
    by cases auto
  ultimately show ?thesis by simp
qed

lemma steps_aborted:
  assumes hk: "hooks_frame k" and st: "(step k ds)\<^sup>*\<^sup>* s s'" and ab: "abortSignal (au s)"
  shows "abortSignal (au s') \<and> length (workers s') = length (workers s)
         \<and> next_item s' = next_item s"
  using st
proof (induction rule: rtranclp_induct)
  case base
  with ab show ?case by simp
next
  case (step y z)
  with step_aborted[OF hk step.hyps(2)] show ?case by simp
qed

lemma sched_inv_init: "sched_inv ds (sched_init a)"
  by (simp add: sched_inv_def sched_init_def)

lemma sched_inv_step:
  assumes st: "step k ds s s'" and inv: "sched_inv ds s"
  shows "sched_inv ds s'"
  using st
proof cases
  case step_break
  with inv show ?thesis by (auto simp: sched_inv_def)
next
  case step_dispatch
  with inv show ?thesis
    by (auto simp: sched_inv_def dispatch_def Let_def nth_append less_Suc_eq)
next
  case step_loop_end
  with inv show ?thesis by (auto simp: sched_inv_def)
next
  case step_barrier_drained
  with inv show ?thesis by (auto simp: sched_inv_def allFinished_def list_all_length)
next
  case step_return
  with inv show ?thesis by (auto simp: sched_inv_def)
next
  case (step_acquire j)
  with inv show ?thesis
    by (auto simp: sched_inv_def nth_list_update)
next
  case (step_work j fuel a')
  with inv show ?thesis
    by (auto simp: sched_inv_def nth_list_update)
qed

lemma sched_inv_reachable: "reachable k a s \<Longrightarrow> sched_inv (deployments a) s"
  unfolding reachable_def
  by (induction rule: rtranclp_induct) (auto intro: sched_inv_init sched_inv_step)

lemma barrier_drains:
  assumes "reachable k a s" "b < j" "j < length (workers s)" "barrier (deployments a ! b)" "i \<le> b"
  shows "workers s ! i = Finished"
proof -
  from assms(2,3) have "b < length (workers s)" by simp
  moreover from sched_inv_reachable[OF assms(1)]
  have "\<forall>b < length (workers s). barrier (deployments a ! b) \<longrightarrow>
            (pc s = BarrierWait \<and> Suc b = length (workers s))
            \<or> (\<forall>i \<le> b. workers s ! i = Finished)"
    unfolding sched_inv_def by blast
  ultimately have "(pc s = BarrierWait \<and> Suc b = length (workers s))
        \<or> (\<forall>i \<le> b. workers s ! i = Finished)"
    using assms(4) by blast
  with assms(2,3,5) show ?thesis by auto
qed

lemma barrier_item_runs_with_earlier_items:
  assumes r: "reachable k a s" and pc: "pc s = LoopHead" and n: "next_item s = b"
      and b: "b < length (deployments a)" and ab: "\<not> abortSignal (au s)"
      and bar: "barrier (deployments a ! b)"
      and i: "i < b" and ri: "workers s ! i = Running" and sem: "running s < 8"
  shows "\<exists>s'. reachable k a s' \<and> pc s' = BarrierWait
              \<and> workers s' ! i = Running \<and> workers s' ! b = Running"
proof -
  let ?ds = "deployments a"
  from sched_inv_reachable[OF r] n have len: "length (workers s) = b"
    by (simp add: sched_inv_def)
  let ?s1 = "dispatch ?ds s"
  have st1: "step k ?ds s ?s1" using pc n b ab by (auto intro: step_dispatch)
  have w1: "workers ?s1 = workers s @ [Waiting]" by (simp add: dispatch_def Let_def)
  have p1: "pc ?s1 = BarrierWait" using bar n by (simp add: dispatch_def Let_def)
  have run1: "running ?s1 < 8" using sem by (simp add: running_def w1)
  let ?s2 = "?s1\<lparr>workers := (workers ?s1)[b := Running]\<rparr>"
  have st2: "step k ?ds ?s1 ?s2"
    by (rule step_acquire) (use len w1 run1 in \<open>auto simp: nth_append\<close>)
  have "reachable k a ?s2"
    using r st1 st2 unfolding reachable_def by (meson rtranclp.rtrancl_into_rtrancl)
  moreover have "workers ?s2 ! i = Running" using i len ri w1 by (simp add: nth_append)
  moreover have "workers ?s2 ! b = Running" using len w1 by simp
  moreover have "pc ?s2 = BarrierWait" using p1 by simp
  ultimately show ?thesis by blast
qed

text \<open>
  C9.  In every state that \<open>ApplyDeployments\<close> can reach, once the goroutine of an item \<open>j\<close>
  behind a barrier item \<open>b\<close> exists, the goroutines of all items up to and including \<open>b\<close>
  have finished; the objects of item \<open>j\<close> are applied by that goroutine only, so none of
  them is applied earlier.  The barrier item itself is dispatched like any other: from a
  reachable state at the head of the loop in which an earlier item \<open>i\<close> is still running
  (and a permit is free), a state is reached in which \<open>i\<close> and \<open>b\<close> run at once while the
  scheduler waits in the barrier.
\<close>

theorem C9_barrier_ordering:
  "(reachable k a s \<and> barrier (deployments a ! b) \<and> b < j \<and> j < length (workers s) \<and> i \<le> b
      \<longrightarrow> workers s ! i = Finished)
   \<and> (reachable k a s \<and> pc s = LoopHead \<and> next_item s = b \<and> b < length (deployments a)
        \<and> \<not> abortSignal (au s) \<and> barrier (deployments a ! b)
        \<and> i < b \<and> workers s ! i = Running \<and> running s < 8
      \<longrightarrow> (\<exists>s'. reachable k a s' \<and> pc s' = BarrierWait
                \<and> workers s' ! i = Running \<and> workers s' ! b = Running))"
proof (intro conjI impI; elim conjE)
  assume "reachable k a s" "barrier (deployments a ! b)" "b < j" "j < length (workers s)" "i \<le> b"
  then show "workers s ! i = Finished" by (intro barrier_drains[of k a s b j i])
next
  assume "reachable k a s" "pc s = LoopHead" "next_item s = b" "b < length (deployments a)"
    "\<not> abortSignal (au s)" "barrier (deployments a ! b)" "i < b" "workers s ! i = Running"
    "running s < 8"
  then show "\<exists>s'. reachable k a s' \<and> pc s' = BarrierWait
                \<and> workers s' ! i = Running \<and> workers s' ! b = Running"
    by (rule barrier_item_runs_with_earlier_items)
qed

lemma reachable_step:
  "reachable k a s \<Longrightarrow> step k (deployments a) s s' \<Longrightarrow> reachable k a s'"
  unfolding reachable_def by (rule rtranclp.rtrancl_into_rtrancl)

lemma reachable_init: "reachable k a (sched_init a)"
  unfolding reachable_def by simp

lemma empty_item_applies:
  assumes "Objects d = []" "Config_DeleteObjects d = []" "CheckInclusionForDeploy d"
  shows "\<exists>a'. applyDeploymentItem fuel env0 d a = Ok a' \<and> abortSignal a' = abortSignal a"
  using assms
  by (simp add: applyDeploymentItem_def env0_def selectHooks_def initialDeploy_def
        applyObjects_def op_defs)

lemma three_items: "deployments a_three = [item0, item_barrier, item0]"
  "barrier (deployments a_three ! 1)" "\<not> barrier (deployments a_three ! 0)"
  "\<not> barrier (deployments a_three ! 2)"
  by (simp_all add: a_three_def NewApplyUtil_def barrier_def item_barrier_def item0_def)

lemma three_dispatch:
  assumes "reachable env0 a_three s" "sched_shape s = (LoopHead, n, ws, False)" "n < 3"
  shows "\<exists>s'. reachable env0 a_three s'
           \<and> sched_shape s' = (if n = 1 then BarrierWait else LoopHead, Suc n, ws @ [Waiting], False)"
proof -
  have st: "step env0 (deployments a_three) s (dispatch (deployments a_three) s)"
    using assms by (intro step_dispatch) (auto simp: sched_shape_def three_items)
  have "n = 0 \<or> n = 1 \<or> n = 2" using assms(3) by auto
  then have "sched_shape (dispatch (deployments a_three) s)
        = (if n = 1 then BarrierWait else LoopHead, Suc n, ws @ [Waiting], False)"
    using assms(2)
    by (auto simp: sched_shape_def dispatch_def Let_def three_items barrier_def item_barrier_def
          item0_def emit_def)
  with reachable_step[OF assms(1) st] show ?thesis by blast
qed

lemma three_acquire:
  assumes "reachable env0 a_three s" "sched_shape s = (p, n, ws, False)"
    "j < length ws" "ws ! j = Waiting" "length ws < 8"
  shows "\<exists>s'. reachable env0 a_three s' \<and> sched_shape s' = (p, n, ws[j := Running], False)"
proof -
  have "running s \<le> length (workers s)" by (simp add: running_def)
  with assms have st: "step env0 (deployments a_three) s (s\<lparr>workers := (workers s)[j := Running]\<rparr>)"
    by (intro step_acquire) (auto simp: sched_shape_def)
  have "sched_shape (s\<lparr>workers := (workers s)[j := Running]\<rparr>) = (p, n, ws[j := Running], False)"
    using assms(2) by (auto simp: sched_shape_def)
  with reachable_step[OF assms(1) st] show ?thesis by blast
qed

lemma three_work:
  assumes "reachable env0 a_three s" "sched_shape s = (p, n, ws, False)"
    "j < length ws" "ws ! j = Running" "j < 3"
  shows "\<exists>s'. reachable env0 a_three s' \<and> sched_shape s' = (p, n, ws[j := Finished], False)"
proof -
  have "j = 0 \<or> j = 1 \<or> j = 2" using assms(5) by auto
  then obtain a' where a': "applyDeploymentItem 1 env0 (deployments a_three ! j) (au s) = Ok a'"
      "abortSignal a' = abortSignal (au s)"
    using empty_item_applies[of "deployments a_three ! j" 1 "au s"]
    by (auto simp: three_items item_barrier_def item0_def)
  have st: "step env0 (deployments a_three) s (s\<lparr>au := a', workers := (workers s)[j := Finished]\<rparr>)"
    using assms a'(1) by (intro step_work) (auto simp: sched_shape_def)
  have "sched_shape (s\<lparr>au := a', workers := (workers s)[j := Finished]\<rparr>)
        = (p, n, ws[j := Finished], False)"
    using assms(2) a'(2) by (auto simp: sched_shape_def)
  with reachable_step[OF assms(1) st] show ?thesis by blast
qed

lemma three_drained:
  assumes "reachable env0 a_three s" "sched_shape s = (BarrierWait, n, ws, False)"
    "list_all (\<lambda>w. w = Finished) ws"
  shows "\<exists>s'. reachable env0 a_three s' \<and> sched_shape s' = (LoopHead, n, ws, False)"
proof -
  have st: "step env0 (deployments a_three) s (s\<lparr>pc := LoopHead\<rparr>)"
    using assms by (intro step_barrier_drained) (auto simp: sched_shape_def allFinished_def)
  have "sched_shape (s\<lparr>pc := LoopHead\<rparr>) = (LoopHead, n, ws, False)"
    using assms(2) by (auto simp: sched_shape_def)
  with reachable_step[OF assms(1) st] show ?thesis by blast
qed

lemma three_first_running:
  "\<exists>s. reachable env0 a_three s \<and> sched_shape s = (LoopHead, 1, [Running], False)"
proof -
  have s0: "sched_shape (sched_init a_three) = (LoopHead, 0, [], False)"
    by (simp add: sched_shape_def sched_init_def a_three_def NewApplyUtil_def emit_def)
  from three_dispatch[OF reachable_init s0] obtain s1 where
    s1: "reachable env0 a_three s1" "sched_shape s1 = (LoopHead, 1, [Waiting], False)"
    by auto
  from three_acquire[OF s1, of 0] show ?thesis by simp
qed

lemma three_after_barrier:
  "\<exists>s. reachable env0 a_three s \<and> sched_shape s = (LoopHead, 3, [Finished, Finished, Waiting], False)"
proof -
  from three_first_running obtain s2 where
    s2: "reachable env0 a_three s2" "sched_shape s2 = (LoopHead, 1, [Running], False)"
    by auto
  from three_dispatch[OF s2] obtain s3 where
    s3: "reachable env0 a_three s3" "sched_shape s3 = (BarrierWait, 2, [Running, Waiting], False)"
    by auto
  from three_acquire[OF s3, of 1] obtain s4 where
    s4: "reachable env0 a_three s4" "sched_shape s4 = (BarrierWait, 2, [Running, Running], False)"
    by auto
  from three_work[OF s4, of 1] obtain s5 where
    s5: "reachable env0 a_three s5" "sched_shape s5 = (BarrierWait, 2, [Running, Finished], False)"
    by auto
  from three_work[OF s5, of 0] obtain s6 where
    s6: "reachable env0 a_three s6" "sched_shape s6 = (BarrierWait, 2, [Finished, Finished], False)"
    by auto
  from three_drained[OF s6] obtain s7 where
    s7: "reachable env0 a_three s7" "sched_shape s7 = (LoopHead, 2, [Finished, Finished], False)"
    by auto
  from three_dispatch[OF s7] show ?thesis by simp
qed

theorem C9_barrier_ordering_witness:
  "barrier (deployments a_three ! 1)
   \<and> (\<exists>s. reachable env0 a_three s \<and> length (workers s) = 3
          \<and> workers s ! 0 = Finished \<and> workers s ! 1 = Finished)
   \<and> (\<exists>s s'. reachable env0 a_three s \<and> sched_shape s = (LoopHead, 1, [Running], False)
          \<and> reachable env0 a_three s' \<and> pc s' = BarrierWait
          \<and> workers s' ! 0 = Running \<and> workers s' ! 1 = Running)"
proof -
  from three_after_barrier obtain s where
    s: "reachable env0 a_three s"
       "sched_shape s = (LoopHead, 3, [Finished, Finished, Waiting], False)"
    by auto
  then have len: "length (workers s) = 3" by (simp add: sched_shape_def)
  have f0: "workers s ! 0 = Finished"
    using C9_barrier_ordering[where k=env0 and a=a_three and s=s and b=1 and j=2 and i=0,
        THEN conjunct1] s(1) len three_items(2)
    by simp
  have f1: "workers s ! 1 = Finished"
    using C9_barrier_ordering[where k=env0 and a=a_three and s=s and b=1 and j=2 and i=1,
        THEN conjunct1] s(1) len three_items(2)
    by simp
  from three_first_running obtain t where
    t: "reachable env0 a_three t" "sched_shape t = (LoopHead, 1, [Running], False)"
    by auto
  have "\<exists>s'. reachable env0 a_three s' \<and> pc s' = BarrierWait
          \<and> workers s' ! 0 = Running \<and> workers s' ! 1 = Running"
    using C9_barrier_ordering[where k=env0 and a=a_three and s=t and b=1 and i=0,
        THEN conjunct2] t three_items
    by (simp add: sched_shape_def running_def)
  with s(1) len f0 f1 t three_items(2) show ?thesis by blast
qed

text \<open>
  C8.  \<open>HandleError\<close> raises the abort signal exactly when the \<open>AbortOnError\<close> option is
  set.  Every operation, and every run of the scheduler, leaves a raised signal raised, and
  raises it only with that option and a newly recorded error (the hook engine being assumed
  to do the same).  With the signal raised the loop over the apply objects returns at once
  with the state as it is, whatever remains of the list, and no run of the scheduler starts
  a further goroutine or advances to a further item; the goroutines already started still
  get their permit and still run their item to its end.
\<close>

theorem C8_abortSignal_monotonic:
  assumes hk: "hooks_frame k"
  shows
    "abortSignal (HandleError ref e a) = (abortSignal a \<or> AbortOnError (opt a))
     \<and> (applyDeploymentItem fuel k d a = Ok a1 \<longrightarrow> abort_monotone a a1)
     \<and> (ApplyObject k x replaced hook a = Ok a2 \<longrightarrow> abort_monotone a a2)
     \<and> abort_monotone a (snd (DeleteObject k ref hook a))
     \<and> (WaitReadiness fuel k ref timeout a = Ok (ready, a3) \<longrightarrow> abort_monotone a a3)
     \<and> (ReplaceObject fuel k ref firstVersion callback a = Ok a4 \<longrightarrow> abort_monotone a a4)
     \<and> (abortSignal a \<longrightarrow> applyObjects_loop fuel k d i n objs startTime didLog a = Ok a)
     \<and> ((step k ds)\<^sup>*\<^sup>* s s' \<longrightarrow> abort_monotone (au s) (au s'))
     \<and> ((step k ds)\<^sup>*\<^sup>* s s' \<and> abortSignal (au s) \<longrightarrow>
          abortSignal (au s') \<and> length (workers s') = length (workers s)
          \<and> next_item s' = next_item s)
     \<and> (abortSignal (au s) \<and> j < length (workers s) \<and> workers s ! j = Waiting
          \<and> running s < 8 \<longrightarrow>
          step k ds s (s\<lparr>workers := (workers s)[j := Running]\<rparr>))
     \<and> (abortSignal (au s) \<and> j < length (workers s) \<and> workers s ! j = Running
          \<and> applyDeploymentItem fuel k (ds ! j) (au s) = Ok a5 \<longrightarrow>
          step k ds s (s\<lparr>au := a5, workers := (workers s)[j := Finished]\<rparr>))"
proof (intro conjI impI; (elim conjE)?)
  show "abortSignal (HandleError ref e a) = (abortSignal a \<or> AbortOnError (opt a))"
    by (rule HandleError_abortSignal)
next
  assume "applyDeploymentItem fuel k d a = Ok a1"
  then show "abort_monotone a a1"
    by (intro frame_abort_monotone frame_applyDeploymentItem[OF hk _ frame_refl])
next
  assume "ApplyObject k x replaced hook a = Ok a2"
  then show "abort_monotone a a2"
    by (intro frame_abort_monotone frame_ApplyObject[OF _ frame_refl])
next
  show "abort_monotone a (snd (DeleteObject k ref hook a))"
    by (cases "DeleteObject k ref hook a")
       (auto intro: frame_abort_monotone frame_DeleteObject[OF _ frame_refl])
next
  assume "WaitReadiness fuel k ref timeout a = Ok (ready, a3)"
  then show "abort_monotone a a3"
    by (intro frame_abort_monotone frame_WaitReadiness[OF _ frame_refl])
next
  assume "ReplaceObject fuel k ref firstVersion callback a = Ok a4"
  then show "abort_monotone a a4"
    unfolding ReplaceObject_def
    by (intro frame_abort_monotone frame_ReplaceObject_loop[OF _ frame_refl])
next
  assume "abortSignal a"
  then show "applyObjects_loop fuel k d i n objs startTime didLog a = Ok a"
    by (rule applyObjects_loop_aborted)
next
  assume "(step k ds)\<^sup>*\<^sup>* s s'"
  then show "abort_monotone (au s) (au s')"
    by (intro frame_abort_monotone frame_steps[OF hk])
next
  assume st: "(step k ds)\<^sup>*\<^sup>* s s'" and ab: "abortSignal (au s)"
  from steps_aborted[OF hk st ab]
  show "abortSignal (au s')" "length (workers s') = length (workers s)"
    "next_item s' = next_item s"
    by simp_all
next
  assume "abortSignal (au s)" "j < length (workers s)" "workers s ! j = Waiting" "running s < 8"
  then show "step k ds s (s\<lparr>workers := (workers s)[j := Running]\<rparr>)"
    by (intro step_acquire)
next
  assume "abortSignal (au s)" "j < length (workers s)" "workers s ! j = Running"
    "applyDeploymentItem fuel k (ds ! j) (au s) = Ok a5"
  then show "step k ds s (s\<lparr>au := a5, workers := (workers s)[j := Finished]\<rparr>)"
    by (intro step_work)
qed

lemma hooks_frame_env_internal: "hooks_frame env_internal"
  by (simp add: hooks_frame_def env_internal_def env_conflict_def env0_def frame_refl)

theorem C8_abortSignal_monotonic_witness:
  "hooks_frame env_internal
   \<and> \<not> abortSignal a_abort \<and> abortSignal a_aborted
   \<and> (\<exists>a1. applyDeploymentItem 1 env_internal item_two a_abort = Ok a1
          \<and> abort_monotone a_abort a1 \<and> abortSignal a1
          \<and> trace a1 = [pctx_SetTotal 2, RunHooks_call [], pctx_Infof (MsgApplyingObjects 2),
                         Now_call,
                         pctx_SetStatus (MsgApplyingObjectOf ref_web 1 2),
                         Log_Debugf ref_web MsgApplyingObject,
                         PatchObject_call obj_web
                           \<lparr>patch_ForceDryRun = False, patch_ForceApply = False\<rparr>,
                         pctx_Increment, Now_call,
                         RunHooks_call [],
                         pctx_SetStatus (MsgFinalStatus 0 0 0 0 1 0), pctx_Finish])
   \<and> applyObjects_loop 1 env_internal item_two 0 2 [obj_web, obj_foo] 0 False a_aborted
       = Ok a_aborted
   \<and> (step env_internal [item_two])\<^sup>*\<^sup>* s_aborted (s_aborted\<lparr>pc := FinalWait\<rparr>)
   \<and> length (workers (s_aborted\<lparr>pc := FinalWait\<rparr>)) = 0
   \<and> (\<exists>a5. applyDeploymentItem 1 env_internal item_two a_aborted = Ok a5
          \<and> step env_internal [item_two] s_aborted_running
               (s_aborted_running\<lparr>au := a5, workers := [Finished]\<rparr>))"
proof -
  note hk = hooks_frame_env_internal
  have n0: "\<not> abortSignal a_abort" by (simp add: abort_defs fixture_defs)
  have ab: "abortSignal a_aborted"
    using C8_abortSignal_monotonic[OF hk, where a=a_abort and ref=ref_web
        and e="StatusError InternalError []", THEN conjunct1]
    by (simp add: abort_defs fixture_defs)
  have run: "map_result trace (applyDeploymentItem 1 env_internal item_two a_abort)
      = Ok [pctx_SetTotal 2, RunHooks_call [], pctx_Infof (MsgApplyingObjects 2), Now_call,
            pctx_SetStatus (MsgApplyingObjectOf ref_web 1 2),
            Log_Debugf ref_web MsgApplyingObject,
            PatchObject_call obj_web \<lparr>patch_ForceDryRun = False, patch_ForceApply = False\<rparr>,
            pctx_Increment, Now_call, RunHooks_call [],
            pctx_SetStatus (MsgFinalStatus 0 0 0 0 1 0), pctx_Finish]
      \<and> map_result abortSignal (applyDeploymentItem 1 env_internal item_two a_abort) = Ok True"
    by (simp add: applyDeploymentItem_def selectHooks_def initialDeploy_def applyObjects_def
          fixture_defs obj_foo_def ref_foo_def env_internal_def env_conflict_def abort_defs op_defs ApplyObject_def
          ApplyObject_prepare_def ApplyObject_patch_def handleNewCRDs_def
          ApplyObject_classify_def IsConflict_def IsInternalError_def Second_def
          GetK8sAnnotation_def logApplied_def waitReadiness_def)
  then obtain a1 where a1: "applyDeploymentItem 1 env_internal item_two a_abort = Ok a1"
    by (cases "applyDeploymentItem 1 env_internal item_two a_abort") auto
  have m1: "abort_monotone a_abort a1"
    using C8_abortSignal_monotonic[OF hk, where a=a_abort and fuel=1 and d=item_two and ?a1.0=a1,
        THEN conjunct2, THEN conjunct1] a1
    by simp
  have loop: "applyObjects_loop 1 env_internal item_two 0 2 [obj_web, obj_foo] 0 False a_aborted
       = Ok a_aborted"
    using C8_abortSignal_monotonic[OF hk, where a=a_aborted and fuel=1 and d=item_two
        and i=0 and n=2 and objs="[obj_web, obj_foo]" and startTime=0 and didLog=False,
        THEN conjunct2, THEN conjunct2, THEN conjunct2, THEN conjunct2, THEN conjunct2,
        THEN conjunct2, THEN conjunct1] ab
    by simp
  have st: "step env_internal [item_two] s_aborted (s_aborted\<lparr>pc := FinalWait\<rparr>)"
    by (rule step_break) (use ab in \<open>simp_all add: s_aborted_def\<close>)
  then have sts: "(step env_internal [item_two])\<^sup>*\<^sup>* s_aborted (s_aborted\<lparr>pc := FinalWait\<rparr>)"
    by (rule r_into_rtranclp)
  have len: "length (workers (s_aborted\<lparr>pc := FinalWait\<rparr>)) = 0"
    using C8_abortSignal_monotonic[OF hk, where s=s_aborted and s'="s_aborted\<lparr>pc := FinalWait\<rparr>"
        and ds="[item_two]",
        THEN conjunct2, THEN conjunct2, THEN conjunct2, THEN conjunct2, THEN conjunct2,
        THEN conjunct2, THEN conjunct2, THEN conjunct2, THEN conjunct1] sts ab
    by (simp add: s_aborted_def)
  obtain a5 where a5: "applyDeploymentItem 1 env_internal item_two a_aborted = Ok a5"
    by (simp add: applyDeploymentItem_def selectHooks_def initialDeploy_def applyObjects_def
          fixture_defs obj_foo_def ref_foo_def env_internal_def env_conflict_def abort_defs op_defs)
  have w: "step env_internal [item_two] s_aborted_running
               (s_aborted_running\<lparr>au := a5, workers := [Finished]\<rparr>)"
    using C8_abortSignal_monotonic[OF hk, where s=s_aborted_running and j=0 and ds="[item_two]"
        and fuel=1 and ?a5.0=a5,
        THEN conjunct2, THEN conjunct2, THEN conjunct2, THEN conjunct2, THEN conjunct2,
        THEN conjunct2, THEN conjunct2, THEN conjunct2, THEN conjunct2, THEN conjunct2] ab a5
    by (simp add: s_aborted_running_def)
  from run a1 have t1: "trace a1 = [pctx_SetTotal 2, RunHooks_call [], pctx_Infof (MsgApplyingObjects 2),
            Now_call, pctx_SetStatus (MsgApplyingObjectOf ref_web 1 2),
            Log_Debugf ref_web MsgApplyingObject,
            PatchObject_call obj_web \<lparr>patch_ForceDryRun = False, patch_ForceApply = False\<rparr>,
            pctx_Increment, Now_call, RunHooks_call [],
            pctx_SetStatus (MsgFinalStatus 0 0 0 0 1 0), pctx_Finish]"
    and ab1: "abortSignal a1" by simp_all
  from hk n0 ab a1 m1 ab1 t1 loop sts len a5 w show ?thesis by blast
qed

end
